theory Spec2Isabelle
  imports Main "HOL-Library.Word"
begin

section \<open>JavaScript values\<close>

text \<open>
  The repository is two JavaScript files, each a single statement that binds the global
  variable \<open>tipuesearch\<close> to an object literal. A JavaScript string is a sequence of 16-bit
  code units (UTF-16); every character of the two files lies in the Basic Multilingual
  Plane, so each is one code unit. \<open>asc\<close> embeds a run of ASCII characters; code units
  beyond ASCII are written as hexadecimal numerals.
\<close>

type_synonym jsstring = "16 word list"

definition asc :: "string \<Rightarrow> jsstring" where
  "asc s = map of_char s"

text \<open>
  The values the literals are built from. An object keeps its property definitions in the
  order of the source.
\<close>

datatype jsvalue =
    JUndefined
  | JNull
  | JBoolean bool
  | JString jsstring
  | JArray "jsvalue list"
  | JObject "(jsstring \<times> jsvalue) list"

text \<open>
  Reading a property of an object: when a literal defines a name twice the later definition
  wins, and a name that is not defined reads as \<open>undefined\<close>. The own property names are
  listed in the order of their first definition. (None of the names below is an array
  index, which JavaScript would list first.)
\<close>

fun get_prop :: "jsvalue \<Rightarrow> jsstring \<Rightarrow> jsvalue" where
  "get_prop (JObject kvs) k = (case map_of (rev kvs) k of Some v \<Rightarrow> v | None \<Rightarrow> JUndefined)"
| "get_prop JUndefined k = JUndefined"
| "get_prop JNull k = JUndefined"
| "get_prop (JBoolean b) k = JUndefined"
| "get_prop (JString s) k = JUndefined"
| "get_prop (JArray xs) k = JUndefined"

fun own_keys :: "jsvalue \<Rightarrow> jsstring list" where
  "own_keys (JObject kvs) = rev (remdups (rev (map fst kvs)))"
| "own_keys JUndefined = []"
| "own_keys JNull = []"
| "own_keys (JBoolean b) = []"
| "own_keys (JString s) = []"
| "own_keys (JArray xs) = []"

fun is_string :: "jsvalue \<Rightarrow> bool" where
  "is_string (JString s) = True"
| "is_string JUndefined = False"
| "is_string JNull = False"
| "is_string (JBoolean b) = False"
| "is_string (JArray xs) = False"
| "is_string (JObject kvs) = False"

fun is_object :: "jsvalue \<Rightarrow> bool" where
  "is_object (JObject kvs) = True"
| "is_object JUndefined = False"
| "is_object JNull = False"
| "is_object (JBoolean b) = False"
| "is_object (JString s) = False"
| "is_object (JArray xs) = False"

section \<open>Programs: global variable declarations\<close>

text \<open>
  The only statement of either file is \<^verbatim>\<open>var x = literal;\<close>, which binds the global
  \<open>x\<close> to the literal's value. A file is the list of its statements, run in order on the
  global environment.
\<close>

type_synonym env = "jsstring \<rightharpoonup> jsvalue"

datatype stmt = VarDecl jsstring jsvalue

type_synonym program = "stmt list"

fun exec :: "stmt \<Rightarrow> env \<Rightarrow> env" where
  "exec (VarDecl x v) e = e(x \<mapsto> v)"

definition run :: "program \<Rightarrow> env \<Rightarrow> env" where
  "run p e = fold exec p e"

section \<open>The two data files\<close>

subsection \<open>The file \<^verbatim>\<open>content/tipuesearch_content.js\<close>\<close>

text \<open>
  The file is the single statement \<^verbatim>\<open>var tipuesearch = {"pages": [...]};\<close>.
  Each record of the array is one definition \<open>content_page_i\<close> (in the order of the file,
  counted from 0) and its \<open>text\<close> literal is \<open>content_text_i\<close>. An escape sequence of
  the source (for a line feed, an apostrophe, the no-break space 0x00A0 and the ideographic
  space 0x3000) is written as the code unit it denotes.
\<close>

definition content_text_0 :: jsstring where
  \<open>content_text_0 =
    asc ''This is  https://github.com/mdecourse/cmstemplate \<newline>'' @
    asc '' '' @
    [0x96FB, 0x8166, 0x8F14, 0x52A9, 0x8A2D, 0x8A08, 0x5BA4, 0x8207, 0x5354, 0x540C, 0x8A2D, 0x8A08,
     0x5BA4, 0x884C, 0x4E8B, 0x66C6] @ asc '' \<newline>'' @
    asc '' '' @ [0x5168, 0x9801, 0x6AA2, 0x8996] @ asc '' \<newline>'' @
    asc '' \<newline>''\<close>

definition content_text_1 :: jsstring where
  \<open>content_text_1 =
    asc ''KMOLab '' @
    [0x6240, 0x958B, 0x8A2D, 0x8AB2, 0x7A0B, 0x76EE, 0x7684, 0x662F, 0x5C07, 0x64CB, 0x5728, 0x6A5F,
     0x68B0, 0x5DE5, 0x7A0B, 0x5E2B, 0x9762, 0x524D, 0x7684, 0x4E09, 0x9053, 0x7246] @ asc '', '' @
    [0x76F4, 0x63A5, 0x5229, 0x7528, 0x8AB2, 0x7A0B, 0x8B1B, 0x6388, 0x7684, 0x904E, 0x7A0B] @
    asc '', '' @ [0x4E00, 0x4E00, 0x5448, 0x73FE] @ asc '', '' @
    [0x8B93, 0x5927, 0x5BB6, 0x6709, 0x53CA, 0x6642, 0x627E, 0x51FA, 0x7A81, 0x7834, 0x9019, 0x4E09,
     0x9053, 0x969C, 0x7919, 0x7684, 0x6A5F, 0x6703] @ asc '', '' @
    [0x4E0D, 0x50C5, 0x8B93, 0x5404, 0x81EA, 0x7684, 0x6F5B, 0x80FD, 0x6709, 0x6240, 0x767C, 0x63EE] @
    asc '', '' @
    [0x540C, 0x6642, 0x4E5F, 0x5E0C, 0x671B, 0x5927, 0x5BB6, 0x80FD, 0x66F4, 0x81EA, 0x5728, 0x5730,
     0x9762, 0x5C0D, 0x672A, 0x4F86, 0x7684, 0x66F4, 0x591A, 0x6311, 0x6230] @ asc ''. '' @
    [0x9019, 0x4E09, 0x9053, 0x7246, 0x5206, 0x5225, 0x662F] @ asc '': \<newline>'' @
    asc '' '' @ [0x7406, 0x8AD6, 0x57FA, 0x790E, 0x969C, 0x7919] @ asc '' '' @
    [0x5BE6, 0x52D9, 0x7DF4, 0x7FD2, 0x969C, 0x7919] @ asc '' '' @
    [0x78BA, 0x7ACB, 0x76EE, 0x6A19, 0x969C, 0x7919] @ asc '' \<newline>'' @
    asc '' '' @ [0x7406, 0x8AD6, 0x57FA, 0x790E, 0x969C, 0x7919] @ asc '' \<newline>'' @
    asc '' '' @
    [0x6240, 0x8B02, 0x7684, 0x7406, 0x8AD6, 0x57FA, 0x790E, 0x969C, 0x7919, 0x5C31, 0x662F, 0x6280,
     0x8077, 0x9AD4, 0x7CFB, 0x5B78, 0x751F, 0x5728, 0x9AD8, 0x4E2D, 0x968E, 0x6BB5, 0x7D93, 0x5E38,
     0x758F, 0x5FFD, 0x7684, 0x82F1, 0x6587] @ asc '', '' @
    [0x6578, 0x5B78, 0x8207, 0x908F, 0x8F2F, 0x601D, 0x8003, 0x8207, 0x7372, 0x53D6, 0x5B78, 0x554F,
     0x7684, 0x57FA, 0x672C, 0x80FD, 0x529B] @ asc ''. '' @
    [0x4E5F, 0x5C31, 0x662F, 0x82F1, 0x6587, 0x807D, 0x8AAA, 0x8B80, 0x5BEB, 0x7684, 0x57FA, 0x672C,
     0x80FD, 0x529B] @ asc '', '' @
    [0x6578, 0x5B78, 0x57FA, 0x672C, 0x80FD, 0x529B, 0x8207, 0x4E86, 0x89E3, 0x5982, 0x4F55, 0x900F,
     0x904E, 0x908F, 0x8F2F, 0x601D, 0x8003, 0x89E3, 0x984C] @ asc '', '' @
    [0x4E26, 0x4E14, 0x5B78, 0x7FD2, 0x5982, 0x4F55, 0x767C, 0x554F] @ asc '', '' @
    [0x5982, 0x4F55, 0x8207, 0x4EBA, 0x5354, 0x540C, 0x5408, 0x4F5C, 0x89E3, 0x6C7A, 0x554F, 0x984C,
     0x7684, 0x80FD, 0x529B] @ asc ''. \<newline>'' @
    asc '' '' @ [0x5BE6, 0x52D9, 0x7DF4, 0x7FD2, 0x969C, 0x7919] @ asc '' \<newline>'' @
    asc '' '' @
    [0x7B2C, 0x4E8C, 0x9053, 0x7246, 0x5247, 0x662F, 0x5BE6, 0x52D9, 0x7DF4, 0x7FD2, 0x969C, 0x7919] @
    asc '', '' @
    [0x8A31, 0x591A, 0x4EBA, 0x4E0D, 0x9858, 0x610F, 0x82B1, 0x6642, 0x9593, 0x5728, 0x7A81, 0x7834,
     0x4E0A, 0x8FF0, 0x7B2C, 0x4E00, 0x9053, 0x969C, 0x7919, 0x7684, 0x539F, 0x56E0] @ asc '', '' @
    [0x901A, 0x5E38, 0x662F, 0x56E0, 0x70BA, 0x4E0D, 0x77E5, 0x9053, 0x5B78, 0x7FD2, 0x9019, 0x4E9B,
     0x76F8, 0x5C0D, 0x62BD, 0x8C61, 0x7684, 0x77E5, 0x8B58, 0x6709, 0x751A, 0x9EBC, 0x7528, 0x8655] @
    asc ''? '' @ [0x56E0, 0x6B64] @ asc '', '' @
    [0x70BA, 0x4E86, 0x51F8, 0x986F, 0x7A81, 0x7834, 0x7B2C, 0x4E00, 0x9053, 0x7246, 0x7684, 0x91CD,
     0x8981, 0x6027] @ asc '', '' @
    [0x5C31, 0x5FC5, 0x9808, 0x8981, 0x900F, 0x904E, 0x5BE6, 0x969B, 0x7684, 0x8AB2, 0x7A0B, 0x6848,
     0x4F8B] @ asc '', '' @
    [0x8B93, 0x5927, 0x5BB6, 0x4E86, 0x89E3, 0x4E00, 0x65E6, 0x80FD, 0x7A81, 0x7834, 0x7B2C, 0x4E00,
     0x9053, 0x7246, 0x7684, 0x969C, 0x7919, 0x5F8C] @ asc '', '' @
    [0x990A, 0x6210, 0x6301, 0x7E8C, 0x5B78, 0x7FD2, 0x9019, 0x4E9B, 0x7406, 0x8AD6, 0x57FA, 0x790E,
     0x5167, 0x5BB9, 0x4E4B, 0x5F8C] @ asc '', '' @
    [0x5C31, 0x53EF, 0x4EE5, 0x76F8, 0x5C0D, 0x7528, 0x6BD4, 0x8F03, 0x6709, 0x6548, 0x7387, 0x7684,
     0x65B9, 0x5F0F, 0x89E3, 0x6C7A, 0x5404, 0x7A2E, 0x554F, 0x984C] @ asc ''. \<newline>'' @
    asc '' '' @
    [0x4F46, 0x662F, 0x9019, 0x9700, 0x8981, 0x5B78, 0x7FD2, 0x8005, 0x4ED8, 0x51FA, 0x6642, 0x9593,
     0x8207, 0x8010, 0x6027] @ asc '', '' @
    [0x7576, 0x9762, 0x5C0D, 0x5B8C, 0x5168, 0x964C, 0x751F, 0x8B70, 0x984C, 0x6642] @ asc '', '' @
    [0x5C31, 0x5FC5, 0x9808, 0x6AA2, 0x8A0E, 0x662F, 0x5426, 0x7B2C, 0x4E00, 0x9053, 0x7246, 0x4ECD,
     0x7136, 0x5361, 0x5728, 0x81EA, 0x5DF1, 0x8207, 0x89E3, 0x6C7A, 0x65B9, 0x6848, 0x4E2D, 0x9593] @
    asc ''. '' @ [0x7136, 0x5F8C, 0x7528, 0x5FC3, 0x4E0D, 0x65B7, 0x601D, 0x8003] @ asc '', '' @
    [0x63A2, 0x7D22, 0x8207, 0x7DF4, 0x7FD2, 0x4E4B, 0x5F8C] @ asc '', '' @
    [0x82E5, 0x9084, 0x662F, 0x7121, 0x6CD5, 0x89E3, 0x6C7A, 0x554F, 0x984C] @ asc ''. '' @
    [0x5C31, 0x5FC5, 0x9808, 0x8981, 0x5148, 0x8A66, 0x8457, 0x63CF, 0x8FF0, 0x554F, 0x984C, 0x5F8C,
     0x518D, 0x5C0B, 0x6C42, 0x4ED6, 0x4EBA, 0x7684, 0x5354, 0x52A9] @ asc ''. \<newline>'' @
    asc '' '' @
    [0x5047, 0x5982, 0x80FD, 0x6709, 0x4EE5, 0x4E0A, 0x7684, 0x6B63, 0x78BA, 0x5B78, 0x7FD2, 0x614B,
     0x5EA6] @ asc '', '' @
    [0x5C31, 0x6709, 0x6A5F, 0x6703, 0x5728, 0x9762, 0x5C0D, 0x5404, 0x7A2E, 0x554F, 0x984C, 0x6642] @
    asc '', '' @ [0x6301, 0x7E8C, 0x7A81, 0x7834, 0x524D, 0x9762, 0x7684, 0x5169, 0x9053, 0x7246] @
    asc '', '' @
    [0x7136, 0x5F8C, 0x770B, 0x5230, 0x81EA, 0x5DF1, 0x6240, 0x8FFD, 0x6C42, 0x7684, 0x7B2C, 0x4E09,
     0x9053, 0x7246] @ asc '', '' @
    [0x4E26, 0x4E14, 0x6B64, 0x5F8C, 0x80FD, 0x5920, 0x7AED, 0x76E1, 0x5168, 0x529B] @ asc '', '' @
    [0x7FFB, 0x95B1, 0x7B2C, 0x4E09, 0x9053, 0x7246, 0x7684, 0x969C, 0x7919] @ asc '', '' @
    [0x7A4D, 0x6975, 0x9054, 0x6210, 0x9810, 0x5B9A, 0x76EE, 0x6A19] @ asc ''. \<newline>'' @
    asc '' '' @ [0x78BA, 0x7ACB, 0x76EE, 0x6A19, 0x969C, 0x7919] @ asc '' \<newline>'' @
    asc '' '' @ [0x4F60, 0x7684, 0x4EBA, 0x751F, 0x76EE, 0x6A19, 0x662F, 0x751A, 0x9EBC] @ asc ''?''\<close>

definition content_text_2 :: jsstring where
  \<open>content_text_2 =
    [0x7DB2, 0x8A8C] @ asc '': \<newline>'' @
    asc '' https://www.blogger.com/ \<newline>'' @
    asc '' https://blog.getpelican.com/ \<newline>'' @
    asc '' '' @ [0x8AD6, 0x58C7] @ asc '': \<newline>'' @
    asc '' https://www.discourse.org/ \<newline>'' @
    asc '' https://jpme.eng.nfu.edu.tw \<newline>'' @
    asc '' https://forum.eng.nfu.edu.tw \<newline>'' @
    asc '' Blogger, Pelican '' @ [0x8207] @ asc '' Discourse '' @
    [0x5167, 0x5BB9, 0x80FD, 0x4E0D, 0x80FD, 0x6574, 0x5408, 0x4E26, 0x540C, 0x6B65] @
    asc ''? \<newline>'' @
    asc '' https://mdecourse.blogspot.com/2020/05/pelican-blogger_21.html   \<newline>'' @
    asc '' https://meta.discourse.org/t/how-can-i-implement-a-blog-page-in-discourse-forum-softwar'' @
    asc ''e/48496/6   \<newline>''\<close>

definition content_text_3 :: jsstring where
  \<open>content_text_3 =
    [0x6A5F, 0x68B0, 0x5DE5, 0x7A0B, 0x5E2B, 0x7531, 0x65BC, 0x5FC5, 0x9808, 0x5728, 0x500B, 0x4EBA,
     0x96FB, 0x8166, 0x4E0A, 0x7E6A, 0x88FD, 0x4E26, 0x986F, 0x793A] @ asc '' 3D '' @
    [0x96F6, 0x7D44, 0x4EF6] @ asc '', '' @
    [0x56E0, 0x6B64, 0x500B, 0x4EBA, 0x96FB, 0x8166, 0x901A, 0x5E38, 0x9700, 0x8981, 0x914D, 0x5099,
     0x7368, 0x7ACB, 0x986F, 0x793A, 0x5361] @ asc '', '' @
    [0x5176, 0x57FA, 0x672C, 0x898F, 0x683C, 0x8207, 0x96FB, 0x7AF6, 0x6A5F, 0x985E, 0x4F3C] @
    asc '': \<newline>'' @
    asc '' https://www.crucial.tw/articles/for-gamers/the-best-specs-for-a-gaming-pc \<newline>'' @
    asc '' CPU ( Central Processing Unit ) - '' @ [0x4E2D, 0x592E, 0x8655, 0x7406, 0x5668] @
    asc '' \<newline>'' @
    asc '' Intel Processor:  https://en.wikipedia.org/wiki/List_of_Intel_processors \<newline>'' @
    asc '' AMD Processor:  https://en.wikipedia.org/wiki/List_of_AMD_processors \<newline>'' @
    asc '' ARM Architecture:  https://en.wikipedia.org/wiki/ARM_architecture \<newline>'' @
    asc '' Apple Designed Processor:'' @ [0x00A0] @
    asc '' https://en.wikipedia.org/wiki/Apple-designed_processors  '' @ [0x3000] @
    asc '' \<newline>'' @
    asc '' FULL HD ( High Definition ) \<newline>'' @
    asc '' Motherboard  '' @ [0x4E3B, 0x6A5F, 0x677F] @ asc '' \<newline>'' @
    asc '' RAM ( Random-Access Memory ) \<newline>'' @
    asc '' DDR ( Double Data Rate ) \<newline>'' @
    asc '' '' @ [0x4F55, 0x8B02] @ asc '' HDD/SSD? '' @ [0x6709, 0x4F55, 0x5DEE, 0x5225] @
    asc ''? \<newline>'' @
    asc '' '' @ [0x4F55, 0x8B02] @ asc '' RPM? \<newline>'' @
    asc '' '' @ [0x4F55, 0x8B02] @ asc '' ATA'' @ [0x3001] @ asc ''PATA'' @ [0x3001, 0x8207] @
    asc '' SATA '' @ [0x9023, 0x63A5, 0x57E0] @ asc ''? '' @ [0x6709, 0x4F55, 0x5DEE, 0x5225] @
    asc ''? \<newline>'' @
    asc '' '' @ [0x4F55, 0x8B02] @ asc '' Video Card? \<newline>'' @
    asc '' '' @ [0x4F55, 0x8B02] @ asc '' fps? \<newline>'' @
    asc '' '' @ [0x4F55, 0x8B02] @ asc '' DVI? \<newline>'' @
    asc '' '' @ [0x4F55, 0x8B02] @ asc '' HDMI? \<newline>'' @
    asc '' '' @ [0x4F55, 0x8B02] @ asc ''  LED ? \<newline>'' @
    asc '' '' @ [0x4F55, 0x8B02] @ asc '' DirectX? \<newline>'' @
    asc '' '' @ [0x4F55, 0x8B02] @ asc ''  Watt ? \<newline>'' @
    asc '' '' @ [0x4F55, 0x8B02] @ asc ''  Power ? \<newline>'' @
    asc '' '' @ [0x4F55, 0x8B02] @ asc '' Hz ( Hertz )? \<newline>'' @
    asc '' Computer Monitor \<newline>'' @
    asc '' '' @ [0x4F55, 0x8B02] @ asc '' ppi?''\<close>

definition content_text_4 :: jsstring where
  \<open>content_text_4 =
    asc ''Understanding bandwidth Bandwidth refers to the data rate that is supported by the '' @
    asc ''network connection or the interfaces that connect to the network. It represents both '' @
    asc ''volume and time, representing the amount of data that can be transmitted between two '' @
    asc ''points in a set period of time. It is usually expressed in terms of bits per second '' @
    asc ''(bps), or sometimes in bytes per second (Bps). Network bandwidth represents the '' @
    asc ''capacity of the network connection, though it\'s important to understand the distinction '' @
    asc ''between theoretical throughput and real-world results when figuring out the right '' @
    asc ''bandwidth formula for your network. For example, a 1000BASE-T -- which uses unshielded '' @
    asc ''twisted-pair cables -- Gigabit Ethernet (GbE) network can theoretically support 1,000 '' @
    asc ''megabits per second (Mbps), but this level can never really be achieved in practice '' @
    asc ''because of hardware and systems software overhead. One point to consider when thinking '' @
    asc ''about how to calculate bandwidth needs on your network is this: Bandwidth should not be '' @
    asc ''confused with throughput, which refers to speed. While high-bandwidth networks are '' @
    asc ''often fast, that is not always the case. A helpful metaphor when thinking about '' @
    asc ''bandwidth is cars on a highway. A high-bandwidth network is like a six-lane highway '' @
    asc ''that can fit hundreds of cars at any given moment. A low-bandwidth network is like a '' @
    asc ''single-lane road in which one car queues directly behind another. Although the large '' @
    asc ''highway is likely to move vehicles faster, rush-hour traffic can easily bring cars and '' @
    asc ''trucks to a standstill. Or, perhaps, the cars cannot get onto the highway quickly '' @
    asc ''because it\'s clogged with large delivery trucks that take up a lot of space on the '' @
    asc ''road. Similarly, even a high-bandwidth network can run slowly in the face of problems, '' @
    asc ''such as congestion and bandwidth-hungry applications. These very points make '' @
    asc ''calculating bandwidth requirements a challenge, yet the consequences of getting the '' @
    asc ''bandwidth formula wrong are considerable. If you don\'t procure enough bandwidth, you '' @
    asc ''all but guarantee the network will run slowly. However, significantly overprovisioning '' @
    asc ''bandwidth can be cost-prohibitive for most enterprises. So, how do you determine the '' @
    asc ''right formula that will meet your bandwidth requirements? The process begins with '' @
    asc ''asking the right questions: What applications are users running, and what is the '' @
    asc ''performance service-level agreement for these applications? I know some network '' @
    asc ''managers who are only concerned with how many users are on a virtual LAN. What you '' @
    asc ''really need to know is what the users will be doing on the network. It\'s possible that '' @
    asc ''200 users will cause less of a bottleneck than a group of three users that really beats '' @
    asc ''the heck out of the network because of some funky client-server application or '' @
    asc ''extensive use of a bandwidth-heavy service, like high-definition video conferencing. \<newline>'' @
    asc '' \<newline>'' @
    asc '' '' @ [0x4E86, 0x89E3] @ asc ''  https://www.wireshark.org  '' @ [0x7684, 0x7528, 0x6CD5] @
    asc '', '' @
    [0x4E26, 0x85C9, 0x4EE5, 0x63D0, 0x5347, 0x7DB2, 0x8DEF, 0x983B, 0x5BEC, 0x7684, 0x4F7F, 0x7528,
     0x6548, 0x80FD, 0x53CA, 0x5B89, 0x5168] @ asc ''. \<newline>'' @
    asc '' '' @ [0x8FD1, 0x7AEF, 0x4E0B, 0x8F09] @ asc '' \<newline>'' @
    asc '' http://a.kmol.info:88/Wireshark-win64-3.4.2.exe''\<close>

definition content_text_5 :: jsstring where
  \<open>content_text_5 =
    asc ''Not all switches are created equal. \<newline>'' @
    asc '' '' @ [0x4F86, 0x6E90] @ asc '' \<newline>'' @
    asc '' https://www.cisco.com/c/en/us/products/switches/index.html#~products \<newline>'' @
    asc '' https://www.cisco.com/c/dam/en/us/products/collateral/switches/catalyst-9300-series-swi'' @
    asc ''tches/nb-06-upgrading-cat-9300-fc-cte-en.pdf \<newline>'' @
    asc '' internally to a switch a specialized hardware is needed to move frames between ports. '' @
    asc ''This specific part can be called backplane ('' @ [0x80CC, 0x677F] @
    asc '') or in some cases we talk of switching fabric ('' @ [0x4EA4, 0x63DB, 0x7D50, 0x69CB] @
    asc ''). When the forwarding capabilities of a backplane or switching fabric are greater then '' @
    asc ''the sum of speeds of all ports (counted twice one for tx and one rx direction) we call '' @
    asc ''the switching fabric non blocking: traffic between a pair of ports is not influenced by '' @
    asc ''what traffic is exchanged on all other ports. The forwarding rate is expressed in '' @
    asc ''packet per seconds and expresses how many packets per second are needed to reach a '' @
    asc ''certain traffic volume (throughpout) Clearly forwarding rate depends on frame size. '' @
    asc ''Ideally a backplane switching fabric should be non blocking for every frame size '' @
    asc ''including the smallest ones (64 bytes in ethernet standard) but in reality most devices '' @
    asc ''can be non blocking for an average size of 400 bytes. bandwidth: the speed of traffic. '' @
    asc ''to convert between forwarding rate and used bandwidth we need to take in account some '' @
    asc ''specific aspects of ethernet: each frame has an 8 byte preamble that is used to allow '' @
    asc ''to potential receiver to synchronize with the signal between two frames a minimum '' @
    asc ''silence interval must exist to allow receiver to discriminate between two frames '' @
    asc ''preamble and inter frame gap counts for 20,2 bytes. So given an iP packet of size N the '' @
    asc ''ethernet frame has size N+18'' @ [0x00A0] @
    asc '' (header 14 bytes, FCS 4 byte) but counts as (N+18+20,2)*8 on wire 8 is number of bits '' @
    asc ''in a byte with this kind of calculation using frames of minimum size 64 bytes you need '' @
    asc ''1488000 frames per second and per direction to fill a GE port. Be also aware that all '' @
    asc ''figures you see sum tx and rx directions so if a switch has 100 M pps capability this '' @
    asc ''accounts for a certain number of GE ports at 1 Gbps full duplex. \<newline>'' @
    asc '' Do not confuse the speed of the stackwise ring with the internal switching fabric of '' @
    asc ''each stack member, they are different: the internal switching fabric should be used for '' @
    asc ''traffic between ports on the same stack member device, the stackwise bandwidth should '' @
    asc ''be used when traffic must flow between ports located on different stack members. Note: '' @
    asc ''this is just my assumption about the implementation of stack, it may be different with '' @
    asc ''the dual ring involved also for traffic between two ports on the same member switch. '' @
    asc ''(total lack of so called local switching capabilities). The stack implements a dual '' @
    asc ''ring topology between the member switches that act as an extension of the individual '' @
    asc ''switching fabrics. The speed of the ring for a stack of only 3750-X (stackwise plus) '' @
    asc ''should be 32 Gbps full duplex that allows for a very good interconnection between '' @
    asc ''member switches, but I agree it is not enough to classify the composite switching '' @
    asc ''fabric as not blocking. On the other hand, only models with 10GE ports can be '' @
    asc ''interconnected at comparable speeds. To make a comparison a C6500 equipped with Sup720 '' @
    asc ''generation route processor provides up to 40 Gbps per slot to/from the switching fabric '' @
    asc ''and some linecards are faster then that ( think of'' @ [0x00A0] @
    asc '' WS-6708 or WS-6716 with 8 and 16 tengiga ports respectively). About the forwarding '' @
    asc ''capacity in pps: for a 24 ports device is listed as 65.5 Mbps that accounts for 22 GE '' @
    asc ''ports 1Gbps full duplex with 64 byte frames. \<newline>'' @
    asc '' An original series 3750 (or 3560) fabric is 32 Gbps.'' @ [0x00A0] @
    asc '' This is different from the stack ring\'s "32 Gbps" (which is really dual 8 Gbps, '' @
    asc ''duplex). An original series 3750 (or 3560) internal fabric, in theory, is '' @
    asc ''oversubscribed by more than 16 gig ports (i.e. the "G" suffixed original models). The '' @
    asc ''terms non-blocking and blocking, when examining switch fabric isn\'t just sufficient '' @
    asc ''bandwidth capacity to forward all port bandwidths, it\'s whether the fabric\'s '' @
    asc ''architecture will block, or not, forwarding of frames even if there\'s "sufficient" '' @
    asc ''bandwidth. For example, you have three ingress ports.'' @ [0x00A0] @
    asc '' Two are sending to one egress port (2:1) and the other is sending to other egress port '' @
    asc ''(1:1).'' @ [0x00A0] @
    asc '' If 2:1 congestion on the one egress port delays (or blocks) transmission on the 1:1 '' @
    asc ''egress port, you have HOL (head-of-line) blocking even though the internal fabric\'s '' @
    asc ''bandwidth could support each ingress port sending to a separate egress port (all 1:1). '' @
    asc ''StackWise (and StackWise+), when available, use both ring ports. Original StackWise '' @
    asc ''copies ALL member switch traffic to the stack ring.'' @ [0x00A0] @
    asc '' Original StackWise source stack member also removes the traffic it placed on the stack '' @
    asc ''ring. StackWise Plus only places unicast traffic on the stack ring when destination is '' @
    asc ''not a local switch port.'' @ [0x00A0] @
    asc '' Additionally, destination switch member removes unicast packets.'' @ [0x00A0] @
    asc '' (I.e. StackWise+ uses it\'s ring much more intelligently.'' @ [0x00A0] @
    asc '' It also has dual 16 Gbps stack ring ports.'' @ [0x00A0] @
    asc '' NB:StackWise+, for the most part, reverts to StackWise operation if there\'s a '' @
    asc ''StackWise only member switch in the stack [good reason not to use such mixed stacks].) '' @
    asc ''Bits per second, is the transmission rate supported by the media.'' @ [0x00A0] @
    asc '' So, for example, 100 Mbps allows transmission of 100,000,000 bits per seconds.'' @ [0x00A0] @
    asc '' However, transferring actual data, in something like physical segments (e.g. frames) '' @
    asc ''uses some of this capacity for both framing overhead and framing delineation, so useful '' @
    asc ''capacity is less than the often quoted bps rate.'' @ [0x00A0] @
    asc '' Useful capacity percentage (of overall rate) also generally decreases as frame size '' @
    asc ''decreases.'' @ [0x00A0] @ asc '' (BTW, similar issue with disk media.'' @ [0x00A0] @
    asc '' At least disk capacity isn\'t, generally, quoted for its unformatted capacity any '' @
    asc ''longer.) The 25 Mbps throughput is rated for minimum sized packets.'' @ [0x00A0] @
    asc '' Larger packets often allow much higher throughput as the packets per second '' @
    asc ''requirement (for same bandwidth) decreases.'' @ [0x00A0] @
    asc '' (Sometimes the vendor will document PPS rates for multiple packet sizes.'' @ [0x00A0] @
    asc '' Without such documentation, or your own testing, just knowing documented performance '' @
    asc ''for one packet size you cannot accurately predict a device\'s performance for other '' @
    asc ''packet sizes.) \<newline>'' @
    asc '' '' @ [0x4F86, 0x6E90] @ asc '' \<newline>'' @
    asc '' Switch backplane bandwidth, switching capacity, packet forwarding rate difference '' @
    asc ''Backplane bandwidth refers to the entire switching capacity of the backplane, switching '' @
    asc ''capacity refers to the switching capacity of the CPU, and packet forwarding refers to '' @
    asc ''the capacity of the three-layer forwarding. First, the backplane bandwidth 1. Switch '' @
    asc ''backplane bandwidth meaning \<newline>'' @
    asc '' The backplane bandwidth of the switch, also called the backplane capacity, is the '' @
    asc ''maximum amount of data that can be handled between the switch interface processor or '' @
    asc ''the interface card and the data bus. The backplane bandwidth marks the total data '' @
    asc ''exchange capacity of the switch, in Gbps. The backplane bandwidth of a typical switch '' @
    asc ''ranges from a few Gbps to hundreds of Gbps. The higher the backplane bandwidth of a '' @
    asc ''switch, the better the ability to process data, but at the same time the design cost '' @
    asc ''will be higher. 2. The internal structure of the switch \<newline>'' @
    asc '' The utilization of backplane bandwidth resources is closely related to the internal '' @
    asc ''structure of the switch. At present, the internal structure of the switch mainly has '' @
    asc ''the following types: \<newline>'' @
    asc '' First, a shared memory structure, which relies on a central switching engine to '' @
    asc ''provide a high-performance connection for a full port, and the core engine checks each '' @
    asc ''input packet to determine a route. This method requires a large memory bandwidth and '' @
    asc ''high management cost. Especially with the increase of the switch port, the price of the '' @
    asc ''central memory will be very high, so the switch core becomes the bottleneck of '' @
    asc ''performance realization; \<newline>'' @
    asc '' the second is the cross bus structure, which can Establish a direct point-to-point '' @
    asc ''connection between ports, which is good for single-point transmission, but not suitable '' @
    asc ''for multi-point transmission; \<newline>'' @
    asc '' the third is a hybrid cross-bus structure, which is a hybrid cross-bus implementation. '' @
    asc ''Its design idea is to integrate The cross bus matrix is divided into small cross '' @
    asc ''matrices connected by a high performance bus. The advantage is that the number of '' @
    asc ''cross-buses is reduced, the cost is reduced, and bus contention is reduced; however, '' @
    asc ''the bus connecting the cross-matrix becomes a new performance bottleneck. 3. Linear '' @
    asc ''non-blocking transmission \<newline>'' @
    asc '' The best performance we can buy for the transfer machine is to require linear '' @
    asc ''non-blocking transmission. How do we investigate whether the backplane bandwidth of a '' @
    asc ''switch is sufficient? How to determine whether the design of the switch you bought is '' @
    asc ''reasonable, and there is a blocking structure design? \<newline>'' @
    asc '' Calculation formula: \<newline>'' @
    asc '' A. The sum of the number of all port capacity X ports should be less than the '' @
    asc ''backplane bandwidth, which can realize full-duplex non-blocking switching, which proves '' @
    asc ''that the switch has the conditions of maximizing data exchange performance. \<newline>'' @
    asc '' B. Full configuration throughput (Mbps) = full configuration GE port number '' @ [0x00D7] @
    asc '' 1.488 Mpps, wherein the theoretical throughput of a Gigabit port with a packet length '' @
    asc ''of 64 bytes is 1.488 Mpps. For example, a switch with up to 64 Gigabit ports should '' @
    asc ''have a full configuration throughput of 64 x 1.488 Mpps = 95.2 Mpps to ensure '' @
    asc ''non-blocking packet switching when all port line speeds are working. Example: If a '' @
    asc ''switch can provide up to 176 Gigabit ports and the declared throughput is less than '' @
    asc ''261.8 Mpps (176 x 1.488 Mpps = 261.8), then the user has reason to believe that the '' @
    asc ''switch is designed with a blocking structure. \<newline>'' @
    asc '' For 10 Gigabit Ethernet, the packet forwarding rate of a wire-speed port is 14.88 '' @
    asc ''Mpps. \<newline>'' @
    asc '' For Gigabit Ethernet, the packet forwarding rate of a wire-speed port is 1.488 Mpps. \<newline>'' @
    asc '' For Fast Ethernet, the packet forwarding rate of a wire-speed port is 0.1488 Mpps. \<newline>'' @
    asc '' For OC-12 POS ports, the packet forwarding rate of a line rate port is 1.17 Mpps. \<newline>'' @
    asc '' For the POS port of OC-48, the packet forwarding rate of one line-speed port is '' @
    asc ''468MppS. \<newline>'' @
    asc '' Therefore, if we can meet the above three conditions, then we say that this switch is '' @
    asc ''truly linear and non-blocking; the back-up rate of the switch is generally: \<newline>'' @
    asc '' Mbps, which refers to the second layer, which is used for the exchange of more than '' @
    asc ''three layers. \<newline>'' @
    asc '' Mpps 4. The backplane bandwidth does not exist in the switch with the fixed port. \<newline>'' @
    asc '' This concept is only possible with modular switches (with scalable slots that can '' @
    asc ''flexibly change the number of ports). Fixed-port switches do not have this concept, and '' @
    asc ''the backplane capacity and switching capacity of fixed-port switches are equal. The '' @
    asc ''backplane bandwidth determines the maximum bandwidth for the connection between each '' @
    asc ''board (including boards that are not yet installed in the expandable slot) and the '' @
    asc ''switching engine. Due to the different architectures of modular switches, backplane '' @
    asc ''bandwidth is not fully effective at representing the true performance of the switch. '' @
    asc ''Fixed port switches do not have the concept of backplane bandwidth. Second, the '' @
    asc ''exchange capacity \<newline>'' @
    asc '' It is the transmission capacity of the core CPU and bus, generally smaller than the '' @
    asc ''backplane bandwidth. H3C low-end LSW switching uses the store-and-forward mode. The '' @
    asc ''size of the switching capacity is determined by the bit width of the buffer (BUFFER) '' @
    asc ''and its bus frequency. That is, the switching capacity = cache bit width * cache bus '' @
    asc ''frequency = 96 * 133 = 12.8 Gbps H3C high-end switch exchange capacity can be equal to '' @
    asc ''twice the total port capacity, total port capacity = 2 * (n * 100Mbps + m * 1000Mbps) ( '' @
    asc ''n: indicates that the switch has n 100M ports, m: indicates that the switch has m 1000M '' @
    asc ''ports. \<newline>'' @
    asc '' 3. The packet forwarding rate forwarding capability is measured by the minimum packet '' @
    asc ''length. For the Ethernet minimum packet is 64BYTE, plus the frame overhead 20BYTE. '' @
    asc ''Therefore, the minimum package is 84BYTE. For a full-duplex 1000Mbps interface to '' @
    asc ''achieve line speed requirements: forwarding capacity = 1000Mbps / ((64 + 20) * 8bit) = '' @
    asc ''1.488Mpps for a full-duplex 100Mbps interface to achieve line speed requirements: '' @
    asc ''forwarding capacity = 100Mbps / ((64+20)*8bit)=0.149Mpps Unit: Mpps (Million packets '' @
    asc ''per second) This article is from the "Snow Moon Studio" blog, please be sure to keep '' @
    asc ''this source  http://xueyue8.blog.51cto.com/4650249/1765750   How is the backplane '' @
    asc ''bandwidth, switching capacity, and packet forwarding rate of the switch calculated? For '' @
    asc ''the manufacturers, the standard is higher than the line speed forwarding.''\<close>

definition content_text_6 :: jsstring where
  \<open>content_text_6 =
    asc ''''\<close>

definition content_text_7 :: jsstring where
  \<open>content_text_7 =
    asc ''https://flask.palletsprojects.com/en/1.1.x/   \<newline>''\<close>

definition content_text_8 :: jsstring where
  \<open>content_text_8 =
    asc ''https://github.com/zquestz/omniauth-google-oauth2 \<newline>'' @
    asc '' https://github.com/thephpleague/oauth2-google''\<close>

definition content_text_9 :: jsstring where
  \<open>content_text_9 =
    asc ''https://github.com/kuzmoyev/google-calendar-simple-api \<newline>''\<close>

definition content_text_10 :: jsstring where
  \<open>content_text_10 =
    asc ''https://github.com/iterative/PyDrive2  ''\<close>

definition content_text_11 :: jsstring where
  \<open>content_text_11 =
    [0x5229, 0x7528] @ asc '' Github '' @ [0x8207] @ asc '' Gitlab '' @
    [0x5009, 0x5132, 0x5EFA, 0x7ACB, 0x500B, 0x4EBA, 0x7DB2, 0x9801] @ asc '' \<newline>'' @
    asc '' '' @ [0x4F55, 0x8B02, 0x7DB2, 0x969B, 0x5167, 0x5BB9, 0x7BA1, 0x7406] @
    asc ''? \<newline>'' @
    asc '' Web-based Content Management \<newline>'' @
    asc '' Content? \<newline>'' @
    asc '' 3D '' @ [0x96F6, 0x7D44, 0x4EF6] @ asc '' \<newline>'' @
    asc '' https://www.onshape.com \<newline>'' @
    asc '' '' @ [0x82F1, 0x6587, 0x5B78, 0x7FD2, 0x7D00, 0x9304] @ asc '' \<newline>'' @
    asc '' '' @ [0x6578, 0x5B78, 0x5B78, 0x7FD2, 0x7D00, 0x9304] @ asc '' \<newline>'' @
    asc '' '' @ [0x5C08, 0x696D, 0x8AB2, 0x7A0B, 0x5B78, 0x7FD2, 0x7D00, 0x9304] @ asc '' \<newline>'' @
    asc '' Video \<newline>'' @
    asc '' https://github.com/ShareX/ShareX \<newline>'' @
    asc '' https://www.blender.org/ \<newline>'' @
    asc '' Audio \<newline>'' @
    asc '' https://www.audacityteam.org/ \<newline>'' @
    asc '' Images \<newline>'' @
    asc '' https://www.gimp.org/ \<newline>'' @
    asc '' https://inkscape.org/ \<newline>'' @
    asc '' Animation \<newline>'' @
    asc '' Github '' @ [0x662F, 0x751A, 0x9EBC] @ asc ''? \<newline>'' @
    asc '' Gitlab '' @ [0x53C8, 0x662F, 0x751A, 0x9EBC] @ asc ''? \<newline>'' @
    asc '' '' @ [0x81EA, 0x884C, 0x5728] @ asc '' Ubuntu '' @
    [0x64CD, 0x4F5C, 0x7CFB, 0x7D71, 0x4E0A, 0x5B89, 0x88DD] @ asc '' Gitlab? \<newline>'' @
    asc '' Ubuntu '' @ [0x64CD, 0x4F5C, 0x7CFB, 0x7D71] @ asc ''? \<newline>'' @
    asc '' '' @ [0x5BE6, 0x9AD4, 0x7CFB, 0x7D71] @ asc '' \<newline>'' @
    asc '' '' @ [0x865B, 0x64EC, 0x7CFB, 0x7D71] @ asc '' \<newline>'' @
    asc '' Virtualbox''\<close>

definition content_page_0 :: jsvalue where
  \<open>content_page_0 = JObject
    [(asc ''title'', JString (asc ''About'')),
     (asc ''text'', JString content_text_0),
     (asc ''tags'', JString (asc '''')),
     (asc ''url'', JString (asc ''About.html''))]\<close>

definition content_page_1 :: jsvalue where
  \<open>content_page_1 = JObject
    [(asc ''title'', JString ([0x4E09, 0x9053, 0x7246, 0x7406, 0x8AD6])),
     (asc ''text'', JString content_text_1),
     (asc ''tags'', JString (asc '''')),
     (asc ''url'', JString ([0x4E09, 0x9053, 0x7246, 0x7406, 0x8AD6] @ asc ''.html''))]\<close>

definition content_page_2 :: jsvalue where
  \<open>content_page_2 = JObject
    [(asc ''title'', JString (asc ''Blogger'')),
     (asc ''text'', JString content_text_2),
     (asc ''tags'', JString (asc '''')),
     (asc ''url'', JString (asc ''Blogger.html''))]\<close>

definition content_page_3 :: jsvalue where
  \<open>content_page_3 = JObject
    [(asc ''title'', JString ([0x500B, 0x4EBA, 0x96FB, 0x8166])),
     (asc ''text'', JString content_text_3),
     (asc ''tags'', JString (asc '''')),
     (asc ''url'', JString ([0x500B, 0x4EBA, 0x96FB, 0x8166] @ asc ''.html''))]\<close>

definition content_page_4 :: jsvalue where
  \<open>content_page_4 = JObject
    [(asc ''title'', JString (asc ''Network'')),
     (asc ''text'', JString content_text_4),
     (asc ''tags'', JString (asc '''')),
     (asc ''url'', JString (asc ''Network.html''))]\<close>

definition content_page_5 :: jsvalue where
  \<open>content_page_5 = JObject
    [(asc ''title'', JString (asc ''Switch'')),
     (asc ''text'', JString content_text_5),
     (asc ''tags'', JString (asc '''')),
     (asc ''url'', JString (asc ''Switch.html''))]\<close>

definition content_page_6 :: jsvalue where
  \<open>content_page_6 = JObject
    [(asc ''title'', JString (asc ''Google'')),
     (asc ''text'', JString content_text_6),
     (asc ''tags'', JString (asc '''')),
     (asc ''url'', JString (asc ''Google.html''))]\<close>

definition content_page_7 :: jsvalue where
  \<open>content_page_7 = JObject
    [(asc ''title'', JString (asc ''Flask'')),
     (asc ''text'', JString content_text_7),
     (asc ''tags'', JString (asc '''')),
     (asc ''url'', JString (asc ''Flask.html''))]\<close>

definition content_page_8 :: jsvalue where
  \<open>content_page_8 = JObject
    [(asc ''title'', JString (asc ''Oauth2'')),
     (asc ''text'', JString content_text_8),
     (asc ''tags'', JString (asc '''')),
     (asc ''url'', JString (asc ''Oauth2.html''))]\<close>

definition content_page_9 :: jsvalue where
  \<open>content_page_9 = JObject
    [(asc ''title'', JString (asc ''Calendar API'')),
     (asc ''text'', JString content_text_9),
     (asc ''tags'', JString (asc '''')),
     (asc ''url'', JString (asc ''Calendar API.html''))]\<close>

definition content_page_10 :: jsvalue where
  \<open>content_page_10 = JObject
    [(asc ''title'', JString (asc ''Drive API'')),
     (asc ''text'', JString content_text_10),
     (asc ''tags'', JString (asc '''')),
     (asc ''url'', JString (asc ''Drive API.html''))]\<close>

definition content_page_11 :: jsvalue where
  \<open>content_page_11 = JObject
    [(asc ''title'', JString (asc ''Web Site'')),
     (asc ''text'', JString content_text_11),
     (asc ''tags'', JString (asc '''')),
     (asc ''url'', JString (asc ''Web Site.html''))]\<close>

definition content_tipuesearch :: jsvalue where
  \<open>content_tipuesearch = JObject
    [(asc ''pages'', JArray
      [content_page_0, content_page_1, content_page_2, content_page_3,
       content_page_4, content_page_5, content_page_6, content_page_7,
       content_page_8, content_page_9, content_page_10, content_page_11])]\<close>

definition content_js :: program where
  \<open>content_js = [VarDecl (asc ''tipuesearch'') content_tipuesearch]\<close>

subsection \<open>The file \<^verbatim>\<open>unnamed/part_000\<close>\<close>

text \<open>
  The second file is the same single statement with 19 records: \<open>part_000_page_i\<close>
  and \<open>part_000_text_i\<close>. (After the semicolon of the statement the file ends with a
  document-separator marker, which is not JavaScript and is left out.)
\<close>

definition part_000_text_0 :: jsstring where
  \<open>part_000_text_0 =
    [0x4F55, 0x8B02, 0x7DB2, 0x969B, 0x5167, 0x5BB9, 0x7BA1, 0x7406] @ asc ''? \<newline>'' @
    asc '' '' @
    [0x5728, 0x7DB2, 0x969B, 0x9032, 0x884C, 0x6578, 0x4F4D, 0x5167, 0x5BB9, 0x8CC7, 0x6599, 0x7684,
     0x7BA1, 0x7406] @ asc '' \<newline>'' @
    asc '' '' @ [0x4F55, 0x8B02, 0x7DB2, 0x969B] @ asc ''? \<newline>'' @
    asc '' Web-based \<newline>'' @
    asc '' '' @ [0x4F55, 0x8B02] @ asc '' Web? \<newline>'' @
    asc '' World-Wide-Web \<newline>'' @
    asc '' client-browser, server-WWW server \<newline>'' @
    asc '' '' @ [0x4F55, 0x8B02, 0x6578, 0x4F4D, 0x5167, 0x5BB9] @ asc ''? \<newline>'' @
    asc '' '' @
    [0x80FD, 0x5920, 0x4EE5, 0x6578, 0x4F4D, 0x683C, 0x5F0F, 0x5132, 0x5B58, 0x7684, 0x5167, 0x5BB9] @
    asc '' \<newline>'' @
    asc '' text, equation, plot, images, audio, video, multi-media animation \<newline>'' @
    asc '' '' @ [0x4F55, 0x8B02, 0x7BA1, 0x7406] @ asc ''? \<newline>'' @
    asc '' '' @
    [0x5206, 0x9580, 0x5225, 0x985E, 0x6574, 0x7406, 0x5F8C, 0x4FBF, 0x65BC, 0x4FDD, 0x5B58] @
    asc '', '' @ [0x67E5, 0x627E] @ asc '', '' @ [0x5206, 0x4EAB, 0x6578, 0x4F4D, 0x5167, 0x5BB9] @
    asc '' \<newline>'' @
    asc '' '' @ [0x7BA1, 0x7406, 0x7684, 0x76EE, 0x7684, 0x70BA, 0x4F55] @ asc ''? \<newline>'' @
    asc '' '' @ [0x7D00, 0x9304, 0x89E3, 0x6C7A, 0x554F, 0x984C, 0x7684, 0x904E, 0x7A0B] @ asc '', '' @
    [0x671F, 0x518D, 0x6B21, 0x78B0, 0x5230, 0x985E, 0x4F3C, 0x554F, 0x984C, 0x6642, 0x53EF, 0x4EE5,
     0x5118, 0x91CF, 0x91CD, 0x7528, 0x5167, 0x5BB9] @ asc '' \<newline>'' @
    asc '' '' @
    [0x70BA, 0x4F55, 0x5927, 0x591A, 0x6578, 0x5167, 0x5BB9, 0x91CD, 0x7528, 0x53EA, 0x80FD, 0x662F,
     0x5118, 0x91CF, 0x91CD, 0x7528] @ asc ''? \<newline>'' @
    asc '' '' @ [0x56E0, 0x70BA, 0x74B0, 0x5883, 0x6703, 0x8B8A] @ asc '', '' @
    [0x5DE5, 0x5177, 0x6703, 0x8B8A] @ asc '', '' @
    [0x6574, 0x9AD4, 0x5DE5, 0x4F5C, 0x74B0, 0x5883, 0x7CFB, 0x7D71, 0x4E5F, 0x6703, 0x4E0D, 0x65B7,
     0x6539, 0x8B8A] @ asc '' \<newline>'' @
    asc '' '' @
    [0x57F7, 0x884C, 0x7DB2, 0x969B, 0x5167, 0x5BB9, 0x7BA1, 0x7406, 0x9700, 0x4E0D, 0x9700, 0x8981,
     0x5BEB, 0x7A0B, 0x5F0F] @ asc ''? \<newline>'' @
    asc '' '' @ [0x4E0D, 0x5BEB] @ asc '', '' @
    [0x53EF, 0x4EE5, 0x7528, 0x5176, 0x4ED6, 0x4EBA, 0x5BEB, 0x7684, 0x5DE5, 0x5177, 0x8207, 0x5957,
     0x4EF6] @ asc '' \<newline>'' @
    asc '' '' @ [0x81EA, 0x5DF1, 0x5BEB] @ asc '', '' @
    [0x5247, 0x53EF, 0x4EE5, 0x4F9D, 0x7167, 0x81EA, 0x5DF1, 0x6216, 0x5718, 0x968A, 0x7684, 0x9700,
     0x6C42] @ asc '', '' @
    [0x91CF, 0x8EAB, 0x8A02, 0x505A, 0x81EA, 0x5DF1, 0x9700, 0x8981, 0x7684, 0x5DE5, 0x5177, 0x6216,
     0x7BA1, 0x7406, 0x7CFB, 0x7D71] @ asc '' \<newline>'' @
    asc '' '' @ [0x5206, 0x7D44, 0x5C08, 0x984C] @ asc '': \<newline>'' @
    asc '' W3 '' @ [0x81EA, 0x9078, 0x7D44, 0x54E1] @ asc '', 6 '' @ [0x4EBA, 0x4E00, 0x7D44] @
    asc ''. \<newline>'' @
    asc '' W10 '' @ [0x4E4B, 0x5F8C, 0x7684, 0x5C08, 0x984C, 0x984C, 0x76EE, 0x81EA, 0x9078] @
    asc '', '' @ [0x4E26, 0x5728] @ asc ''  https://github.com/mdecourse/wcmj2021/discussions  '' @
    [0x9032, 0x884C, 0x8A0E, 0x8AD6] @ asc '' \<newline>'' @
    asc '' '' @ [0x8A55, 0x5206] @ asc '': \<newline>'' @
    asc '' '' @ [0x51FA, 0x5E2D] @ asc '' 10% \<newline>'' @
    asc '' '' @ [0x500B, 0x4EBA, 0x5009, 0x5132, 0x8207, 0x7DB2, 0x9801] @ asc '' 30% \<newline>'' @
    asc '' '' @ [0x6BCF, 0x9031, 0x7DB2, 0x969B, 0x7C21, 0x5831] @ asc '' html '' @ [0x8207] @
    asc '' Pdf '' @ [0x5831, 0x544A] @ asc '' 60% ('' @ [0x542B] @ asc '' Youtube '' @
    [0x64CD, 0x4F5C, 0x5F71, 0x7247] @ asc '') \<newline>'' @
    asc '' Repository template:  https://github.com/mdecourse/cmstemplate \<newline>'' @
    asc '' '' @
    [0x96FB, 0x8166, 0x8F14, 0x52A9, 0x8A2D, 0x8A08, 0x5BA4, 0x8207, 0x5354, 0x540C, 0x8A2D, 0x8A08,
     0x5BA4, 0x884C, 0x4E8B, 0x66C6] @ asc '' \<newline>'' @
    asc '' '' @ [0x5168, 0x9801, 0x6AA2, 0x8996] @ asc '' \<newline>''\<close>

definition part_000_text_1 :: jsstring where
  \<open>part_000_text_1 =
    asc ''KMOLab '' @
    [0x6240, 0x958B, 0x8A2D, 0x8AB2, 0x7A0B, 0x76EE, 0x7684, 0x662F, 0x5C07, 0x64CB, 0x5728, 0x6A5F,
     0x68B0, 0x5DE5, 0x7A0B, 0x5E2B, 0x9762, 0x524D, 0x7684, 0x4E09, 0x9053, 0x7246] @ asc '', '' @
    [0x76F4, 0x63A5, 0x5229, 0x7528, 0x8AB2, 0x7A0B, 0x8B1B, 0x6388, 0x7684, 0x904E, 0x7A0B] @
    asc '', '' @ [0x4E00, 0x4E00, 0x5448, 0x73FE] @ asc '', '' @
    [0x8B93, 0x5927, 0x5BB6, 0x6709, 0x53CA, 0x6642, 0x627E, 0x51FA, 0x7A81, 0x7834, 0x9019, 0x4E09,
     0x9053, 0x969C, 0x7919, 0x7684, 0x6A5F, 0x6703] @ asc '', '' @
    [0x4E0D, 0x50C5, 0x8B93, 0x5404, 0x81EA, 0x7684, 0x6F5B, 0x80FD, 0x6709, 0x6240, 0x767C, 0x63EE] @
    asc '', '' @
    [0x540C, 0x6642, 0x4E5F, 0x5E0C, 0x671B, 0x5927, 0x5BB6, 0x80FD, 0x66F4, 0x81EA, 0x5728, 0x5730,
     0x9762, 0x5C0D, 0x672A, 0x4F86, 0x7684, 0x66F4, 0x591A, 0x6311, 0x6230] @ asc ''. '' @
    [0x9019, 0x4E09, 0x9053, 0x7246, 0x5206, 0x5225, 0x662F] @ asc '': \<newline>'' @
    asc '' '' @ [0x7406, 0x8AD6, 0x57FA, 0x790E, 0x969C, 0x7919] @ asc '' '' @
    [0x5BE6, 0x52D9, 0x7DF4, 0x7FD2, 0x969C, 0x7919] @ asc '' '' @
    [0x78BA, 0x7ACB, 0x76EE, 0x6A19, 0x969C, 0x7919] @ asc '' \<newline>'' @
    asc '' '' @ [0x7406, 0x8AD6, 0x57FA, 0x790E, 0x969C, 0x7919] @ asc '' \<newline>'' @
    asc '' '' @
    [0x6240, 0x8B02, 0x7684, 0x7406, 0x8AD6, 0x57FA, 0x790E, 0x969C, 0x7919, 0x5C31, 0x662F, 0x6280,
     0x8077, 0x9AD4, 0x7CFB, 0x5B78, 0x751F, 0x5728, 0x9AD8, 0x4E2D, 0x968E, 0x6BB5, 0x7D93, 0x5E38,
     0x758F, 0x5FFD, 0x7684, 0x82F1, 0x6587] @ asc '', '' @
    [0x6578, 0x5B78, 0x8207, 0x908F, 0x8F2F, 0x601D, 0x8003, 0x8207, 0x7372, 0x53D6, 0x5B78, 0x554F,
     0x7684, 0x57FA, 0x672C, 0x80FD, 0x529B] @ asc ''. '' @
    [0x4E5F, 0x5C31, 0x662F, 0x82F1, 0x6587, 0x807D, 0x8AAA, 0x8B80, 0x5BEB, 0x7684, 0x57FA, 0x672C,
     0x80FD, 0x529B] @ asc '', '' @
    [0x6578, 0x5B78, 0x57FA, 0x672C, 0x80FD, 0x529B, 0x8207, 0x4E86, 0x89E3, 0x5982, 0x4F55, 0x900F,
     0x904E, 0x908F, 0x8F2F, 0x601D, 0x8003, 0x89E3, 0x984C] @ asc '', '' @
    [0x4E26, 0x4E14, 0x5B78, 0x7FD2, 0x5982, 0x4F55, 0x767C, 0x554F] @ asc '', '' @
    [0x5982, 0x4F55, 0x8207, 0x4EBA, 0x5354, 0x540C, 0x5408, 0x4F5C, 0x89E3, 0x6C7A, 0x554F, 0x984C,
     0x7684, 0x80FD, 0x529B] @ asc ''. \<newline>'' @
    asc '' http://mde.tw/cad2020/content/W10-W14.html \<newline>'' @
    asc '' '' @ [0x5BE6, 0x52D9, 0x7DF4, 0x7FD2, 0x969C, 0x7919] @ asc '' \<newline>'' @
    asc '' '' @
    [0x7B2C, 0x4E8C, 0x9053, 0x7246, 0x5247, 0x662F, 0x5BE6, 0x52D9, 0x7DF4, 0x7FD2, 0x969C, 0x7919] @
    asc '', '' @
    [0x8A31, 0x591A, 0x4EBA, 0x4E0D, 0x9858, 0x610F, 0x82B1, 0x6642, 0x9593, 0x5728, 0x7A81, 0x7834,
     0x4E0A, 0x8FF0, 0x7B2C, 0x4E00, 0x9053, 0x969C, 0x7919, 0x7684, 0x539F, 0x56E0] @ asc '', '' @
    [0x901A, 0x5E38, 0x662F, 0x56E0, 0x70BA, 0x4E0D, 0x77E5, 0x9053, 0x5B78, 0x7FD2, 0x9019, 0x4E9B,
     0x76F8, 0x5C0D, 0x62BD, 0x8C61, 0x7684, 0x77E5, 0x8B58, 0x6709, 0x751A, 0x9EBC, 0x7528, 0x8655] @
    asc ''? '' @ [0x56E0, 0x6B64] @ asc '', '' @
    [0x70BA, 0x4E86, 0x51F8, 0x986F, 0x7A81, 0x7834, 0x7B2C, 0x4E00, 0x9053, 0x7246, 0x7684, 0x91CD,
     0x8981, 0x6027] @ asc '', '' @
    [0x5C31, 0x5FC5, 0x9808, 0x8981, 0x900F, 0x904E, 0x5BE6, 0x969B, 0x7684, 0x8AB2, 0x7A0B, 0x6848,
     0x4F8B] @ asc '', '' @
    [0x8B93, 0x5927, 0x5BB6, 0x4E86, 0x89E3, 0x4E00, 0x65E6, 0x80FD, 0x7A81, 0x7834, 0x7B2C, 0x4E00,
     0x9053, 0x7246, 0x7684, 0x969C, 0x7919, 0x5F8C] @ asc '', '' @
    [0x990A, 0x6210, 0x6301, 0x7E8C, 0x5B78, 0x7FD2, 0x9019, 0x4E9B, 0x7406, 0x8AD6, 0x57FA, 0x790E,
     0x5167, 0x5BB9, 0x4E4B, 0x5F8C] @ asc '', '' @
    [0x5C31, 0x53EF, 0x4EE5, 0x76F8, 0x5C0D, 0x7528, 0x6BD4, 0x8F03, 0x6709, 0x6548, 0x7387, 0x7684,
     0x65B9, 0x5F0F, 0x89E3, 0x6C7A, 0x5404, 0x7A2E, 0x554F, 0x984C] @ asc ''. \<newline>'' @
    asc '' '' @
    [0x4F46, 0x662F, 0x9019, 0x9700, 0x8981, 0x5B78, 0x7FD2, 0x8005, 0x4ED8, 0x51FA, 0x6642, 0x9593,
     0x8207, 0x8010, 0x6027] @ asc '', '' @
    [0x7576, 0x9762, 0x5C0D, 0x5B8C, 0x5168, 0x964C, 0x751F, 0x8B70, 0x984C, 0x6642] @ asc '', '' @
    [0x5C31, 0x5FC5, 0x9808, 0x6AA2, 0x8A0E, 0x662F, 0x5426, 0x7B2C, 0x4E00, 0x9053, 0x7246, 0x4ECD,
     0x7136, 0x5361, 0x5728, 0x81EA, 0x5DF1, 0x8207, 0x89E3, 0x6C7A, 0x65B9, 0x6848, 0x4E2D, 0x9593] @
    asc ''. '' @ [0x7136, 0x5F8C, 0x7528, 0x5FC3, 0x4E0D, 0x65B7, 0x601D, 0x8003] @ asc '', '' @
    [0x63A2, 0x7D22, 0x8207, 0x7DF4, 0x7FD2, 0x4E4B, 0x5F8C] @ asc '', '' @
    [0x82E5, 0x9084, 0x662F, 0x7121, 0x6CD5, 0x89E3, 0x6C7A, 0x554F, 0x984C] @ asc ''. '' @
    [0x5C31, 0x5FC5, 0x9808, 0x8981, 0x5148, 0x8A66, 0x8457, 0x63CF, 0x8FF0, 0x554F, 0x984C, 0x5F8C,
     0x518D, 0x5C0B, 0x6C42, 0x4ED6, 0x4EBA, 0x7684, 0x5354, 0x52A9] @ asc ''. \<newline>'' @
    asc '' '' @
    [0x5047, 0x5982, 0x80FD, 0x6709, 0x4EE5, 0x4E0A, 0x7684, 0x6B63, 0x78BA, 0x5B78, 0x7FD2, 0x614B,
     0x5EA6] @ asc '', '' @
    [0x5C31, 0x6709, 0x6A5F, 0x6703, 0x5728, 0x9762, 0x5C0D, 0x5404, 0x7A2E, 0x554F, 0x984C, 0x6642] @
    asc '', '' @ [0x6301, 0x7E8C, 0x7A81, 0x7834, 0x524D, 0x9762, 0x7684, 0x5169, 0x9053, 0x7246] @
    asc '', '' @
    [0x7136, 0x5F8C, 0x770B, 0x5230, 0x81EA, 0x5DF1, 0x6240, 0x8FFD, 0x6C42, 0x7684, 0x7B2C, 0x4E09,
     0x9053, 0x7246] @ asc '', '' @
    [0x4E26, 0x4E14, 0x6B64, 0x5F8C, 0x80FD, 0x5920, 0x7AED, 0x76E1, 0x5168, 0x529B] @ asc '', '' @
    [0x7FFB, 0x95B1, 0x7B2C, 0x4E09, 0x9053, 0x7246, 0x7684, 0x969C, 0x7919] @ asc '', '' @
    [0x7A4D, 0x6975, 0x9054, 0x6210, 0x9810, 0x5B9A, 0x76EE, 0x6A19] @ asc ''. \<newline>'' @
    asc '' http://mde.tw/cad2020/content/HW1.html \<newline>'' @
    asc '' http://mde.tw/cad2020/content/HW2.html \<newline>'' @
    asc '' http://mde.tw/cad2020/content/HW1_SW.html \<newline>'' @
    asc '' https://github.com/KmolYuan/Pyslvs-UI \<newline>'' @
    asc '' '' @ [0x78BA, 0x7ACB, 0x76EE, 0x6A19, 0x969C, 0x7919] @ asc '' \<newline>'' @
    asc '' '' @ [0x4F60, 0x7684, 0x4EBA, 0x751F, 0x76EE, 0x6A19, 0x662F, 0x751A, 0x9EBC] @
    asc ''? \<newline>'' @
    asc '' https://www.ptt.cc/bbs/Tech_Job/M.1588362728.A.14F.html  ''\<close>

definition part_000_text_2 :: jsstring where
  \<open>part_000_text_2 =
    [0x7DB2, 0x8A8C] @ asc '': \<newline>'' @
    asc '' https://www.blogger.com/ \<newline>'' @
    asc '' https://blog.getpelican.com/ \<newline>'' @
    asc '' '' @ [0x8AD6, 0x58C7] @ asc '': \<newline>'' @
    asc '' https://www.discourse.org/ \<newline>'' @
    asc '' https://jpme.eng.nfu.edu.tw \<newline>'' @
    asc '' https://forum.eng.nfu.edu.tw \<newline>'' @
    asc '' Blogger, Pelican '' @ [0x8207] @ asc '' Discourse '' @
    [0x5167, 0x5BB9, 0x80FD, 0x4E0D, 0x80FD, 0x6574, 0x5408, 0x4E26, 0x540C, 0x6B65] @
    asc ''? \<newline>'' @
    asc '' https://mdecourse.blogspot.com/2020/05/pelican-blogger_21.html \<newline>'' @
    asc '' https://meta.discourse.org/t/how-can-i-implement-a-blog-page-in-discourse-forum-softwar'' @
    asc ''e/48496/6 \<newline>''\<close>

definition part_000_text_3 :: jsstring where
  \<open>part_000_text_3 =
    [0x6A5F, 0x68B0, 0x5DE5, 0x7A0B, 0x5E2B, 0x7531, 0x65BC, 0x5FC5, 0x9808, 0x5728, 0x500B, 0x4EBA,
     0x96FB, 0x8166, 0x4E0A, 0x7E6A, 0x88FD, 0x4E26, 0x986F, 0x793A] @ asc '' 3D '' @
    [0x96F6, 0x7D44, 0x4EF6] @ asc '', '' @
    [0x56E0, 0x6B64, 0x500B, 0x4EBA, 0x96FB, 0x8166, 0x901A, 0x5E38, 0x9700, 0x8981, 0x914D, 0x5099,
     0x7368, 0x7ACB, 0x986F, 0x793A, 0x5361] @ asc '', '' @
    [0x5176, 0x57FA, 0x672C, 0x898F, 0x683C, 0x8207, 0x96FB, 0x7AF6, 0x6A5F, 0x985E, 0x4F3C] @
    asc '': \<newline>'' @
    asc '' https://www.crucial.tw/articles/for-gamers/the-best-specs-for-a-gaming-pc \<newline>'' @
    asc '' CPU ( Central Processing Unit ) - '' @ [0x4E2D, 0x592E, 0x8655, 0x7406, 0x5668] @
    asc '' \<newline>'' @
    asc '' Intel Processor:  https://en.wikipedia.org/wiki/List_of_Intel_processors \<newline>'' @
    asc '' AMD Processor:  https://en.wikipedia.org/wiki/List_of_AMD_processors \<newline>'' @
    asc '' ARM Architecture:  https://en.wikipedia.org/wiki/ARM_architecture \<newline>'' @
    asc '' Apple Designed Processor:'' @ [0x00A0] @
    asc '' https://en.wikipedia.org/wiki/Apple-designed_processors  '' @ [0x3000] @
    asc '' \<newline>'' @
    asc '' FULL HD ( High Definition ) \<newline>'' @
    asc '' Motherboard  '' @ [0x4E3B, 0x6A5F, 0x677F] @ asc '' \<newline>'' @
    asc '' RAM ( Random-Access Memory ) \<newline>'' @
    asc '' DDR ( Double Data Rate ) \<newline>'' @
    asc '' '' @ [0x4F55, 0x8B02] @ asc '' HDD/SSD? '' @ [0x6709, 0x4F55, 0x5DEE, 0x5225] @
    asc ''? \<newline>'' @
    asc '' '' @ [0x4F55, 0x8B02] @ asc '' RPM? \<newline>'' @
    asc '' '' @ [0x4F55, 0x8B02] @ asc '' ATA'' @ [0x3001] @ asc ''PATA'' @ [0x3001, 0x8207] @
    asc '' SATA '' @ [0x9023, 0x63A5, 0x57E0] @ asc ''? '' @ [0x6709, 0x4F55, 0x5DEE, 0x5225] @
    asc ''? \<newline>'' @
    asc '' '' @ [0x4F55, 0x8B02] @ asc '' Video Card? \<newline>'' @
    asc '' '' @ [0x4F55, 0x8B02] @ asc '' fps? \<newline>'' @
    asc '' '' @ [0x4F55, 0x8B02] @ asc '' DVI? \<newline>'' @
    asc '' '' @ [0x4F55, 0x8B02] @ asc '' HDMI? \<newline>'' @
    asc '' '' @ [0x4F55, 0x8B02] @ asc ''  LED ? \<newline>'' @
    asc '' '' @ [0x4F55, 0x8B02] @ asc '' DirectX? \<newline>'' @
    asc '' '' @ [0x4F55, 0x8B02] @ asc ''  Watt ? \<newline>'' @
    asc '' '' @ [0x4F55, 0x8B02] @ asc ''  Power ? \<newline>'' @
    asc '' '' @ [0x4F55, 0x8B02] @ asc '' Hz ( Hertz )? \<newline>'' @
    asc '' Computer Monitor \<newline>'' @
    asc '' '' @ [0x4F55, 0x8B02] @ asc '' ppi?''\<close>

definition part_000_text_4 :: jsstring where
  \<open>part_000_text_4 =
    asc ''Understanding bandwidth Bandwidth refers to the data rate that is supported by the '' @
    asc ''network connection or the interfaces that connect to the network. It represents both '' @
    asc ''volume and time, representing the amount of data that can be transmitted between two '' @
    asc ''points in a set period of time. It is usually expressed in terms of bits per second '' @
    asc ''(bps), or sometimes in bytes per second (Bps). Network bandwidth represents the '' @
    asc ''capacity of the network connection, though it\'s important to understand the distinction '' @
    asc ''between theoretical throughput and real-world results when figuring out the right '' @
    asc ''bandwidth formula for your network. For example, a 1000BASE-T -- which uses unshielded '' @
    asc ''twisted-pair cables -- Gigabit Ethernet (GbE) network can theoretically support 1,000 '' @
    asc ''megabits per second (Mbps), but this level can never really be achieved in practice '' @
    asc ''because of hardware and systems software overhead. One point to consider when thinking '' @
    asc ''about how to calculate bandwidth needs on your network is this: Bandwidth should not be '' @
    asc ''confused with throughput, which refers to speed. While high-bandwidth networks are '' @
    asc ''often fast, that is not always the case. A helpful metaphor when thinking about '' @
    asc ''bandwidth is cars on a highway. A high-bandwidth network is like a six-lane highway '' @
    asc ''that can fit hundreds of cars at any given moment. A low-bandwidth network is like a '' @
    asc ''single-lane road in which one car queues directly behind another. Although the large '' @
    asc ''highway is likely to move vehicles faster, rush-hour traffic can easily bring cars and '' @
    asc ''trucks to a standstill. Or, perhaps, the cars cannot get onto the highway quickly '' @
    asc ''because it\'s clogged with large delivery trucks that take up a lot of space on the '' @
    asc ''road. Similarly, even a high-bandwidth network can run slowly in the face of problems, '' @
    asc ''such as congestion and bandwidth-hungry applications. These very points make '' @
    asc ''calculating bandwidth requirements a challenge, yet the consequences of getting the '' @
    asc ''bandwidth formula wrong are considerable. If you don\'t procure enough bandwidth, you '' @
    asc ''all but guarantee the network will run slowly. However, significantly overprovisioning '' @
    asc ''bandwidth can be cost-prohibitive for most enterprises. So, how do you determine the '' @
    asc ''right formula that will meet your bandwidth requirements? The process begins with '' @
    asc ''asking the right questions: What applications are users running, and what is the '' @
    asc ''performance service-level agreement for these applications? I know some network '' @
    asc ''managers who are only concerned with how many users are on a virtual LAN. What you '' @
    asc ''really need to know is what the users will be doing on the network. It\'s possible that '' @
    asc ''200 users will cause less of a bottleneck than a group of three users that really beats '' @
    asc ''the heck out of the network because of some funky client-server application or '' @
    asc ''extensive use of a bandwidth-heavy service, like high-definition video conferencing. \<newline>'' @
    asc '' \<newline>'' @
    asc '' '' @ [0x4E86, 0x89E3] @ asc ''  https://www.wireshark.org  '' @ [0x7684, 0x7528, 0x6CD5] @
    asc '', '' @
    [0x4E26, 0x85C9, 0x4EE5, 0x63D0, 0x5347, 0x7DB2, 0x8DEF, 0x983B, 0x5BEC, 0x7684, 0x4F7F, 0x7528,
     0x6548, 0x80FD, 0x53CA, 0x5B89, 0x5168] @ asc ''. \<newline>'' @
    asc '' '' @ [0x8FD1, 0x7AEF, 0x4E0B, 0x8F09] @ asc '' \<newline>'' @
    asc '' http://a.kmol.info:88/Wireshark-win64-3.4.2.exe''\<close>

definition part_000_text_5 :: jsstring where
  \<open>part_000_text_5 =
    asc ''Not all switches are created equal. \<newline>'' @
    asc '' '' @ [0x4F86, 0x6E90] @ asc '' \<newline>'' @
    asc '' https://www.cisco.com/c/en/us/products/switches/index.html#~products \<newline>'' @
    asc '' https://www.cisco.com/c/dam/en/us/products/collateral/switches/catalyst-9300-series-swi'' @
    asc ''tches/nb-06-upgrading-cat-9300-fc-cte-en.pdf \<newline>'' @
    asc '' internally to a switch a specialized hardware is needed to move frames between ports. '' @
    asc ''This specific part can be called backplane ('' @ [0x80CC, 0x677F] @
    asc '') or in some cases we talk of switching fabric ('' @ [0x4EA4, 0x63DB, 0x7D50, 0x69CB] @
    asc ''). When the forwarding capabilities of a backplane or switching fabric are greater then '' @
    asc ''the sum of speeds of all ports (counted twice one for tx and one rx direction) we call '' @
    asc ''the switching fabric non blocking: traffic between a pair of ports is not influenced by '' @
    asc ''what traffic is exchanged on all other ports. The forwarding rate is expressed in '' @
    asc ''packet per seconds and expresses how many packets per second are needed to reach a '' @
    asc ''certain traffic volume (throughpout) Clearly forwarding rate depends on frame size. '' @
    asc ''Ideally a backplane switching fabric should be non blocking for every frame size '' @
    asc ''including the smallest ones (64 bytes in ethernet standard) but in reality most devices '' @
    asc ''can be non blocking for an average size of 400 bytes. bandwidth: the speed of traffic. '' @
    asc ''to convert between forwarding rate and used bandwidth we need to take in account some '' @
    asc ''specific aspects of ethernet: each frame has an 8 byte preamble that is used to allow '' @
    asc ''to potential receiver to synchronize with the signal between two frames a minimum '' @
    asc ''silence interval must exist to allow receiver to discriminate between two frames '' @
    asc ''preamble and inter frame gap counts for 20,2 bytes. So given an iP packet of size N the '' @
    asc ''ethernet frame has size N+18'' @ [0x00A0] @
    asc '' (header 14 bytes, FCS 4 byte) but counts as (N+18+20,2)*8 on wire 8 is number of bits '' @
    asc ''in a byte with this kind of calculation using frames of minimum size 64 bytes you need '' @
    asc ''1488000 frames per second and per direction to fill a GE port. Be also aware that all '' @
    asc ''figures you see sum tx and rx directions so if a switch has 100 M pps capability this '' @
    asc ''accounts for a certain number of GE ports at 1 Gbps full duplex. \<newline>'' @
    asc '' Do not confuse the speed of the stackwise ring with the internal switching fabric of '' @
    asc ''each stack member, they are different: the internal switching fabric should be used for '' @
    asc ''traffic between ports on the same stack member device, the stackwise bandwidth should '' @
    asc ''be used when traffic must flow between ports located on different stack members. Note: '' @
    asc ''this is just my assumption about the implementation of stack, it may be different with '' @
    asc ''the dual ring involved also for traffic between two ports on the same member switch. '' @
    asc ''(total lack of so called local switching capabilities). The stack implements a dual '' @
    asc ''ring topology between the member switches that act as an extension of the individual '' @
    asc ''switching fabrics. The speed of the ring for a stack of only 3750-X (stackwise plus) '' @
    asc ''should be 32 Gbps full duplex that allows for a very good interconnection between '' @
    asc ''member switches, but I agree it is not enough to classify the composite switching '' @
    asc ''fabric as not blocking. On the other hand, only models with 10GE ports can be '' @
    asc ''interconnected at comparable speeds. To make a comparison a C6500 equipped with Sup720 '' @
    asc ''generation route processor provides up to 40 Gbps per slot to/from the switching fabric '' @
    asc ''and some linecards are faster then that ( think of'' @ [0x00A0] @
    asc '' WS-6708 or WS-6716 with 8 and 16 tengiga ports respectively). About the forwarding '' @
    asc ''capacity in pps: for a 24 ports device is listed as 65.5 Mbps that accounts for 22 GE '' @
    asc ''ports 1Gbps full duplex with 64 byte frames. \<newline>'' @
    asc '' An original series 3750 (or 3560) fabric is 32 Gbps.'' @ [0x00A0] @
    asc '' This is different from the stack ring\'s "32 Gbps" (which is really dual 8 Gbps, '' @
    asc ''duplex). An original series 3750 (or 3560) internal fabric, in theory, is '' @
    asc ''oversubscribed by more than 16 gig ports (i.e. the "G" suffixed original models). The '' @
    asc ''terms non-blocking and blocking, when examining switch fabric isn\'t just sufficient '' @
    asc ''bandwidth capacity to forward all port bandwidths, it\'s whether the fabric\'s '' @
    asc ''architecture will block, or not, forwarding of frames even if there\'s "sufficient" '' @
    asc ''bandwidth. For example, you have three ingress ports.'' @ [0x00A0] @
    asc '' Two are sending to one egress port (2:1) and the other is sending to other egress port '' @
    asc ''(1:1).'' @ [0x00A0] @
    asc '' If 2:1 congestion on the one egress port delays (or blocks) transmission on the 1:1 '' @
    asc ''egress port, you have HOL (head-of-line) blocking even though the internal fabric\'s '' @
    asc ''bandwidth could support each ingress port sending to a separate egress port (all 1:1). '' @
    asc ''StackWise (and StackWise+), when available, use both ring ports. Original StackWise '' @
    asc ''copies ALL member switch traffic to the stack ring.'' @ [0x00A0] @
    asc '' Original StackWise source stack member also removes the traffic it placed on the stack '' @
    asc ''ring. StackWise Plus only places unicast traffic on the stack ring when destination is '' @
    asc ''not a local switch port.'' @ [0x00A0] @
    asc '' Additionally, destination switch member removes unicast packets.'' @ [0x00A0] @
    asc '' (I.e. StackWise+ uses it\'s ring much more intelligently.'' @ [0x00A0] @
    asc '' It also has dual 16 Gbps stack ring ports.'' @ [0x00A0] @
    asc '' NB:StackWise+, for the most part, reverts to StackWise operation if there\'s a '' @
    asc ''StackWise only member switch in the stack [good reason not to use such mixed stacks].) '' @
    asc ''Bits per second, is the transmission rate supported by the media.'' @ [0x00A0] @
    asc '' So, for example, 100 Mbps allows transmission of 100,000,000 bits per seconds.'' @ [0x00A0] @
    asc '' However, transferring actual data, in something like physical segments (e.g. frames) '' @
    asc ''uses some of this capacity for both framing overhead and framing delineation, so useful '' @
    asc ''capacity is less than the often quoted bps rate.'' @ [0x00A0] @
    asc '' Useful capacity percentage (of overall rate) also generally decreases as frame size '' @
    asc ''decreases.'' @ [0x00A0] @ asc '' (BTW, similar issue with disk media.'' @ [0x00A0] @
    asc '' At least disk capacity isn\'t, generally, quoted for its unformatted capacity any '' @
    asc ''longer.) The 25 Mbps throughput is rated for minimum sized packets.'' @ [0x00A0] @
    asc '' Larger packets often allow much higher throughput as the packets per second '' @
    asc ''requirement (for same bandwidth) decreases.'' @ [0x00A0] @
    asc '' (Sometimes the vendor will document PPS rates for multiple packet sizes.'' @ [0x00A0] @
    asc '' Without such documentation, or your own testing, just knowing documented performance '' @
    asc ''for one packet size you cannot accurately predict a device\'s performance for other '' @
    asc ''packet sizes.) \<newline>'' @
    asc '' '' @ [0x4F86, 0x6E90] @ asc '' \<newline>'' @
    asc '' Switch backplane bandwidth, switching capacity, packet forwarding rate difference '' @
    asc ''Backplane bandwidth refers to the entire switching capacity of the backplane, switching '' @
    asc ''capacity refers to the switching capacity of the CPU, and packet forwarding refers to '' @
    asc ''the capacity of the three-layer forwarding. First, the backplane bandwidth 1. Switch '' @
    asc ''backplane bandwidth meaning \<newline>'' @
    asc '' The backplane bandwidth of the switch, also called the backplane capacity, is the '' @
    asc ''maximum amount of data that can be handled between the switch interface processor or '' @
    asc ''the interface card and the data bus. The backplane bandwidth marks the total data '' @
    asc ''exchange capacity of the switch, in Gbps. The backplane bandwidth of a typical switch '' @
    asc ''ranges from a few Gbps to hundreds of Gbps. The higher the backplane bandwidth of a '' @
    asc ''switch, the better the ability to process data, but at the same time the design cost '' @
    asc ''will be higher. 2. The internal structure of the switch \<newline>'' @
    asc '' The utilization of backplane bandwidth resources is closely related to the internal '' @
    asc ''structure of the switch. At present, the internal structure of the switch mainly has '' @
    asc ''the following types: \<newline>'' @
    asc '' First, a shared memory structure, which relies on a central switching engine to '' @
    asc ''provide a high-performance connection for a full port, and the core engine checks each '' @
    asc ''input packet to determine a route. This method requires a large memory bandwidth and '' @
    asc ''high management cost. Especially with the increase of the switch port, the price of the '' @
    asc ''central memory will be very high, so the switch core becomes the bottleneck of '' @
    asc ''performance realization; \<newline>'' @
    asc '' the second is the cross bus structure, which can Establish a direct point-to-point '' @
    asc ''connection between ports, which is good for single-point transmission, but not suitable '' @
    asc ''for multi-point transmission; \<newline>'' @
    asc '' the third is a hybrid cross-bus structure, which is a hybrid cross-bus implementation. '' @
    asc ''Its design idea is to integrate The cross bus matrix is divided into small cross '' @
    asc ''matrices connected by a high performance bus. The advantage is that the number of '' @
    asc ''cross-buses is reduced, the cost is reduced, and bus contention is reduced; however, '' @
    asc ''the bus connecting the cross-matrix becomes a new performance bottleneck. 3. Linear '' @
    asc ''non-blocking transmission \<newline>'' @
    asc '' The best performance we can buy for the transfer machine is to require linear '' @
    asc ''non-blocking transmission. How do we investigate whether the backplane bandwidth of a '' @
    asc ''switch is sufficient? How to determine whether the design of the switch you bought is '' @
    asc ''reasonable, and there is a blocking structure design? \<newline>'' @
    asc '' Calculation formula: \<newline>'' @
    asc '' A. The sum of the number of all port capacity X ports should be less than the '' @
    asc ''backplane bandwidth, which can realize full-duplex non-blocking switching, which proves '' @
    asc ''that the switch has the conditions of maximizing data exchange performance. \<newline>'' @
    asc '' B. Full configuration throughput (Mbps) = full configuration GE port number '' @ [0x00D7] @
    asc '' 1.488 Mpps, wherein the theoretical throughput of a Gigabit port with a packet length '' @
    asc ''of 64 bytes is 1.488 Mpps. For example, a switch with up to 64 Gigabit ports should '' @
    asc ''have a full configuration throughput of 64 x 1.488 Mpps = 95.2 Mpps to ensure '' @
    asc ''non-blocking packet switching when all port line speeds are working. Example: If a '' @
    asc ''switch can provide up to 176 Gigabit ports and the declared throughput is less than '' @
    asc ''261.8 Mpps (176 x 1.488 Mpps = 261.8), then the user has reason to believe that the '' @
    asc ''switch is designed with a blocking structure. \<newline>'' @
    asc '' For 10 Gigabit Ethernet, the packet forwarding rate of a wire-speed port is 14.88 '' @
    asc ''Mpps. \<newline>'' @
    asc '' For Gigabit Ethernet, the packet forwarding rate of a wire-speed port is 1.488 Mpps. \<newline>'' @
    asc '' For Fast Ethernet, the packet forwarding rate of a wire-speed port is 0.1488 Mpps. \<newline>'' @
    asc '' For OC-12 POS ports, the packet forwarding rate of a line rate port is 1.17 Mpps. \<newline>'' @
    asc '' For the POS port of OC-48, the packet forwarding rate of one line-speed port is '' @
    asc ''468MppS. \<newline>'' @
    asc '' Therefore, if we can meet the above three conditions, then we say that this switch is '' @
    asc ''truly linear and non-blocking; the back-up rate of the switch is generally: \<newline>'' @
    asc '' Mbps, which refers to the second layer, which is used for the exchange of more than '' @
    asc ''three layers. \<newline>'' @
    asc '' Mpps 4. The backplane bandwidth does not exist in the switch with the fixed port. \<newline>'' @
    asc '' This concept is only possible with modular switches (with scalable slots that can '' @
    asc ''flexibly change the number of ports). Fixed-port switches do not have this concept, and '' @
    asc ''the backplane capacity and switching capacity of fixed-port switches are equal. The '' @
    asc ''backplane bandwidth determines the maximum bandwidth for the connection between each '' @
    asc ''board (including boards that are not yet installed in the expandable slot) and the '' @
    asc ''switching engine. Due to the different architectures of modular switches, backplane '' @
    asc ''bandwidth is not fully effective at representing the true performance of the switch. '' @
    asc ''Fixed port switches do not have the concept of backplane bandwidth. Second, the '' @
    asc ''exchange capacity \<newline>'' @
    asc '' It is the transmission capacity of the core CPU and bus, generally smaller than the '' @
    asc ''backplane bandwidth. H3C low-end LSW switching uses the store-and-forward mode. The '' @
    asc ''size of the switching capacity is determined by the bit width of the buffer (BUFFER) '' @
    asc ''and its bus frequency. That is, the switching capacity = cache bit width * cache bus '' @
    asc ''frequency = 96 * 133 = 12.8 Gbps H3C high-end switch exchange capacity can be equal to '' @
    asc ''twice the total port capacity, total port capacity = 2 * (n * 100Mbps + m * 1000Mbps) ( '' @
    asc ''n: indicates that the switch has n 100M ports, m: indicates that the switch has m 1000M '' @
    asc ''ports. \<newline>'' @
    asc '' 3. The packet forwarding rate forwarding capability is measured by the minimum packet '' @
    asc ''length. For the Ethernet minimum packet is 64BYTE, plus the frame overhead 20BYTE. '' @
    asc ''Therefore, the minimum package is 84BYTE. For a full-duplex 1000Mbps interface to '' @
    asc ''achieve line speed requirements: forwarding capacity = 1000Mbps / ((64 + 20) * 8bit) = '' @
    asc ''1.488Mpps for a full-duplex 100Mbps interface to achieve line speed requirements: '' @
    asc ''forwarding capacity = 100Mbps / ((64+20)*8bit)=0.149Mpps Unit: Mpps (Million packets '' @
    asc ''per second) This article is from the "Snow Moon Studio" blog, please be sure to keep '' @
    asc ''this source  http://xueyue8.blog.51cto.com/4650249/1765750   How is the backplane '' @
    asc ''bandwidth, switching capacity, and packet forwarding rate of the switch calculated? For '' @
    asc ''the manufacturers, the standard is higher than the line speed forwarding.''\<close>

definition part_000_text_6 :: jsstring where
  \<open>part_000_text_6 =
    [0x500B, 0x4EBA, 0x96FB, 0x8166, 0x8EDF, 0x9AD4, 0x8207, 0x786C, 0x9AD4, 0x57FA, 0x672C, 0x6982,
     0x5FF5] @ asc '' \<newline>'' @
    asc '' '' @ [0x7DB2, 0x8DEF, 0x57FA, 0x672C, 0x6982, 0x5FF5, 0x8207, 0x8A2D, 0x5B9A] @
    asc '' \<newline>'' @
    asc '' Windows 10 64 '' @ [0x4F4D, 0x5143, 0x96A8, 0x8EAB, 0x7A0B, 0x5F0F, 0x7CFB, 0x7D71] @
    asc '' \<newline>'' @
    asc '' http://mde.tw \<newline>'' @
    asc '' cmsimde \<newline>'' @
    asc '' blogger \<newline>'' @
    asc '' Github \<newline>'' @
    asc '' Fossil SCM \<newline>'' @
    asc '' http://fossil.kmol.info \<newline>'' @
    asc '' http://mde.tw/fosgit \<newline>'' @
    asc '' http://fossil.kmol.info/fosgit/doc/trunk/index.html \<newline>'' @
    asc '' https://fossil.kmol.info/fosgit/doc/0f7bf53ab9/content/index.html   \<newline>'' @
    asc '' http://jpme.eng.nfu.edu.tw \<newline>''\<close>

definition part_000_text_7 :: jsstring where
  \<open>part_000_text_7 =
    [0x8A08, 0x7B97, 0x6A5F, 0x6982, 0x8AD6, 0x8AB2, 0x7A0B, 0x56DE, 0x9867] @ asc '' \<newline>'' @
    asc '' '' @
    [0x9996, 0x5148, 0x5FC5, 0x9808, 0x5148, 0x4E86, 0x89E3, 0x96FB, 0x8166, 0x8F14, 0x52A9, 0x8A2D,
     0x8A08, 0x5BA4, 0x4E2D, 0x7684, 0x7DB2, 0x8DEF, 0x8A2D, 0x5B9A] @ asc '': \<newline>'' @
    asc '' '' @
    [0x7531, 0x65BC, 0x4E0A, 0x8AB2, 0x6642, 0x5404, 0x96FB, 0x8166, 0x63A1, 0x7528, 0x7D14] @
    asc '' IPv6 '' @ [0x5354, 0x5B9A, 0x4E0A, 0x7DB2] @ asc '', '' @
    [0x56E0, 0x6B64, 0x53EF, 0x4EE5, 0x5C07] @ asc '' IPv4 '' @
    [0x7DB2, 0x8DEF, 0x5354, 0x5B9A, 0x52FE, 0x9078, 0x79FB, 0x9664] @ asc '', '' @ [0x4E14, 0x4EE5] @
    asc '' DHCP6 '' @ [0x53D6, 0x5F97] @ asc '' 2001:288:6004:17:xxxx '' @ [0x683C, 0x5F0F, 0x7684] @
    asc '' IPv6 '' @ [0x7DB2, 0x8DEF, 0x4F4D, 0x5740] @ asc '', '' @
    [0x60DF, 0x9700, 0x81EA, 0x884C, 0x8A2D, 0x5B9A] @ asc '' DNS '' @ [0x4F3A, 0x670D, 0x5668] @
    asc ''. '' @
    [0x53EF, 0x4EE5, 0x9078, 0x64C7, 0x6A5F, 0x68B0, 0x8A2D, 0x8A08, 0x5DE5, 0x7A0B, 0x7CFB, 0x7684] @
    asc '' DNS '' @ [0x4F3A, 0x670D, 0x5668] @ asc '' 2001:288:6004:17::3 '' @
    [0x6216, 0x4E2D, 0x83EF, 0x96FB, 0x4FE1] @ asc '' DNS '' @ [0x4F3A, 0x670D, 0x5668] @
    asc '' 2001:b000:168::1 \<newline>'' @
    asc '' \<newline>'' @
    asc '' '' @
    [0x63A5, 0x8457, 0x5B78, 0x7FD2, 0x5982, 0x4F55, 0x5229, 0x7528, 0x53EF, 0x651C, 0x5F0F] @
    asc '' ShareX '' @
    [0x9304, 0x88FD, 0x96FB, 0x8166, 0x64CD, 0x4F5C, 0x756B, 0x9762, 0x6D41, 0x7A0B] @ asc '', '' @
    [0x5B58, 0x70BA] @ asc '' mp4 '' @ [0x683C, 0x5F0F, 0x5F8C, 0x4E0A, 0x50B3, 0x5230] @
    asc '' @gm '' @ [0x5E33, 0x865F, 0x5C0D, 0x61C9, 0x7684] @ asc '' Youtube. '' @
    [0x672C, 0x8AB2, 0x7A0B, 0x5EFA, 0x8B70, 0x5404, 0x5B78, 0x54E1, 0x5C07, 0x6BCF, 0x9031, 0x6839,
     0x64DA, 0x8AB2, 0x7A0B, 0x9032, 0x5EA6, 0x6240, 0x64CD, 0x4F5C, 0x7684, 0x6D41, 0x7A0B, 0x9304,
     0x88FD, 0x6210] @ asc '' mp4 '' @
    [0x5F71, 0x7247, 0x5D4C, 0x5165, 0x500B, 0x4EBA, 0x7684, 0x7DB2, 0x8A8C, 0x8207, 0x7DB2, 0x9801,
     0x4E2D] @ asc ''. \<newline>'' @
    asc '' \<newline>'' @
    asc '' '' @ [0x63A5, 0x8457, 0x5B78, 0x7FD2, 0x5982, 0x4F55, 0x5229, 0x7528] @ asc '' @gm '' @
    [0x5E33, 0x865F, 0x5EFA, 0x7ACB, 0x5206, 0x7D44] @ asc '' Blogger. '' @
    [0x5B8C, 0x6210, 0x5F8C, 0x5404, 0x5206, 0x7D44, 0x7684, 0x7DB2, 0x8A8C, 0x9023, 0x7D50, 0x5982,
     0x4E0B] @ asc '': \<newline>'' @
    asc '' https://wcmj2021g1.blogspot.com \<newline>'' @
    asc '' https://wcmj2021g2.blogspot.com \<newline>'' @
    asc '' https://wcmj2021g3.blogspot.com \<newline>'' @
    asc '' https://wcmj2021g4.blogspot.com \<newline>'' @
    asc '' https://wcmj2021g5.blogspot.com \<newline>'' @
    asc '' https://wcmj2021g6.blogspot.com \<newline>'' @
    asc '' https://wcmj2021g7.blogspot.com \<newline>'' @
    asc '' \<newline>'' @
    asc '' '' @ [0x5404, 0x7D44, 0x7D44, 0x9577, 0x5B8C, 0x6210, 0x5206, 0x7D44] @ asc '' Blogger '' @
    [0x7DB2, 0x8A8C, 0x5EFA, 0x7ACB, 0x5F8C] @ asc '', '' @
    [0x53EF, 0x5229, 0x7528, 0x8A2D, 0x5B9A, 0x9078, 0x9805, 0x5C07, 0x5404, 0x7D44, 0x54E1, 0x8A2D,
     0x70BA, 0x53EF, 0x5728, 0x5206, 0x7D44, 0x7DB2, 0x8A8C, 0x767C, 0x4F48, 0x6587, 0x7AE0, 0x7684,
     0x5354, 0x540C, 0x7BA1, 0x7406, 0x8005, 0x6216, 0x5354, 0x540C, 0x4F5C, 0x8005] @
    asc ''. \<newline>'' @
    asc '' \<newline>'' @
    asc '' '' @ [0x63A5, 0x8457, 0x5B78, 0x7FD2, 0x5982, 0x4F55, 0x900F, 0x904E] @ asc '' Youtube '' @
    [0x5F71, 0x7247, 0x4E2D, 0x5206, 0x4EAB, 0x529F, 0x80FD, 0x4E2D, 0x7684, 0x5D4C, 0x5165, 0x9078,
     0x64C7, 0x53D6, 0x5F97, 0x7279, 0x5B9A, 0x5F71, 0x7247, 0x7684] @ asc '' iframe '' @
    [0x5D4C, 0x5165] @ asc '' html '' @ [0x5F8C] @ asc '', '' @
    [0x53EF, 0x5C07, 0x5404, 0x7D44, 0x54E1, 0x6240, 0x88FD, 0x4F5C, 0x7684, 0x96FB, 0x8166, 0x64CD,
     0x4F5C, 0x5F71, 0x7247, 0x5D4C, 0x5165, 0x500B, 0x4EBA, 0x7DB2, 0x7AD9, 0x6216, 0x5206, 0x7D44,
     0x7DB2, 0x8A8C, 0x4E2D] @ asc ''. \<newline>'' @
    asc '' \<newline>'' @
    asc '' '' @
    [0x6BCF, 0x4E00, 0x4F4D, 0x5B78, 0x54E1, 0x767B, 0x5165, 0x5B78, 0x6821, 0x914D, 0x767C, 0x7684] @
    asc '' Gmail '' @ [0x5E33, 0x865F, 0x5F8C] @ asc '', '' @ [0x81F3] @
    asc ''  https://www.blogger.com  '' @ [0x5EFA, 0x7ACB, 0x4E00, 0x500B, 0x7DB2, 0x8A8C] @
    asc '', '' @
    [0x4E26, 0x5C07, 0x4E0A, 0x5B78, 0x671F, 0x8A08, 0x7B97, 0x6A5F, 0x8AB2, 0x7A0B, 0x7684, 0x5167,
     0x5BB9, 0x6458, 0x8981, 0x6574, 0x7406, 0x70BA] @ asc ''  Blogger  '' @
    [0x7DB2, 0x8A8C, 0x5167, 0x5BB9] @ asc ''. '' @
    [0x53EF, 0x4EE5, 0x6309, 0x7167, 0x6BCF, 0x4E00, 0x9031, 0x7684, 0x6559, 0x5B78, 0x5167, 0x5BB9,
     0x6574, 0x7406, 0x70BA, 0x7DB2, 0x8A8C] @ asc '', '' @
    [0x6216, 0x8005, 0x6839, 0x64DA, 0x6559, 0x5B78, 0x4E3B, 0x984C, 0x5167, 0x5BB9, 0x6574, 0x7406,
     0x70BA, 0x7DB2, 0x8A8C, 0x5167, 0x5BB9] @ asc ''. \<newline>'' @
    asc '' '' @ [0x8ACB, 0x554F] @ asc '': \<newline>'' @
    asc '' '' @ [0x5DF2, 0x77E5] @ asc ''  '' @ [0x4FEE, 0x8AB2, 0x5B78, 0x54E1, 0x540D, 0x55AE] @
    asc ''  ( nfulist '' @ [0x7A0B, 0x5F0F, 0x78BC] @ asc '' ) ( '' @
    [0x5F9E, 0x6559, 0x52D9, 0x4E3B, 0x6A5F, 0x67E5, 0x8A62, 0x8CC7, 0x6599] @ asc '' ) '' @
    [0x53EF, 0x4EE5, 0x53D6, 0x5F97, 0x4FEE, 0x8AB2, 0x5B78, 0x54E1, 0x540D, 0x55AE] @ asc '', '' @
    [0x662F, 0x5426, 0x53EF, 0x4EE5, 0x7528, 0x65BC, 0x53D6, 0x5F97, 0x5404, 0x5B78, 0x54E1, 0x7684,
     0x500B, 0x4EBA] @ asc ''  Blogger  '' @ [0x9023, 0x7D50] @ asc ''? \<newline>'' @
    asc '' '' @ [0x63A1, 0x4EBA, 0x5DE5, 0x65B9, 0x5F0F, 0x555F, 0x52D5] @ asc '' Ethercalc '' @
    [0x7DB2, 0x969B, 0x8868, 0x55AE] @ asc '', '' @
    [0x5F9E, 0x4FEE, 0x8AB2, 0x5B78, 0x54E1, 0x540D, 0x55AE, 0x4E2D, 0x8907, 0x88FD, 0x5B78, 0x865F,
     0x884C, 0x8CC7, 0x6599] @ asc '', '' @ [0x7136, 0x5F8C, 0x5728] @
    asc ''  https://gitter.im/mdecourse/wcmj2021  '' @
    [0x516C, 0x4F48, 0x7DB2, 0x969B, 0x8868, 0x55AE, 0x9023, 0x7D50] @ asc '', '' @
    [0x8B93, 0x5404, 0x5B78, 0x54E1, 0x4F9D, 0x7167, 0x5B78, 0x865F, 0x586B, 0x5165, 0x500B, 0x4EBA] @
    asc '' Blogger '' @ [0x7DB2, 0x8A8C, 0x9023, 0x7D50, 0x5F8C] @ asc '', '' @
    [0x518D, 0x8907, 0x88FD, 0x8CC7, 0x6599] @ asc '', '' @ [0x4E26, 0x8A2D, 0x6CD5, 0x8F49, 0x70BA] @
    asc '' HTML Anchor '' @ [0x9023, 0x7D50] @ asc ''. \<newline>'' @
    asc '' '' @
    [0x4E0A, 0x8FF0, 0x6D41, 0x7A0B, 0x80FD, 0x4E0D, 0x80FD, 0x63A1, 0x66F4, 0x65B9, 0x4FBF, 0x7684,
     0x6D41, 0x7A0B, 0x9032, 0x884C] @ asc '' ('' @
    [0x6E1B, 0x5C11, 0x4EBA, 0x5DE5, 0x8907, 0x88FD, 0x8207, 0x8655, 0x7406, 0x53EF, 0x80FD, 0x7522,
     0x751F, 0x7684, 0x932F, 0x8AA4] @ asc '')? \<newline>'' @
    asc '' http://mde.tw/cad2020/content/Ethercalc.html \<newline>'' @
    asc '' https://github.com/audreyt/ethercalc/blob/master/API.md \<newline>'' @
    asc '' https://pypi.org/project/ethercalc-python/ \<newline>'' @
    asc '' http://mde.tw/cd2021/content/Topics.html \<newline>'' @
    asc '' Blogger API  '' @ [0x80FD, 0x5920, 0x505A, 0x751A, 0x9EBC] @ asc ''? \<newline>'' @
    asc '' '' @ [0x76F8, 0x95DC, 0x6280, 0x8853] @ asc '': \<newline>'' @
    asc '' Python  - '' @ [0x6703, 0x7DE8, 0x5BEB, 0x57FA, 0x672C, 0x7684] @ asc '' Python '' @
    [0x7A0B, 0x5F0F] @ asc '' \<newline>'' @
    asc '' http://mde.tw/cp2020 \<newline>'' @
    asc '' HTML  - '' @
    [0x4E86, 0x89E3, 0x8D85, 0x6587, 0x4EF6, 0x76F8, 0x95DC, 0x6A19, 0x8A3B, 0x7528, 0x6CD5] @
    asc '' \<newline>'' @
    asc '' Jascript  - '' @ [0x4E86, 0x89E3] @ asc '' Javascript '' @ [0x5982, 0x4F55, 0x8207] @
    asc '' HTML '' @ [0x7D50, 0x5408, 0x61C9, 0x7528] @ asc ''? \<newline>'' @
    asc '' Flask  - '' @ [0x4E86, 0x89E3, 0x5982, 0x4F55, 0x4F7F, 0x7528] @ asc '' Flask '' @
    [0x7DB2, 0x969B, 0x6846, 0x67B6] @ asc ''? \<newline>'' @
    asc '' bs4  - '' @ [0x4E86, 0x89E3, 0x5982, 0x4F55, 0x900F, 0x904E] @ asc '' Python '' @ [0x7684] @
    asc '' beautifulsoup '' @ [0x6A21, 0x7D44, 0x89E3, 0x8B80] @ asc '' HTML '' @
    [0x53D6, 0x7528, 0x7DB2, 0x9801, 0x4E0A, 0x7684, 0x76F8, 0x95DC, 0x8CC7, 0x6599] @
    asc ''? \<newline>'' @
    asc '' AJAX  - '' @ [0x4E86, 0x89E3] @ asc '' AJAX '' @ [0x5982, 0x4F55, 0x904B, 0x4F5C] @
    asc ''? '' @ [0x5982, 0x4F55, 0x61C9, 0x7528] @ asc ''? \<newline>'' @
    asc '' Heroku  - '' @
    [0x4E86, 0x89E3, 0x5982, 0x4F55, 0x5C07, 0x7DB2, 0x969B, 0x7A0B, 0x5F0F, 0x90E8, 0x7F72, 0x5230] @
    asc '' Heroku '' @ [0x96F2, 0x7AEF, 0x7CFB, 0x7D71] @ asc ''? \<newline>'' @
    asc '' http://mde.tw/cp2020/content/Heroku.html \<newline>'' @
    asc '' http://mde.tw/cp2020/content/scissor-rock-paper.html \<newline>'' @
    asc '' '' @
    [0x61C9, 0x8A72, 0x8981, 0x5982, 0x4F55, 0x5C07, 0x9078, 0x8AB2, 0x5B78, 0x54E1, 0x7684, 0x500B,
     0x4EBA] @ asc ''  Blogger  '' @ [0x7DB2, 0x8A8C, 0x9023, 0x7D50, 0x6574, 0x7406] @ asc '' ('' @
    [0x5D4C, 0x5165] @ asc '')'' @ [0x5728, 0x9019, 0x500B, 0x9801, 0x9762] @ asc ''? \<newline>'' @
    asc '' 2010_Beginning Google Blogger.pdf \<newline>'' @
    asc '' '' @ [0x7DB2, 0x969B, 0x5167, 0x5BB9, 0x7BA1, 0x7406, 0x8AB2, 0x7A0B, 0x76EE, 0x6A19] @
    asc '': \<newline>'' @
    asc '' '' @
    [0x7CBE, 0x5BC6, 0x6A5F, 0x68B0, 0x8A2D, 0x8A08, 0x5DE5, 0x7A0B, 0x5E2B, 0x53EF, 0x4EE5, 0x5229,
     0x7528, 0x5177, 0x7248, 0x6B21, 0x8207, 0x6B77, 0x7A0B, 0x7BA1, 0x7406, 0x7CFB, 0x7D71] @
    asc '', '' @
    [0x9577, 0x671F, 0x8A18, 0x9304, 0x5B78, 0x7FD2, 0x8207, 0x7814, 0x7A76, 0x7D50, 0x679C] @
    asc ''. \<newline>'' @
    asc '' '' @
    [0x5229, 0x7528, 0x7DB2, 0x969B, 0x6D41, 0x7A0B, 0x5C55, 0x793A, 0x7522, 0x54C1, 0x8A2D, 0x8A08,
     0x6216, 0x88FD, 0x9020, 0x6D41, 0x7A0B] @ asc '' \<newline>'' @
    asc '' http://mde.tw/virtualkossel/   \<newline>'' @
    asc '' '' @ [0x80CC, 0x666F, 0x77E5, 0x8B58] @ asc '': \<newline>'' @
    asc '' '' @
    [0x00A0, 0x82F1, 0x6587, 0x95B1, 0x8B80, 0x80FD, 0x529B, 0x91CD, 0x4E0D, 0x91CD, 0x8981] @
    asc ''? \<newline>'' @
    asc '' '' @ [0x4F55, 0x8B02] @ asc ''  World Wide Web ? ( '' @
    [0x5168, 0x7403, 0x8CC7, 0x8A0A, 0x7DB2] @ asc '' , '' @
    [0x53C8, 0x7A31, 0x70BA, 0x842C, 0x7DAD, 0x7DB2] @ asc '') \<newline>'' @
    asc '' '' @ [0x70BA, 0x4EC0, 0x9EBC] @
    asc ''  https://zh.wikipedia.org/wiki/%E4%B8%87%E7%BB%B4%E7%BD%91  '' @
    [0x5176, 0x5BE6, 0x5C31, 0x662F] @ asc '' https://zh.wikipedia.org/wiki/'' @
    [0x842C, 0x7DAD, 0x7DB2] @ asc '' \<newline>'' @
    asc '' html '' @ [0x8207] @ asc '' WWW '' @ [0x7684, 0x95DC, 0x4FC2, 0x70BA, 0x4F55, 0xFF1F] @
    asc '' \<newline>'' @
    asc '' '' @
    [0x70BA, 0x4EC0, 0x9EBC, 0x5728, 0x4E0A, 0x5217, 0x4E2D, 0x6587, 0x7248, 0x7684, 0x842C, 0x7DAD,
     0x7DB2, 0x8AAA, 0x660E, 0x9801, 0x9762] @ asc '', '' @ [0x6703, 0x88AB, 0x6A19, 0x8A3B] @
    asc ''"'' @ [0x6B64, 0x689D, 0x76EE, 0x7FFB, 0x8B6F, 0x54C1, 0x8CEA, 0x4E0D, 0x4F73] @ asc ''"? '' @
    [0x82F1, 0x6587, 0x8AAA, 0x660E, 0x9801, 0x70BA, 0x4F55, 0x6C92, 0x6709, 0x9019, 0x6A23, 0x7684,
     0x554F, 0x984C] @ asc ''? \<newline>'' @
    asc '' '' @
    [0x96FB, 0x8166, 0x8EDF, 0x786C, 0x9AD4, 0x61C9, 0x7528, 0x80FD, 0x529B, 0x91CD, 0x4E0D, 0x91CD,
     0x8981] @ asc ''? \<newline>'' @
    asc '' '' @ [0x8981, 0x5C07, 0x5404, 0x5B78, 0x54E1, 0x7684] @ asc ''  Blogger  '' @
    [0x7DB2, 0x8A8C, 0x9023, 0x7D50, 0x653E, 0x5165, 0x9019, 0x500B, 0x9801, 0x9762] @ asc '', '' @
    [0x9664, 0x4E86, 0x624B, 0x52D5, 0x4E00, 0x4E00] @ asc '' key in '' @ [0x7DE8, 0x8F2F, 0x5916] @
    asc '', '' @
    [0x9084, 0x6709, 0x6C92, 0x6709, 0x5176, 0x4ED6, 0x8F03, 0x6709, 0x6548, 0x7387, 0x7684, 0x505A,
     0x6CD5] @ asc ''? \<newline>'' @
    asc '' '' @ [0x7528] @ asc ''  https://ethercalc.net/  '' @
    [0x6309, 0x7167, 0x5B78, 0x865F, 0x6B21, 0x5E8F, 0x53D6, 0x5F97, 0x5404, 0x5B78, 0x54E1, 0x7684] @
    asc ''  Blogger  '' @ [0x7DB2, 0x8A8C, 0x9023, 0x7D50, 0x5F8C] @ asc '', '' @
    [0x5B58, 0x6210, 0x6A94, 0x6848] @ asc '', '' @
    [0x7136, 0x5F8C, 0x518D, 0x7DE8, 0x5BEB, 0x7A0B, 0x5F0F, 0x8B80, 0x53D6, 0x5404, 0x5B78, 0x54E1,
     0x7684, 0x7DB2, 0x8A8C, 0x9023, 0x7D50, 0x5F8C] @ asc '', '' @
    [0x5EFA, 0x7ACB, 0x6240, 0x9700, 0x7684] @ asc '' html '' @
    [0x8D85, 0x6587, 0x4EF6, 0x683C, 0x5F0F, 0x5167, 0x5BB9, 0x5F8C] @ asc '', '' @
    [0x76F4, 0x63A5, 0x5DEE, 0x7570, 0x672C, 0x9801, 0x9762, 0x7279, 0x5B9A, 0x4F4D, 0x7F6E, 0x5F8C,
     0x5B58, 0x6A94] @ asc ''. \<newline>'' @
    asc '' '' @
    [0x5C07, 0x672C, 0x7DB2, 0x8A8C, 0x8A2D, 0x5B9A, 0x70BA, 0x53EF, 0x516C, 0x958B, 0x7DE8, 0x8F2F,
     0x7684, 0x52D5, 0x614B, 0x7DB2, 0x9801, 0x6A21, 0x5F0F] @ asc '', '' @
    [0x8B93, 0x5404, 0x5B78, 0x54E1, 0x81EA, 0x884C, 0x767B, 0x5165, 0x5C07, 0x7DB2, 0x8A8C, 0x9023,
     0x7D50, 0x8F38, 0x5165, 0x5F8C] @ asc '', '' @ [0x4EE5] @ asc ''"'' @
    [0x5354, 0x540C, 0x7DE8, 0x8F2F, 0x6A21, 0x5F0F] @ asc ''"'' @
    [0x5B58, 0x6A94, 0x5F8C, 0x9032, 0x884C, 0x6AA2, 0x67E5, 0x8207, 0x6574, 0x7406] @ asc ''. ('' @
    [0x6B64, 0x4E00, 0x65B9, 0x6848, 0x6240, 0x5F97, 0x5230, 0x7684, 0x7D50, 0x679C] @ asc '', '' @
    [0x8207, 0x4E0A, 0x5217, 0x5176, 0x4ED6, 0x65B9, 0x6CD5, 0x6BD4, 0x8F03, 0x6709, 0x4F55, 0x512A,
     0x9EDE, 0x6216, 0x7F3A, 0x9EDE] @ asc ''?) \<newline>'' @
    asc '' '' @
    [0x9084, 0x6709, 0x6C92, 0x6709, 0x5176, 0x4ED6, 0x66F4, 0x6709, 0x6548, 0x7387, 0x7684, 0x505A,
     0x6CD5] @ asc ''? \<newline>'' @
    asc '' '' @ [0x8B70, 0x984C, 0x8A0E, 0x8AD6] @ asc '': \<newline>'' @
    asc '' '' @
    [0x5047, 0x5982, 0x4E00, 0x4F4D, 0x7CBE, 0x5BC6, 0x6A5F, 0x68B0, 0x5DE5, 0x7A0B, 0x5E2B, 0x53EA,
     0x80FD, 0x63A5, 0x6536, 0x4E2D, 0x6587, 0x8CC7, 0x6599] @ asc '', '' @ [0x9762, 0x5C0D] @
    asc ''"'' @ [0x7FFB, 0x8B6F, 0x54C1, 0x8CEA, 0x4E0D, 0x4F73] @ asc ''"'' @
    [0x7684, 0x842C, 0x7DAD, 0x7DB2] @ asc ''"'' @ [0x8AAA, 0x660E, 0x5167, 0x5BB9] @ asc '', '' @
    [0x662F, 0x5426, 0x61C9, 0x8A72, 0x6709, 0x56E0, 0x61C9, 0x5C0D, 0x7B56] @ asc ''? \<newline>'' @
    asc '' KMOLab '' @
    [0x9F13, 0x52F5, 0x5E74, 0x8F15, 0x4EBA, 0x5118, 0x5FEB, 0x7FFB, 0x8D8A, 0x6A6B, 0x5728, 0x9762,
     0x524D, 0x7684] @ asc '' '' @ [0x4E09, 0x9762, 0x7246, 0x7406, 0x8AD6] @ asc '' . \<newline>'' @
    asc '' '' @
    [0x5047, 0x5982, 0x60F3, 0x8981, 0x5229, 0x7528, 0x7A0B, 0x5F0F, 0x65B9, 0x6CD5, 0x89E3, 0x6C7A,
     0x96FB, 0x8166, 0x8EDF, 0x786C, 0x9AD4, 0x61C9, 0x7528, 0x904E, 0x7A0B, 0x6240, 0x78B0, 0x5230,
     0x7684, 0x554F, 0x984C] @ asc ''? '' @
    [0x8A72, 0x5177, 0x5099, 0x54EA, 0x4E9B, 0x57FA, 0x672C, 0x689D, 0x4EF6] @ asc ''? \<newline>'' @
    asc '' '' @
    [0x4F60, 0x5C0D, 0x96FB, 0x8166, 0x8207, 0x7DB2, 0x8DEF, 0x7684, 0x8EDF, 0x786C, 0x9AD4, 0x914D,
     0x7F6E, 0x53CA, 0x61C9, 0x7528, 0x6709, 0x591A, 0x5C11, 0x4E86, 0x89E3] @ asc ''? \<newline>'' @
    asc '' '' @
    [0x4F60, 0x662F, 0x5426, 0x5177, 0x5099, 0x57FA, 0x672C, 0x7684, 0x82F1, 0x6587, 0x95B1, 0x8B80,
     0x80FD, 0x529B] @ asc ''? '' @
    [0x4F60, 0x80FD, 0x5920, 0x4E0D, 0x770B, 0x9375, 0x76E4, 0x9032, 0x884C, 0x82F1, 0x6587, 0x8207,
     0x4E2D, 0x6587, 0x6253, 0x5B57, 0x55CE] @ asc ''? '' @
    [0x6211, 0x61C9, 0x8A72, 0x8981, 0x5B78, 0x7FD2, 0x54EA, 0x4E00, 0x7A2E, 0x6216, 0x54EA, 0x5E7E,
     0x7A2E, 0x4E2D, 0x6587, 0x8F38, 0x5165, 0x6CD5] @ asc ''? '' @
    [0x6216, 0x8005, 0x6B64, 0x5F8C, 0x5B8C, 0x5168, 0x4F7F, 0x7528, 0x8A9E, 0x97F3, 0x8F49, 0x6587,
     0x5B57, 0x7684, 0x65B9, 0x5F0F, 0x8F38, 0x5165] @ asc ''? \<newline>'' @
    asc '' '' @
    [0x622A, 0x81F3, 0x76EE, 0x524D, 0x53EA, 0x4E0A, 0x904E, 0x8A08, 0x7B97, 0x6A5F, 0x6982, 0x8AD6] @
    asc '', '' @
    [0x800C, 0x4E14, 0x4E0B, 0x5B78, 0x671F, 0x624D, 0x4E0A, 0x8A08, 0x7B97, 0x6A5F, 0x7A0B, 0x5F0F] @
    asc '', '' @
    [0x6211, 0x5011, 0x6709, 0x80FD, 0x529B, 0x73FE, 0x5728, 0x5C31, 0x958B, 0x59CB, 0x5B78, 0x7FD2,
     0x5982, 0x4F55, 0x5BEB, 0x96FB, 0x8166, 0x7A0B, 0x5F0F, 0x55CE] @ asc ''? \<newline>'' @
    asc '' '' @
    [0x96FB, 0x8166, 0x8207, 0x7DB2, 0x8DEF, 0x8EDF, 0x786C, 0x9AD4, 0x662F, 0x73FE, 0x4EE3, 0x4EBA,
     0x751F, 0x6D3B, 0x4E2D, 0x4E0D, 0x53EF, 0x6216, 0x7F3A, 0x7684, 0x5DE5, 0x5177] @ asc '', '' @
    [0x53EA, 0x8981, 0x78BA, 0x8A8D, 0x6578, 0x4F4D, 0x65B9, 0x6CD5, 0x80FD, 0x5920, 0x6709, 0x6548,
     0x89E3, 0x6C7A, 0x554F, 0x984C] @ asc '', '' @
    [0x4EFB, 0x4F55, 0x4EBA, 0x90FD, 0x53EF, 0x4EE5, 0x5728, 0x4EFB, 0x4E00, 0x6642, 0x9593, 0x9EDE,
     0x8A2D, 0x6CD5, 0x900F, 0x904E, 0x5BA2, 0x88FD, 0x5316, 0x7684, 0x8EDF, 0x786C, 0x9AD4, 0x65B9,
     0x6848] @ asc '' ('' @
    [0x81EA, 0x884C, 0x7DE8, 0x5BEB, 0x6216, 0x4FEE, 0x6539, 0x65E2, 0x6709, 0x65B9, 0x6848] @
    asc '') '' @ [0x89E3, 0x6C7A, 0x6240, 0x9762, 0x81E8, 0x7684, 0x554F, 0x984C] @
    asc ''. \<newline>'' @
    asc '' '' @ [0x4E86, 0x89E3] @ asc '' Windows 10 64 '' @
    [0x4F4D, 0x5143, 0x57FA, 0x672C, 0x64CD, 0x4F5C, 0x65B9, 0x5F0F] @ asc '' \<newline>'' @
    asc '' '' @ [0x81EA, 0x884C, 0x5728] @ asc '' Windows 10 64 '' @
    [0x4F4D, 0x5143, 0x4E2D, 0x5EFA, 0x7ACB, 0x53EF, 0x651C, 0x7A0B, 0x5F0F, 0x74B0, 0x5883] @
    asc '' (Why?) \<newline>'' @
    asc '' '' @ [0x81EA, 0x884C, 0x5728] @ asc '' Windows 10 64 '' @
    [0x4F4D, 0x5143, 0x74B0, 0x5883, 0x4E2D, 0x5EFA, 0x7ACB] @ asc '' Ubuntu '' @ [0x865B, 0x64EC] @
    asc '' Virtualbox '' @ [0x4E3B, 0x6A5F] @ asc '', '' @ [0x6216, 0x8005, 0x900F, 0x904E] @
    asc ''  WSL  '' @ [0x4E86, 0x89E3] @ asc '' Linux '' @
    [0x7CFB, 0x7D71, 0x61C9, 0x7528, 0x65B9, 0x6CD5] @ asc ''. \<newline>''\<close>

definition part_000_text_8 :: jsstring where
  \<open>part_000_text_8 =
    [0x8AAA, 0x660E, 0x8207, 0x6A5F, 0x68B0, 0x8A2D, 0x8A08, 0x5DE5, 0x7A0B, 0x7CFB, 0x7D9C, 0x4E00,
     0x9928, 0x516B, 0x6A13, 0x96FB, 0x8166, 0x8F14, 0x52A9, 0x8A2D, 0x8A08, 0x5BA4, 0x96FB, 0x8166,
     0x7DB2, 0x8DEF, 0x8A2D, 0x5B9A, 0x6709, 0x95DC, 0x7684, 0x6B65, 0x9A5F] @ asc '' \<newline>'' @
    asc '' \<newline>'' @
    asc '' demo '' @ [0x5982, 0x4F55, 0x5229, 0x7528] @ asc '' git '' @ [0x5C07, 0x9060, 0x7AEF] @
    asc ''  https://github.com/mdecourse/wcmj2021  '' @ [0x5009, 0x5132] @
    asc '' git clone --recurse-submodules URL '' @ [0x5230, 0x8FD1, 0x7AEF, 0x5F8C] @ asc '', '' @
    [0x5229, 0x7528] @ asc '' Python '' @ [0x555F, 0x52D5] @ asc '' cmsimde '' @
    [0x7DB2, 0x969B, 0x5167, 0x5BB9, 0x7BA1, 0x7406, 0x7CFB, 0x7D71, 0x7684, 0x52D5, 0x614B, 0x7DB2,
     0x7AD9] @ asc '', '' @ [0x52A0, 0x5165, 0x7B2C, 0x4E09, 0x968E, 0x7684] @ asc '' W2 '' @
    [0x9801, 0x9762, 0x5F8C] @ asc '', '' @
    [0x5C07, 0x4E0A, 0x4E00, 0x500B, 0x5F71, 0x7247, 0x5D4C, 0x5165, 0x5F8C] @ asc '', '' @ [0x4EE5] @
    asc '' git add, commit '' @ [0x53CA] @ asc '' push '' @
    [0x628A, 0x6539, 0x7248, 0x7684, 0x5167, 0x5BB9, 0x65B0, 0x589E, 0x63D0, 0x4EA4, 0x63A8, 0x9001,
     0x81F3] @ asc '' Github '' @ [0x5009, 0x5132] @ asc '', '' @
    [0x5F97, 0x5230, 0x6539, 0x7248, 0x5F8C, 0x7684] @
    asc ''  http://mde.tw/wcmj2021/content/W2.html \<newline>'' @
    asc '' \<newline>'' @
    asc '' '' @ [0x8AAA, 0x660E, 0x5982, 0x4F55, 0x5F9E] @ asc ''  http://a.kmol.info:88  '' @
    [0x4E0B, 0x8F09, 0x53EF, 0x651C, 0x7A0B, 0x5F0F, 0x7CFB, 0x7D71] @
    asc '' kmol2021_spring_v3.7z, '' @ [0x5229, 0x7528] @ asc ''  https://www.7-zip.org  '' @
    [0x89E3, 0x958B, 0x58D3, 0x7E2E, 0x5F8C] @ asc '', '' @ [0x5373, 0x53EF, 0x7528] @
    asc '' start_ipv6.bat '' @ [0x555F, 0x52D5, 0x7CFB, 0x7D71] @ asc '', '' @
    [0x4E26, 0x793A, 0x7BC4, 0x5982, 0x4F55, 0x57F7, 0x884C] @ asc '' Python '' @ [0x7A0B, 0x5F0F] @
    asc ''. \<newline>'' @
    asc '' \<newline>'' @
    asc '' '' @ [0x8AAA, 0x660E, 0x5982, 0x4F55, 0x5229, 0x7528] @
    asc ''  https://github.com/mdecourse/cmstemplate  '' @ [0x5EFA, 0x7ACB, 0x81EA, 0x5DF1, 0x7684] @
    asc '' '' @ [0x5E33, 0x865F] @ asc ''.github.io '' @ [0x7DB2, 0x7AD9] @ asc '' \<newline>''\<close>

definition part_000_text_9 :: jsstring where
  \<open>part_000_text_9 =
    [0x622A, 0x81F3, 0x76EE, 0x524D, 0x70BA, 0x6B62] @ asc '', '' @
    [0x6211, 0x5011, 0x5DF2, 0x7D93, 0x4ECB, 0x7D39, 0x5982, 0x4F55, 0x5229, 0x7528, 0x5B78, 0x6821,
     0x6240, 0x914D, 0x767C, 0x7684] @ asc '' @gm '' @
    [0x96FB, 0x5B50, 0x90F5, 0x4EF6, 0x5E33, 0x865F, 0x5EFA, 0x7ACB, 0x5728] @
    asc ''  https://www.blogger.com  '' @ [0x7684] @ asc '' '' @ [0x500B, 0x4EBA, 0x7DB2, 0x8A8C] @
    asc '' '' @ [0x4EE5, 0x53CA] @ asc '' '' @ [0x5206, 0x7D44, 0x7DB2, 0x8A8C] @ asc '' , '' @
    [0x4E5F, 0x8AAA, 0x660E, 0x5982, 0x4F55, 0x5728] @ asc ''  https://github.com/  '' @
    [0x5229, 0x7528] @ asc ''  '' @ [0x5E33, 0x865F] @ asc ''.github.io  '' @
    [0x5009, 0x5132, 0x5EFA, 0x7ACB] @ asc '' '' @ [0x500B, 0x4EBA, 0x7DB2, 0x7AD9] @ asc '' , '' @
    [0x63A5, 0x4E0B, 0x4F86, 0x5C07, 0x4EE5, 0x6BCF, 0x7D44, 0x516D, 0x4EBA, 0x70BA, 0x4E00, 0x500B,
     0x55AE, 0x4F4D, 0x9032, 0x884C, 0x7DB2, 0x969B, 0x5167, 0x5BB9, 0x7684, 0x95B1, 0x8B80, 0x4EE5,
     0x53CA, 0x6574, 0x7406] @ asc '', '' @
    [0x4EE5, 0x4E0B, 0x70BA, 0x7B2C, 0x4E5D, 0x9031, 0x671F, 0x4E2D, 0x8003, 0x4E4B, 0x524D] @
    asc '', '' @ [0x5E0C, 0x671B, 0x5404, 0x7D44, 0x5B8C, 0x6210, 0x95B1, 0x8B80] @ asc '', '' @
    [0x8A0E, 0x8AD6, 0x4E26, 0x6574, 0x7406, 0x7684, 0x76F8, 0x95DC, 0x5167, 0x5BB9] @
    asc '': \<newline>'' @
    asc '' \<newline>'' @
    asc '' '' @
    [0x8207, 0x8A08, 0x7B97, 0x6A5F, 0x6982, 0x8AD6, 0x8207, 0x96FB, 0x8166, 0x7DB2, 0x8DEF, 0x6709,
     0x95DC, 0x7684, 0x5167, 0x5BB9, 0x6574, 0x7406] @
    asc '' -  Intro to computer1 ,  2 ,  computer networks , ( ntu ee course ) \<newline>'' @
    asc '' '' @ [0x8207] @ asc '' Google '' @
    [0x767C, 0x5C55, 0x6709, 0x95DC, 0x7684, 0x5167, 0x5BB9, 0x6574, 0x7406] @ asc '' - '' @
    [0x6709, 0x95DC] @ asc '' Google '' @ [0x7684, 0x767C, 0x5C55, 0x6B77, 0x53F2] @
    asc '':  https://en.wikipedia.org/wiki/Google , '' @
    [0x8ACB, 0x5404, 0x7D44, 0x7D44, 0x54E1, 0x4ED4, 0x7D30, 0x95B1, 0x8B80, 0x9019, 0x4EFD, 0x8CC7,
     0x6599, 0x5F8C] @ asc '', '' @
    [0x5C07, 0x8A8D, 0x70BA, 0x91CD, 0x9EDE, 0x7684, 0x8CC7, 0x6599, 0x653E, 0x5165, 0x5404, 0x5B78,
     0x54E1, 0x7684] @ asc '' blogger '' @
    [0x7DB2, 0x8A8C, 0x4EE5, 0x53CA, 0x500B, 0x4EBA, 0x7DB2, 0x7AD9, 0x4E2D] @ asc ''. \<newline>'' @
    asc '' https://developers.google.com/blogger '' @ [0x00A0] @ asc '' \<newline>'' @
    asc '' \<newline>'' @
    asc '' '' @ [0x8AAA, 0x660E, 0x5982, 0x4F55, 0x5728] @ asc '' Github '' @
    [0x5E33, 0x865F, 0x4E0B, 0x5229, 0x7528] @ asc '' "'' @ [0x5E33, 0x865F] @ asc ''.github.io" '' @
    [0x5009, 0x5132, 0x5EFA, 0x7ACB, 0x7DB2, 0x9801] @ asc ''. '' @
    [0x57FA, 0x672C, 0x7684, 0x5EFA, 0x7F6E, 0x6D41, 0x7A0B, 0x70BA] @ asc '': \<newline>'' @
    asc '' \<newline>'' @
    asc '' '' @ [0x767B, 0x5165] @ asc '' Github '' @ [0x5E33, 0x865F] @ asc '' \<newline>'' @
    asc '' '' @ [0x9023, 0x7DDA, 0x81F3] @ asc ''  https://github.com/mdecourse/cmstemplate  '' @
    [0x5F8C, 0x9EDE, 0x64CA] @ asc '' Use this template, '' @
    [0x4EE5, 0x6B64, 0x5009, 0x5132, 0x5167, 0x5BB9, 0x4F5C, 0x70BA, 0x6A23, 0x677F] @ asc '', '' @
    [0x6240, 0x5EFA, 0x7ACB, 0x7684, 0x5009, 0x5132, 0x5373, 0x53EF, 0x900F, 0x904E] @
    asc '' Github Pages '' @ [0x7684, 0x67B6, 0x69CB] @ asc '', '' @
    [0x7522, 0x751F, 0x5C0D, 0x61C9, 0x7684, 0x500B, 0x4EBA, 0x7DB2, 0x9801] @ asc '' \<newline>'' @
    asc '' '' @ [0x5047, 0x5982, 0x518D, 0x4F7F, 0x7528] @ asc '' Brython '' @
    [0x53EF, 0x4EE5, 0x5728, 0x7DB2, 0x9801, 0x4E2D, 0x5EFA, 0x7ACB, 0x4E00, 0x500B, 0x57FA, 0x672C,
     0x7684, 0x7DB2, 0x969B] @ asc '' Python '' @ [0x7DF4, 0x7FD2, 0x9801, 0x9762] @
    asc '' \<newline>'' @
    asc '' \<newline>'' @
    asc '' \<newline>'' @
    asc '' W10-W18 \<newline>'' @
    asc '' \<newline>'' @
    asc '' '' @ [0x7DB2, 0x969B, 0x5167, 0x5BB9, 0x7BA1, 0x7406, 0x61C9, 0x7528] @
    asc '' I -  Brython ,  Glowsript \<newline>'' @
    asc '' '' @ [0x7DB2, 0x969B, 0x5167, 0x5BB9, 0x7BA1, 0x7406, 0x61C9, 0x7528] @
    asc '' II -  Fossil SCM \<newline>'' @
    asc '' '' @
    [0x9032, 0x5C55, 0x4E2D, 0x7684, 0x7DB2, 0x969B, 0x8207, 0x6578, 0x4F4D, 0x672A, 0x4F86] @
    asc '' - '' @ [0x4E00, 0x5F35] @ asc '' '' @
    [0x516D, 0x5343, 0x4E5D, 0x767E, 0x842C, 0x7F8E, 0x5143, 0x7684, 0x6578, 0x4F4D, 0x5716, 0x6A94] @
    asc '' ,  What is Blockchain? ,  '' @ [0x5340, 0x584A, 0x93C8, 0x5C08, 0x984C, 0x5831, 0x544A] @
    asc '' ,  '' @ [0x61C9, 0x7528, 0x7BC4, 0x4F8B] @ asc '' ,  '' @
    [0x4E2D, 0x570B, 0x5340, 0x584A, 0x7DF4, 0x7522, 0x696D, 0x767D, 0x76AE, 0x66F8] @
    asc '' ,  Build Your Own Blockchain \<newline>''\<close>

definition part_000_text_10 :: jsstring where
  \<open>part_000_text_10 =
    asc ''Python '' @ [0x8A9E, 0x6CD5] @ asc '' \<newline>'' @
    asc '' '' @ [0x7531, 0x65BC] @ asc '' Github Pages '' @ [0x4E0D, 0x5141, 0x8A31, 0x4F3A, 0x670D] @
    asc '' __init__.py '' @ [0x6A94, 0x6848] @ asc '', '' @
    [0x56E0, 0x6B64, 0x4E0B, 0x5217, 0x7BC4, 0x4F8B, 0x4E2D, 0x9700, 0x8981, 0x5C0E, 0x5165] @
    asc '' ggame '' @ [0x7684, 0x90E8, 0x5206] @ asc '', '' @ [0x5C07, 0x7121, 0x6CD5, 0x5728] @
    asc '' Github Pages '' @ [0x7DB2, 0x7AD9, 0x4E2D, 0x57F7, 0x884C] @ asc ''. \<newline>'' @
    asc '' Python 3 '' @ [0x5B98, 0x65B9, 0x6559, 0x6750] @
    asc '':  https://docs.python.org/3/index.html \<newline>'' @
    asc '' Python tutorial:  https://docs.python.org/3/tutorial/index.html  ('' @ [0x82F1, 0x6587] @
    asc '') \<newline>'' @
    asc '' Python '' @ [0x6559, 0x5B78] @
    asc '':  https://python-doc-tw.github.io/tutorial/index.html \<newline>'' @
    asc '' '' @ [0x7DB2, 0x9801, 0x4E0A, 0x7684] @
    asc '' Python - Brython:  https://www.brython.info/static_doc/en/intro.html  ('' @
    [0x89E3, 0x8B6F, 0x5F0F] @ asc '') \<newline>'' @
    asc '' '' @ [0x7DB2, 0x9801, 0x4E0A, 0x7684] @
    asc '' Python GUI- Flexx:  https://flexx.readthedocs.io/en/stable/  ('' @ [0x8F49, 0x8B6F, 0x5F0F] @
    asc '') \<newline>'' @
    asc '' '' @ [0x958B, 0x653E, 0x96FB, 0x5B50, 0x66F8] @ asc '': \<newline>'' @
    asc '' Python '' @ [0x6559, 0x7A0B] @ asc ''  ('' @ [0x4E2D, 0x6587] @ asc '') \<newline>'' @
    asc '' Python '' @ [0x5165, 0x9580, 0x6307, 0x5357] @ asc ''  ('' @ [0x4E2D, 0x6587] @
    asc '') \<newline>'' @
    asc '' how-to-code-in-python.pdf  ('' @ [0x82F1, 0x6587] @ asc '') \<newline>'' @
    asc '' https://www.py4e.com/book.php  ('' @
    [0x82F1, 0x6587, 0x8207, 0x5C0F, 0x90E8, 0x5206, 0x5B8C, 0x6210, 0x4E2D, 0x6587, 0x7FFB, 0x8B6F] @
    asc '') \<newline>'' @
    asc '' \<newline>'' @
    asc '' \<newline>'' @
    asc '' \<newline>'' @
    asc ''  for ggame  \<newline>'' @
    asc '' \<newline>'' @
    asc '' \<newline>'' @
    asc '' \<newline>'' @
    asc '' \<newline>'' @
    asc '' \<newline>'' @
    asc ''  Cango '' @ [0x7A0B, 0x5F0F, 0x5EAB] @ asc ''  \<newline>'' @
    asc '' \<newline>'' @
    asc '' \<newline>'' @
    asc '' \<newline>'' @
    asc ''  for Konva '' @ [0x7A0B, 0x5F0F, 0x5EAB] @ asc ''  \<newline>'' @
    asc '' \<newline>'' @
    asc '' \<newline>'' @
    asc '' \<newline>'' @
    asc ''  '' @ [0x5C0E, 0x5165] @ asc '' FileSaver '' @ [0x8207] @ asc '' filereader  \<newline>'' @
    asc '' \<newline>'' @
    asc '' \<newline>'' @
    asc '' \<newline>'' @
    asc '' \<newline>'' @
    asc ''  '' @ [0x5C0E, 0x5165] @ asc '' ace  \<newline>'' @
    asc '' \<newline>'' @
    asc '' \<newline>'' @
    asc '' \<newline>'' @
    asc '' \<newline>'' @
    asc '' \<newline>'' @
    asc '' \<newline>'' @
    asc ''  '' @ [0x8ACB, 0x6CE8, 0x610F] @ asc '', '' @ [0x9019, 0x88E1, 0x4F7F, 0x7528] @
    asc '' Javascript '' @ [0x5C07] @ asc '' localStorage["py_src"] '' @
    [0x4E2D, 0x5B58, 0x5728, 0x8FD1, 0x7AEF, 0x700F, 0x89BD, 0x5668, 0x7684, 0x7A0B, 0x5F0F, 0x78BC] @
    asc '', '' @ [0x7531, 0x4F7F, 0x7528, 0x8005, 0x6C7A, 0x5B9A, 0x5B58, 0x6A94, 0x540D, 0x7A31] @
    asc '' \<newline>'' @
    asc '' \<newline>'' @
    asc '' \<newline>'' @
    asc '' \<newline>'' @
    asc '' '' @ [0x958B, 0x59CB, 0x7DF4, 0x7FD2] @ asc '' print() '' @ [0x7528, 0x6CD5] @ asc '', '' @
    [0x4E26, 0x8457, 0x624B, 0x5EFA, 0x7ACB, 0x51FD, 0x5F0F] @ asc '' \<newline>'' @
    asc ''  '' @ [0x5370, 0x51FA, 0x7248, 0x6B21, 0x8207, 0x95DC, 0x9375, 0x5B57, 0x7A0B, 0x5F0F] @
    asc ''  \<newline>'' @
    asc '' \<newline>'' @
    asc '' \<newline>'' @
    asc '' \<newline>'' @
    asc ''  '' @ [0x7528, 0x4F86, 0x986F, 0x793A, 0x7A0B, 0x5F0F, 0x78BC, 0x7684] @ asc '' editor '' @
    [0x5340, 0x57DF] @ asc ''  \<newline>'' @
    asc '' \<newline>'' @
    asc ''  '' @
    [0x4EE5, 0x4E0B, 0x7684, 0x8868, 0x55AE, 0x8207, 0x6309, 0x9215, 0x8207, 0x524D, 0x9762, 0x7684] @
    asc '' Javascript doSave '' @ [0x51FD, 0x5F0F, 0x4EE5, 0x53CA] @ asc '' FileSaver.min.js '' @
    [0x4E92, 0x76F8, 0x914D, 0x5408] @ asc ''  \<newline>'' @
    asc '' Filename:  .py   \<newline>'' @
    asc '' Run   Output   '' @ [0x6E05, 0x9664, 0x8F38, 0x51FA, 0x5340] @ asc '' '' @
    [0x6E05, 0x9664, 0x7E6A, 0x5716, 0x5340] @ asc '' Reload \<newline>'' @
    asc '' \<newline>'' @
    asc '' \<newline>'' @
    asc '' \<newline>'' @
    asc ''  ****************************** keyword start  \<newline>'' @
    asc '' \<newline>'' @
    asc '' \<newline>'' @
    asc ''  ****************************** keyword end  \<newline>'' @
    asc ''  ***************************** slide ex1 start  \<newline>'' @
    asc '' \<newline>'' @
    asc '' \<newline>'' @
    asc '' \<newline>'' @
    asc ''  ***************************** slide ex1 end  \<newline>'' @
    asc ''  ***************************** slide ex2 start  \<newline>'' @
    asc '' \<newline>'' @
    asc '' \<newline>'' @
    asc '' \<newline>'' @
    asc ''  ***************************** slide ex2 end  \<newline>'' @
    asc ''  ***************************** slide ex3 start  \<newline>'' @
    asc '' \<newline>'' @
    asc '' \<newline>'' @
    asc '' \<newline>'' @
    asc ''  ***************************** slide ex3 end  \<newline>'' @
    asc ''  ***************************** slide ex4 start  \<newline>'' @
    asc '' \<newline>'' @
    asc '' \<newline>'' @
    asc '' \<newline>'' @
    asc ''  ***************************** slide ex4 end  \<newline>'' @
    asc ''  line drawing start  \<newline>'' @
    asc '' \<newline>'' @
    asc '' \<newline>'' @
    asc '' \<newline>'' @
    asc ''  line drawing ends  \<newline>'' @
    asc '' \<newline>'' @
    asc ''  flag ex start  \<newline>'' @
    asc '' \<newline>'' @
    asc '' \<newline>'' @
    asc '' \<newline>'' @
    asc ''  flag ex ends  \<newline>'' @
    asc '' \<newline>'' @
    asc ''  bunny start  \<newline>'' @
    asc '' \<newline>'' @
    asc '' \<newline>'' @
    asc '' \<newline>'' @
    asc ''  bunny ends  \<newline>'' @
    asc '' \<newline>'' @
    asc ''  clear canvas start  \<newline>'' @
    asc '' \<newline>'' @
    asc '' \<newline>'' @
    asc '' \<newline>'' @
    asc ''  clear canvas ends  \<newline>'' @
    asc '' \<newline>'' @
    asc ''  cango spur gears start  \<newline>'' @
    asc '' \<newline>'' @
    asc '' \<newline>'' @
    asc '' \<newline>'' @
    asc ''  cango spur gears ends  \<newline>'' @
    asc '' \<newline>'' @
    asc ''  temp convert start  \<newline>'' @
    asc '' \<newline>'' @
    asc '' \<newline>'' @
    asc '' \<newline>'' @
    asc ''  temp convert ends  \<newline>'' @
    asc '' \<newline>'' @
    asc ''  forloop start  \<newline>'' @
    asc '' \<newline>'' @
    asc '' \<newline>'' @
    asc '' \<newline>'' @
    asc ''  forloop ends  \<newline>'' @
    asc '' \<newline>'' @
    asc ''  guess start  \<newline>'' @
    asc '' \<newline>'' @
    asc '' \<newline>'' @
    asc '' \<newline>'' @
    asc ''  guess ends  \<newline>'' @
    asc '' \<newline>'' @
    asc ''  autoguess start  \<newline>'' @
    asc '' \<newline>'' @
    asc '' \<newline>'' @
    asc '' \<newline>'' @
    asc ''  autoguess ends  \<newline>'' @
    asc '' \<newline>'' @
    asc ''  lottery start  \<newline>'' @
    asc '' \<newline>'' @
    asc '' \<newline>'' @
    asc '' \<newline>'' @
    asc ''  lottery ends  \<newline>'' @
    asc '' \<newline>'' @
    asc ''  '' @ [0x53F0, 0x7063, 0x5A01, 0x529B, 0x5F69] @ asc '' start  \<newline>'' @
    asc '' \<newline>'' @
    asc '' \<newline>'' @
    asc '' \<newline>'' @
    asc ''  '' @ [0x53F0, 0x7063, 0x5A01, 0x529B, 0x5F69] @ asc '' ends  \<newline>'' @
    asc '' \<newline>'' @
    asc ''  bezier starts  \<newline>'' @
    asc '' \<newline>'' @
    asc '' \<newline>'' @
    asc '' \<newline>'' @
    asc ''  bezier ends  \<newline>'' @
    asc '' \<newline>'' @
    asc ''  turtle1 starts  \<newline>'' @
    asc '' \<newline>'' @
    asc '' \<newline>'' @
    asc '' \<newline>'' @
    asc ''  turtle1 ends  \<newline>'' @
    asc '' \<newline>'' @
    asc ''  turtle2 starts  \<newline>'' @
    asc '' \<newline>'' @
    asc '' \<newline>'' @
    asc '' \<newline>'' @
    asc ''  turtle2 ends  \<newline>'' @
    asc '' \<newline>'' @
    asc ''  turtle3 starts  \<newline>'' @
    asc '' \<newline>'' @
    asc '' \<newline>'' @
    asc '' \<newline>'' @
    asc ''  turtle3 ends  \<newline>'' @
    asc '' \<newline>'' @
    asc ''  turtle4 starts  \<newline>'' @
    asc '' \<newline>'' @
    asc '' \<newline>'' @
    asc '' \<newline>'' @
    asc ''  turtle4 ends  \<newline>'' @
    asc '' \<newline>'' @
    asc ''  turtle5 starts  \<newline>'' @
    asc '' \<newline>'' @
    asc '' \<newline>'' @
    asc '' \<newline>'' @
    asc ''  turtle5 ends  \<newline>'' @
    asc '' \<newline>'' @
    asc ''  turtle6 starts  \<newline>'' @
    asc '' \<newline>'' @
    asc '' \<newline>'' @
    asc '' \<newline>'' @
    asc ''  turtle6 ends  \<newline>'' @
    asc '' \<newline>'' @
    asc ''  turtle7 starts  \<newline>'' @
    asc '' \<newline>'' @
    asc '' \<newline>'' @
    asc '' \<newline>'' @
    asc ''  turtle7 ends  \<newline>'' @
    asc '' \<newline>'' @
    asc ''  turtle8 starts  \<newline>'' @
    asc '' \<newline>'' @
    asc '' \<newline>'' @
    asc '' \<newline>'' @
    asc ''  turtle8 ends  \<newline>'' @
    asc '' \<newline>'' @
    asc ''  konva1 starts  \<newline>'' @
    asc '' \<newline>'' @
    asc '' \<newline>'' @
    asc '' \<newline>'' @
    asc ''  konva1 ends  \<newline>'' @
    asc '' \<newline>'' @
    asc ''  ycqsort starts  \<newline>'' @
    asc '' \<newline>'' @
    asc '' \<newline>'' @
    asc '' \<newline>'' @
    asc ''  ycqsort ends  \<newline>'' @
    asc '' \<newline>'' @
    asc ''  ball starts  \<newline>'' @
    asc '' \<newline>'' @
    asc '' \<newline>'' @
    asc '' \<newline>'' @
    asc ''  ball ends  \<newline>'' @
    asc ''  ****************************** bubble sort start  \<newline>'' @
    asc '' \<newline>'' @
    asc '' \<newline>'' @
    asc ''  ****************************** bubble sort end  \<newline>'' @
    asc '' Keyword Bubble Sort Ex1 Ex2 Ex3 Ex4 Ex5 Guess Autoguess '' @ [0x5927, 0x6A02, 0x900F] @
    asc '' '' @ [0x5A01, 0x529B, 0x5F69] @
    asc '' Temp Draw Flag Bezier Turtle1 Turtle2 Turtle3 Turtle4 Turtle5 Turtle6 Turtle7 Turtle8 '' @
    asc ''Konva1 Bunny Ball Spur Ycqsort Clear \<newline>'' @
    asc '' '' @ [0x53C3, 0x8003, 0x8CC7, 0x6599] @ asc '': \<newline>'' @
    asc '' turtle_intro.pdf \<newline>'' @
    asc '' turtle_intro2.pdf \<newline>'' @
    asc '' '' @ [0x5176, 0x4ED6, 0x64F7, 0x53D6, 0x7A0B, 0x5F0F, 0x7684, 0x65B9, 0x5F0F] @
    asc '':  http://mde.tw/2017springvcp/blog/web-based-python.html \<newline>'' @
    asc '' Qt for Python \<newline>'' @
    asc '' https://www.qt.io/qt-for-python \<newline>'' @
    asc '' https://build-system.fman.io/python-qt-tutorial \<newline>'' @
    asc '' https://build-system.fman.io/pyqt-exe-creation/ \<newline>'' @
    asc '' https://github.com/mherrmann/fbs-tutorial \<newline>'' @
    asc '' https://www.ics.com/blog/we-ported-qt-app-c-python-heres-what-happened \<newline>'' @
    asc '' QML '' @ [0x8207] @ asc '' Flutter \<newline>'' @
    asc '' https://paulhammant.com/2016/11/15/qmls-squandered-opportunity/ '' @
    [0x00A0, 0x4E2D, 0x6240, 0x63D0, 0x5230] @ asc '' QML '' @
    [0x7684, 0x5F31, 0x9EDE, 0x5728, 0x65BC, 0x5C07] @ asc '' .qml '' @ [0x8207] @ asc '' .c++ '' @
    [0x6216] @ asc '' .py'' @ [0x00A0] @ asc '' '' @ [0x5206, 0x958B, 0x7684, 0x554F, 0x984C] @
    asc '', Google '' @ [0x7E3D, 0x7B97, 0x5728] @ asc '' Flutter '' @
    [0x9069, 0x5EA6, 0x89E3, 0x6C7A, 0x4E86, 0x6B64, 0x4E00, 0x74F6, 0x9838] @ asc ''. \<newline>'' @
    asc '' '' @ [0x4F46, 0x662F] @ asc '' QML '' @ [0x52A0, 0x4E0A] @ asc '' Qt for Python '' @
    [0x4ECD, 0x4E0D, 0x5931, 0x70BA, 0x4E00, 0x500B, 0x597D, 0x4E86] @ asc '' Desktop GUI '' @
    [0x958B, 0x767C, 0x6846, 0x67B6] @ asc ''. \<newline>'' @
    asc '' \<newline>'' @
    asc '' \<newline>'' @
    asc '' \<newline>'' @
    asc '' \<newline>'' @
    asc '' \<newline>'' @
    asc '' \<newline>''\<close>

definition part_000_text_11 :: jsstring where
  \<open>part_000_text_11 =
    [0x7DB2, 0x969B, 0x5167, 0x5BB9, 0x7BA1, 0x7406, 0x7684, 0x4F7F, 0x7528, 0x5EFA, 0x8B70] @
    asc '': \<newline>'' @
    asc '' \<newline>'' @
    asc '' '' @
    [0x5728, 0x96F2, 0x7AEF, 0x4E0A, 0x53EA, 0x5B58, 0x653E, 0x8207, 0x500B, 0x4EBA, 0x6216, 0x5718,
     0x968A, 0x5C08, 0x696D, 0x6709, 0x95DC, 0x7684, 0x5167, 0x5BB9] @ asc '' ('' @
    [0x4EE5, 0x5B78, 0x865F, 0x4F5C, 0x70BA] @ asc '' identity, '' @ [0x9664, 0x4E86] @
    asc ''  Linkedin  '' @ [0x5916] @ asc '', '' @ [0x4E0D, 0x8981, 0x4F7F, 0x7528, 0x672C, 0x540D] @
    asc '') \<newline>'' @
    asc '' '' @
    [0x4E0D, 0x8981, 0x5C07, 0x500B, 0x4EBA, 0x751F, 0x6D3B, 0x6709, 0x95DC, 0x7684, 0x5716, 0x6587,
     0x653E, 0x5230, 0x7DB2, 0x969B, 0x7A7A, 0x9593] @ asc '' ('' @
    [0x4E0D, 0x8981, 0x4F7F, 0x7528, 0x81C9, 0x66F8] @ asc '', '' @
    [0x4E0D, 0x8981, 0x4F7F, 0x7528, 0x5176, 0x4ED6, 0x4EFB, 0x4F55, 0x96F2, 0x7AEF, 0x793E, 0x7FA4,
     0x670D, 0x52D9, 0x64FA, 0x653E, 0x4EFB, 0x4F55, 0x500B, 0x4EBA, 0x8CC7, 0x6599] @
    asc '') \<newline>'' @
    asc '' '' @
    [0x5118, 0x91CF, 0x4F7F, 0x7528, 0x700F, 0x89BD, 0x5668, 0x67E5, 0x627E, 0x8CC7, 0x6599] @
    asc '', '' @
    [0x6BCF, 0x6B21, 0x4F7F, 0x7528, 0x5F8C, 0x8981, 0x522A, 0x9664, 0x66AB, 0x5B58, 0x6A94] @
    asc '', '' @
    [0x907F, 0x514D, 0x4F7F, 0x7528, 0x624B, 0x6A5F, 0x4E0A, 0x7D81, 0x5B9A, 0x5BE6, 0x540D, 0x5236,
     0x7684] @ asc '' Apps \<newline>'' @
    asc '' \<newline>'' @
    asc '' '' @ [0x9019, 0x500B, 0x79AE, 0x62DC, 0x958B, 0x59CB, 0x81F3] @ asc '' W9, '' @
    [0x5404, 0x5C0F, 0x7D44, 0x8981, 0x5C07] @ asc '' W1-W4 '' @
    [0x7684, 0x6559, 0x5B78, 0x5F71, 0x7247, 0x52A0, 0x4EE5, 0x6574, 0x7406] @ asc '', '' @
    [0x8B93, 0x6BCF, 0x4F4D, 0x7D44, 0x54E1, 0x90FD, 0x80FD, 0x5728] @ asc '' Blogger '' @
    [0x6574, 0x7406, 0x81EA, 0x5DF1, 0x904E, 0x53BB, 0x4E00, 0x500B, 0x591A, 0x5B78, 0x671F, 0x7684,
     0x8AB2, 0x7A0B, 0x5B78, 0x7FD2, 0x5167, 0x5BB9] @ asc '', '' @
    [0x4EE5, 0x7DB2, 0x969B, 0x5167, 0x5BB9, 0x7BA1, 0x7406, 0x67B6, 0x69CB] @ asc '', '' @
    [0x53EF, 0x651C, 0x7A0B, 0x5F0F, 0x7CFB, 0x7D71, 0x53CA] @ asc '' Github '' @
    [0x5009, 0x5132, 0x8207, 0x7DB2, 0x9801, 0x7684, 0x6A21, 0x5F0F, 0x5B58, 0x653E, 0x5167, 0x5BB9] @
    asc ''. \<newline>'' @
    asc '' '' @ [0x7DB2, 0x969B, 0x5167, 0x5BB9, 0x7BA1, 0x7406, 0x5B78, 0x7FD2] @
    asc '' Check List: \<newline>'' @
    asc '' \<newline>'' @
    asc '' '' @ [0x662F, 0x5426, 0x5DF2, 0x7D93, 0x5EFA, 0x7ACB, 0x500B, 0x4EBA] @
    asc '' Blogger? \<newline>'' @
    asc '' '' @ [0x662F, 0x5426, 0x6703, 0x4F7F, 0x7528] @ asc '' Blogger, '' @
    [0x65B0, 0x589E, 0x5354, 0x540C, 0x8457, 0x4F5C, 0x8005] @ asc ''? \<newline>'' @
    asc '' '' @ [0x662F, 0x5426, 0x6703, 0x5728] @ asc '' Blogger '' @
    [0x4E2D, 0x4F7F, 0x7528, 0x5404, 0x7A2E] @ asc '' HTML '' @ [0x6A19, 0x8A3B] @ asc '', '' @
    [0x5305, 0x62EC, 0x52A0, 0x5165] @ asc '' Python '' @ [0x7A0B, 0x5F0F, 0x78BC] @ asc '', '' @
    [0x5D4C, 0x5165, 0x5F71, 0x7247, 0x6A94, 0x6848, 0x7B49] @ asc ''? \<newline>'' @
    asc '' '' @ [0x662F, 0x5426, 0x6703, 0x5229, 0x7528] @
    asc ''  https://github.com/mdecourse/cmstemplate  '' @
    [0x5EFA, 0x7ACB, 0x500B, 0x4EBA, 0x7DB2, 0x9801] @ asc ''? \<newline>'' @
    asc '' '' @
    [0x662F, 0x5426, 0x6703, 0x5728, 0x500B, 0x4EBA, 0x7DB2, 0x7AD9, 0x4E0A, 0x5D4C, 0x5165, 0x7DB2,
     0x969B] @ asc '' Python ( Brython ) '' @ [0x7A0B, 0x5F0F, 0x74B0, 0x5883] @ asc ''? \<newline>'' @
    asc '' '' @ [0x662F, 0x5426, 0x5DF2, 0x7D93, 0x4E86, 0x89E3, 0x6240, 0x8B02, 0x7684] @
    asc '' Bubble Sort Python '' @ [0x7A0B, 0x5F0F] @ asc ''? \<newline>'' @
    asc '' '' @ [0x662F, 0x5426, 0x5DF2, 0x7D93, 0x6703, 0x4F7F, 0x7528] @ asc '' SSH '' @
    [0x5C07, 0x6539, 0x7248, 0x8CC7, 0x6599] @ asc '' push '' @ [0x5230] @ asc '' Github? \<newline>'' @
    asc '' '' @
    [0x5404, 0x7D44, 0x662F, 0x5426, 0x5DF2, 0x7D93, 0x627E, 0x5230, 0x60F3, 0x8981, 0x7814, 0x7A76,
     0x7684, 0x7DB2, 0x969B, 0x5167, 0x5BB9, 0x7BA1, 0x7406, 0x76F8, 0x95DC, 0x7684, 0x5206, 0x7D44,
     0x5C08, 0x6848, 0x984C, 0x76EE] @ asc ''? \<newline>'' @
    asc '' \<newline>'' @
    asc '' 2008_Organizing and Managing Personal Electronic Files- A Mechanical Engineer'' @ [0x2019] @
    asc ''s Perspective.pdf \<newline>'' @
    asc '' how-to-code-in-python.pdf \<newline>'' @
    asc '' 2018_'' @ [0x4E2D, 0x570B, 0x5340, 0x584A, 0x934A, 0x7522, 0x696D, 0x767D, 0x76AE, 0x66F8] @
    asc ''.pdf \<newline>'' @
    asc '' 2019-08'' @ [0x5C08, 0x984C, 0x5831, 0x544A] @ asc ''-'' @ [0x5340, 0x584A, 0x93C8] @
    asc ''plus'' @
    [0x6642, 0x4EE3, 0x7684, 0x793E, 0x7D93, 0x8B8A, 0x9769, 0x8207, 0x5275, 0x65B0, 0x601D, 0x7DAD] @
    asc ''.pdf \<newline>'' @
    asc '' 2020'' @ [0x5E74, 0x4E2D, 0x5C0F, 0x4F01, 0x696D, 0x767D, 0x76AE, 0x66F8] @ asc ''('' @
    [0x5168] @ asc '')_v1.pdf \<newline>'' @
    asc '' '' @ [0x5275, 0x610F, 0x53F0, 0x7063] @ asc '' 2020 '' @
    [0x653F, 0x7B56, 0x767D, 0x76AE, 0x66F8] @ asc ''.pdf \<newline>'' @
    asc '' Blockchain_for_dummies.pdf \<newline>'' @
    asc '' ComputerNetworks_936_pages.pdf \<newline>'' @
    asc '' 2030 '' @ [0x53F0, 0x7063, 0x79D1, 0x6280, 0x9858, 0x666F] @ asc '': \<newline>'' @
    asc '' taiwan_2030_tech_vision.pdf''\<close>

definition part_000_text_12 :: jsstring where
  \<open>part_000_text_12 =
    [0x5B78, 0x6821, 0x8207, 0x7CFB, 0x4E0A, 0x6240, 0x63D0, 0x4F9B, 0x7684, 0x8EDF, 0x9AD4, 0x5957,
     0x4EF6, 0x5B89, 0x88DD, 0x4ECB, 0x7D39] @ asc '' \<newline>'' @
    asc '' Windows 10 \<newline>'' @
    asc '' '' @ [0x6821, 0x5712, 0x8EDF, 0x9AD4] @ asc '' \<newline>'' @
    asc '' '' @ [0x8A2D, 0x8A08, 0x8207, 0x5206, 0x6790, 0x5957, 0x4EF6] @ asc '': \<newline>'' @
    asc '' '' @ [0x8F14, 0x52A9, 0x5DE5, 0x5177] @ asc '' \<newline>'' @
    asc '' '' @ [0x6821, 0x5712, 0x4E0B, 0x8F09] @ asc '' '' @
    [0x4EE5, 0x4E0B, 0x9023, 0x7D50, 0x5FC5, 0x9808, 0x5728, 0x6821, 0x5712, 0x7DB2, 0x8DEF, 0x3001,
     0x4F7F, 0x7528, 0x5B78, 0x6821, 0x4EE3, 0x7406, 0x4E3B, 0x6A5F, 0x6216] @ asc '' vpn '' @
    [0x6A21, 0x5F0F, 0x4E0B, 0x624D, 0x53EF, 0x4E0B, 0x8F09] @
    asc '' AutoDesk PDSU  (Product Design Suite Ultimate edition) '' @ [0x5305, 0x542B] @
    asc '': Autodesk Inventor Professional AutoCAD Mechanical AutoCAD Electrical AutoCAD '' @
    asc ''Navisworks Simulate AutoCAD Raster Design Autodesk Recap Autodesk Vault Basic Autodesk '' @
    asc ''Fusion 360 Navisworks Manage AutoDesk '' @ [0x5B89, 0x88DD, 0x6559, 0x5B78] @ asc ''.pdf '' @
    [0x5B98, 0x65B9, 0x7DB2, 0x7AD9, 0x4E0B, 0x8F09] @ asc ''  '' @
    [0x5E0C, 0x671B, 0x5728, 0x4EFB, 0x4F55, 0x5730, 0x65B9, 0x4F7F, 0x7528] @ asc '','' @
    [0x53EF, 0x4EE5, 0x5F9E] @
    asc ''  https://www.autodesk.com/education/free-software/inventor-professional  , '' @ [0x4EE5] @
    asc '' @gm '' @
    [0x96FB, 0x5B50, 0x90F5, 0x7BB1, 0x767B, 0x9304, 0x4E14, 0x8A8D, 0x8B49, 0x5F8C, 0x4E0B, 0x8F09] @
    asc '', '' @ [0x53D6, 0x5F97, 0x4E09, 0x5E74, 0x514D, 0x8CBB, 0x4F7F, 0x7528, 0x6388, 0x6B0A] @
    asc ''. '' @
    [0x5141, 0x8A31, 0x540C, 0x6642, 0x5B89, 0x88DD, 0x5728, 0x7B46, 0x96FB, 0x8207, 0x684C, 0x4E0A,
     0x578B, 0x96FB, 0x8166, 0x5171, 0x5169, 0x5957] @ asc ''. '' @
    [0x5EFA, 0x8B70, 0x5B89, 0x88DD, 0x6D41, 0x7A0B] @ asc '' '' @
    [0x5229, 0x7528, 0x5B78, 0x6821, 0x914D, 0x767C, 0x7684, 0x96FB, 0x5B50, 0x90F5, 0x7BB1] @
    asc '', '' @ [0x9023, 0x7D50, 0x81F3] @
    asc ''  https://www.autodesk.com/education/free-software/inventor-professional  , '' @
    [0x767B, 0x8A18, 0x5E33, 0x865F] @ asc '', '' @ [0x9A57, 0x8B49] @ asc '' email '' @ [0x5F8C] @
    asc '', '' @ [0x53D6, 0x5F97] @ asc '' AutoDesk Inventor Professional '' @ [0x7248, 0x672C] @
    asc '' 2019 '' @ [0x7684] @ asc '' Serial Number '' @ [0x5F8C] @ asc '', '' @
    [0x5F9E, 0x5B78, 0x6821, 0x7DB2, 0x7AD9, 0x4E2D, 0x4E0B, 0x8F09] @ asc ''  AutoDesk PDSU , '' @
    [0x5B89, 0x88DD, 0x5F8C] @ asc '', '' @
    [0x5229, 0x7528, 0x524D, 0x8FF0, 0x6240, 0x53D6, 0x5F97, 0x7684, 0x5E8F, 0x865F, 0x555F, 0x52D5] @
    asc '' AutoDesk Inventor Professional 2019, '' @
    [0x4E4B, 0x5F8C, 0x5C31, 0x53EF, 0x4EE5, 0x5728, 0x4EFB, 0x4F55, 0x5730, 0x65B9, 0x4E0A, 0x7DB2,
     0x4F7F, 0x7528] @ asc ''. \<newline>'' @
    asc '' '' @ [0x53EA, 0x8981, 0x662F, 0x6821, 0x5167] @ asc '' IP '' @
    [0x5C31, 0x53EF, 0x4EE5, 0x4E0B, 0x8F09] @ asc '', '' @ [0x7121, 0x9700, 0x4F7F, 0x7528] @
    asc '' vpn. https://software.nfu.edu.tw/Developer/Visual%20Studio/tw/Visual_Studio_Pro_2019.zi'' @
    asc ''p   https://software.nfu.edu.tw/Developer/Visual%20Studio/tw/Visual_Studio_Pro_2017.zip '' @
    asc ''  https://software.nfu.edu.tw/Developer/Visual%20Studio/tw/Visual_Studio_Pro_2015.zip   '' @
    asc ''https://software.nfu.edu.tw/Developer/Visual%20Studio/en/Visual_Studio_Pro_2015.zip   '' @
    asc ''https://software.nfu.edu.tw/Windows/tw/Win10_1909_64BIT_CH.ISO '' @
    asc ''https://software.nfu.edu.tw/KMS/windows_kms.bat   '' @
    asc ''https://software.nfu.edu.tw/Office/tw/Office_Pro_Plus_2016_64Ch.iso '' @
    asc ''https://software.nfu.edu.tw/KMS/Office_2016_KMS.bat \<newline>'' @
    asc '' https://software.nfu.edu.tw/Autodesk/autodesk.iso   '' @
    asc ''https://software.nfu.edu.tw/files/AUTODESK%E5%AE%89%E8%A3%9D%E6%95%99%E5%AD%B8.pdf   '' @
    asc ''2001:288:6004:1::115''\<close>

definition part_000_text_13 :: jsstring where
  \<open>part_000_text_13 =
    [0x6709, 0x95DC] @ asc '' Google '' @ [0x7684, 0x767C, 0x5C55, 0x6B77, 0x53F2] @
    asc '':  https://en.wikipedia.org/wiki/Google  '' @
    [0x8ACB, 0x5404, 0x7D44, 0x4ED4, 0x7D30, 0x95B1, 0x8B80, 0x9019, 0x4EFD, 0x8CC7, 0x6599, 0x5F8C] @
    asc '', '' @
    [0x5C07, 0x8A8D, 0x70BA, 0x91CD, 0x9EDE, 0x7684, 0x8CC7, 0x6599, 0x653E, 0x5165, 0x5404, 0x5B78,
     0x54E1, 0x7684] @ asc '' blogger '' @
    [0x7DB2, 0x8A8C, 0x4EE5, 0x53CA, 0x500B, 0x4EBA, 0x7DB2, 0x7AD9, 0x4E2D] @ asc ''.''\<close>

definition part_000_text_14 :: jsstring where
  \<open>part_000_text_14 =
    asc ''https://flask.palletsprojects.com/en/1.1.x/   \<newline>''\<close>

definition part_000_text_15 :: jsstring where
  \<open>part_000_text_15 =
    asc ''https://github.com/zquestz/omniauth-google-oauth2 \<newline>'' @
    asc '' https://github.com/thephpleague/oauth2-google''\<close>

definition part_000_text_16 :: jsstring where
  \<open>part_000_text_16 =
    asc ''https://github.com/kuzmoyev/google-calendar-simple-api \<newline>''\<close>

definition part_000_text_17 :: jsstring where
  \<open>part_000_text_17 =
    asc ''https://github.com/iterative/PyDrive2  ''\<close>

definition part_000_text_18 :: jsstring where
  \<open>part_000_text_18 =
    [0x5229, 0x7528] @ asc '' Github '' @ [0x8207] @ asc '' Gitlab '' @
    [0x5009, 0x5132, 0x5EFA, 0x7ACB, 0x500B, 0x4EBA, 0x7DB2, 0x9801] @ asc '' \<newline>'' @
    asc '' '' @ [0x4F55, 0x8B02, 0x7DB2, 0x969B, 0x5167, 0x5BB9, 0x7BA1, 0x7406] @
    asc ''? \<newline>'' @
    asc '' Web-based Content Management \<newline>'' @
    asc '' Content? \<newline>'' @
    asc '' 3D '' @ [0x96F6, 0x7D44, 0x4EF6] @ asc '' \<newline>'' @
    asc '' https://www.onshape.com \<newline>'' @
    asc '' '' @ [0x82F1, 0x6587, 0x5B78, 0x7FD2, 0x7D00, 0x9304] @ asc '' \<newline>'' @
    asc '' '' @ [0x6578, 0x5B78, 0x5B78, 0x7FD2, 0x7D00, 0x9304] @ asc '' \<newline>'' @
    asc '' '' @ [0x5C08, 0x696D, 0x8AB2, 0x7A0B, 0x5B78, 0x7FD2, 0x7D00, 0x9304] @ asc '' \<newline>'' @
    asc '' Video \<newline>'' @
    asc '' https://github.com/ShareX/ShareX \<newline>'' @
    asc '' https://www.blender.org/ \<newline>'' @
    asc '' Audio \<newline>'' @
    asc '' https://www.audacityteam.org/ \<newline>'' @
    asc '' Images \<newline>'' @
    asc '' https://www.gimp.org/ \<newline>'' @
    asc '' https://inkscape.org/ \<newline>'' @
    asc '' Animation \<newline>'' @
    asc '' Github '' @ [0x662F, 0x751A, 0x9EBC] @ asc ''? \<newline>'' @
    asc '' Gitlab '' @ [0x53C8, 0x662F, 0x751A, 0x9EBC] @ asc ''? \<newline>'' @
    asc '' '' @ [0x81EA, 0x884C, 0x5728] @ asc '' Ubuntu '' @
    [0x64CD, 0x4F5C, 0x7CFB, 0x7D71, 0x4E0A, 0x5B89, 0x88DD] @ asc '' Gitlab? \<newline>'' @
    asc '' Ubuntu '' @ [0x64CD, 0x4F5C, 0x7CFB, 0x7D71] @ asc ''? \<newline>'' @
    asc '' '' @ [0x5BE6, 0x9AD4, 0x7CFB, 0x7D71] @ asc '' \<newline>'' @
    asc '' '' @ [0x865B, 0x64EC, 0x7CFB, 0x7D71] @ asc '' \<newline>'' @
    asc '' Virtualbox''\<close>

definition part_000_page_0 :: jsvalue where
  \<open>part_000_page_0 = JObject
    [(asc ''title'', JString (asc ''About'')),
     (asc ''text'', JString part_000_text_0),
     (asc ''tags'', JString (asc '''')),
     (asc ''url'', JString (asc ''About.html''))]\<close>

definition part_000_page_1 :: jsvalue where
  \<open>part_000_page_1 = JObject
    [(asc ''title'', JString ([0x4E09, 0x9053, 0x7246, 0x7406, 0x8AD6])),
     (asc ''text'', JString part_000_text_1),
     (asc ''tags'', JString (asc '''')),
     (asc ''url'', JString ([0x4E09, 0x9053, 0x7246, 0x7406, 0x8AD6] @ asc ''.html''))]\<close>

definition part_000_page_2 :: jsvalue where
  \<open>part_000_page_2 = JObject
    [(asc ''title'', JString (asc ''Blogger'')),
     (asc ''text'', JString part_000_text_2),
     (asc ''tags'', JString (asc '''')),
     (asc ''url'', JString (asc ''Blogger.html''))]\<close>

definition part_000_page_3 :: jsvalue where
  \<open>part_000_page_3 = JObject
    [(asc ''title'', JString ([0x500B, 0x4EBA, 0x96FB, 0x8166])),
     (asc ''text'', JString part_000_text_3),
     (asc ''tags'', JString (asc '''')),
     (asc ''url'', JString ([0x500B, 0x4EBA, 0x96FB, 0x8166] @ asc ''.html''))]\<close>

definition part_000_page_4 :: jsvalue where
  \<open>part_000_page_4 = JObject
    [(asc ''title'', JString (asc ''Network'')),
     (asc ''text'', JString part_000_text_4),
     (asc ''tags'', JString (asc '''')),
     (asc ''url'', JString (asc ''Network.html''))]\<close>

definition part_000_page_5 :: jsvalue where
  \<open>part_000_page_5 = JObject
    [(asc ''title'', JString (asc ''Switch'')),
     (asc ''text'', JString part_000_text_5),
     (asc ''tags'', JString (asc '''')),
     (asc ''url'', JString (asc ''Switch.html''))]\<close>

definition part_000_page_6 :: jsvalue where
  \<open>part_000_page_6 = JObject
    [(asc ''title'', JString (asc ''Topics'')),
     (asc ''text'', JString part_000_text_6),
     (asc ''tags'', JString (asc '''')),
     (asc ''url'', JString (asc ''Topics.html''))]\<close>

definition part_000_page_7 :: jsvalue where
  \<open>part_000_page_7 = JObject
    [(asc ''title'', JString (asc ''Topic 1'')),
     (asc ''text'', JString part_000_text_7),
     (asc ''tags'', JString (asc '''')),
     (asc ''url'', JString (asc ''Topic 1.html''))]\<close>

definition part_000_page_8 :: jsvalue where
  \<open>part_000_page_8 = JObject
    [(asc ''title'', JString (asc ''W2-W3'')),
     (asc ''text'', JString part_000_text_8),
     (asc ''tags'', JString (asc '''')),
     (asc ''url'', JString (asc ''W2-W3.html''))]\<close>

definition part_000_page_9 :: jsvalue where
  \<open>part_000_page_9 = JObject
    [(asc ''title'', JString (asc ''W4'')),
     (asc ''text'', JString part_000_text_9),
     (asc ''tags'', JString (asc '''')),
     (asc ''url'', JString (asc ''W4.html''))]\<close>

definition part_000_page_10 :: jsvalue where
  \<open>part_000_page_10 = JObject
    [(asc ''title'', JString (asc ''Python'')),
     (asc ''text'', JString part_000_text_10),
     (asc ''tags'', JString (asc '''')),
     (asc ''url'', JString (asc ''Python.html''))]\<close>

definition part_000_page_11 :: jsvalue where
  \<open>part_000_page_11 = JObject
    [(asc ''title'', JString (asc ''W5'')),
     (asc ''text'', JString part_000_text_11),
     (asc ''tags'', JString (asc '''')),
     (asc ''url'', JString (asc ''W5.html''))]\<close>

definition part_000_page_12 :: jsvalue where
  \<open>part_000_page_12 = JObject
    [(asc ''title'', JString (asc ''Topic2'')),
     (asc ''text'', JString part_000_text_12),
     (asc ''tags'', JString (asc '''')),
     (asc ''url'', JString (asc ''Topic2.html''))]\<close>

definition part_000_page_13 :: jsvalue where
  \<open>part_000_page_13 = JObject
    [(asc ''title'', JString (asc ''Google'')),
     (asc ''text'', JString part_000_text_13),
     (asc ''tags'', JString (asc '''')),
     (asc ''url'', JString (asc ''Google.html''))]\<close>

definition part_000_page_14 :: jsvalue where
  \<open>part_000_page_14 = JObject
    [(asc ''title'', JString (asc ''Flask'')),
     (asc ''text'', JString part_000_text_14),
     (asc ''tags'', JString (asc '''')),
     (asc ''url'', JString (asc ''Flask.html''))]\<close>

definition part_000_page_15 :: jsvalue where
  \<open>part_000_page_15 = JObject
    [(asc ''title'', JString (asc ''Oauth2'')),
     (asc ''text'', JString part_000_text_15),
     (asc ''tags'', JString (asc '''')),
     (asc ''url'', JString (asc ''Oauth2.html''))]\<close>

definition part_000_page_16 :: jsvalue where
  \<open>part_000_page_16 = JObject
    [(asc ''title'', JString (asc ''Calendar API'')),
     (asc ''text'', JString part_000_text_16),
     (asc ''tags'', JString (asc '''')),
     (asc ''url'', JString (asc ''Calendar API.html''))]\<close>

definition part_000_page_17 :: jsvalue where
  \<open>part_000_page_17 = JObject
    [(asc ''title'', JString (asc ''Drive API'')),
     (asc ''text'', JString part_000_text_17),
     (asc ''tags'', JString (asc '''')),
     (asc ''url'', JString (asc ''Drive API.html''))]\<close>

definition part_000_page_18 :: jsvalue where
  \<open>part_000_page_18 = JObject
    [(asc ''title'', JString (asc ''Web Site'')),
     (asc ''text'', JString part_000_text_18),
     (asc ''tags'', JString (asc '''')),
     (asc ''url'', JString (asc ''Web Site.html''))]\<close>

definition part_000_tipuesearch :: jsvalue where
  \<open>part_000_tipuesearch = JObject
    [(asc ''pages'', JArray
      [part_000_page_0, part_000_page_1, part_000_page_2, part_000_page_3,
       part_000_page_4, part_000_page_5, part_000_page_6, part_000_page_7,
       part_000_page_8, part_000_page_9, part_000_page_10, part_000_page_11,
       part_000_page_12, part_000_page_13, part_000_page_14, part_000_page_15,
       part_000_page_16, part_000_page_17, part_000_page_18])]\<close>

definition part_000_js :: program where
  \<open>part_000_js = [VarDecl (asc ''tipuesearch'') part_000_tipuesearch]\<close>

section \<open>The schema of the data\<close>

definition data_files :: "program list" where
  "data_files = [content_js, part_000_js]"

text \<open>
  The pages sequence of a file: the array under the key \<open>pages\<close> of the value that the
  file binds to \<open>tipuesearch\<close>, when the file is loaded into an empty global environment.
  \<open>None\<close> when the variable is unbound or the property is not an array.
\<close>

definition pages_of :: "program \<Rightarrow> jsvalue list option" where
  "pages_of p =
    (case run p Map.empty (asc ''tipuesearch'') of
      None \<Rightarrow> None
    | Some v \<Rightarrow> (case get_prop v (asc ''pages'') of JArray rs \<Rightarrow> Some rs | _ \<Rightarrow> None))"

definition page_fields :: "jsstring list" where
  "page_fields = [asc ''title'', asc ''text'', asc ''tags'', asc ''url'']"

text \<open>
  A page record: an object whose own properties are exactly the four fields, each of them
  present (neither \<open>undefined\<close> nor \<open>null\<close>) and a string.
\<close>

definition is_page_record :: "jsvalue \<Rightarrow> bool" where
  "is_page_record r =
    (is_object r \<and> own_keys r = page_fields \<and>
     list_all (\<lambda>k. get_prop r k \<noteq> JUndefined \<and> get_prop r k \<noteq> JNull \<and> is_string (get_prop r k))
       page_fields)"

definition title_of :: "jsvalue \<Rightarrow> jsvalue" where
  "title_of r = get_prop r (asc ''title'')"

definition text_of :: "jsvalue \<Rightarrow> jsvalue" where
  "text_of r = get_prop r (asc ''text'')"

definition tags_of :: "jsvalue \<Rightarrow> jsvalue" where
  "tags_of r = get_prop r (asc ''tags'')"

definition url_of :: "jsvalue \<Rightarrow> jsvalue" where
  "url_of r = get_prop r (asc ''url'')"

text \<open>
  Relative references (RFC 3986): a reference has a scheme when it starts with a letter,
  followed by letters, digits, \<open>+\<close>, \<open>-\<close> or \<open>.\<close>, up to a colon; it is an absolute path (or
  a network path) when it starts with a slash.
\<close>

definition is_alpha :: "16 word \<Rightarrow> bool" where
  "is_alpha c = ((0x41 \<le> c \<and> c \<le> 0x5A) \<or> (0x61 \<le> c \<and> c \<le> 0x7A))"

definition is_digit :: "16 word \<Rightarrow> bool" where
  "is_digit c = (0x30 \<le> c \<and> c \<le> 0x39)"

definition is_scheme_char :: "16 word \<Rightarrow> bool" where
  "is_scheme_char c = (is_alpha c \<or> is_digit c \<or> c = 0x2B \<or> c = 0x2D \<or> c = 0x2E)"

fun scheme_rest :: "jsstring \<Rightarrow> bool" where
  "scheme_rest [] = False"
| "scheme_rest (c # cs) = (c = 0x3A \<or> (is_scheme_char c \<and> scheme_rest cs))"

fun has_scheme :: "jsstring \<Rightarrow> bool" where
  "has_scheme [] = False"
| "has_scheme (c # cs) = (is_alpha c \<and> scheme_rest cs)"

fun is_absolute_path :: "jsstring \<Rightarrow> bool" where
  "is_absolute_path [] = False"
| "is_absolute_path (c # cs) = (c = 0x2F)"

text \<open>\<open>ends_with s t\<close> is JavaScript's \<^verbatim>\<open>s.endsWith(t)\<close>.\<close>

definition ends_with :: "jsstring \<Rightarrow> jsstring \<Rightarrow> bool" where
  "ends_with s t = (length t \<le> length s \<and> drop (length s - length t) s = t)"

definition is_relative_html_url :: "jsstring \<Rightarrow> bool" where
  "is_relative_html_url u =
    (u \<noteq> [] \<and> \<not> has_scheme u \<and> \<not> is_absolute_path u \<and> ends_with u (asc ''.html''))"

section \<open>Evaluating the literals\<close>

lemmas content_page_defs =
  content_page_0_def content_page_1_def content_page_2_def content_page_3_def
  content_page_4_def content_page_5_def content_page_6_def content_page_7_def
  content_page_8_def content_page_9_def content_page_10_def content_page_11_def

lemmas part_000_page_defs =
  part_000_page_0_def part_000_page_1_def part_000_page_2_def part_000_page_3_def
  part_000_page_4_def part_000_page_5_def part_000_page_6_def part_000_page_7_def
  part_000_page_8_def part_000_page_9_def part_000_page_10_def part_000_page_11_def
  part_000_page_12_def part_000_page_13_def part_000_page_14_def part_000_page_15_def
  part_000_page_16_def part_000_page_17_def part_000_page_18_def

lemma run_content_js:
  "run content_js e = e(asc ''tipuesearch'' \<mapsto> content_tipuesearch)"
  by (simp add: run_def content_js_def)

lemma run_part_000_js:
  "run part_000_js e = e(asc ''tipuesearch'' \<mapsto> part_000_tipuesearch)"
  by (simp add: run_def part_000_js_def)

lemma pages_of_content_js:
  "pages_of content_js =
    Some [content_page_0, content_page_1, content_page_2, content_page_3,
          content_page_4, content_page_5, content_page_6, content_page_7,
          content_page_8, content_page_9, content_page_10, content_page_11]"
  by (simp add: pages_of_def run_content_js content_tipuesearch_def)

lemma pages_of_part_000_js:
  "pages_of part_000_js =
    Some [part_000_page_0, part_000_page_1, part_000_page_2, part_000_page_3,
          part_000_page_4, part_000_page_5, part_000_page_6, part_000_page_7,
          part_000_page_8, part_000_page_9, part_000_page_10, part_000_page_11,
          part_000_page_12, part_000_page_13, part_000_page_14, part_000_page_15,
          part_000_page_16, part_000_page_17, part_000_page_18]"
  by (simp add: pages_of_def run_part_000_js part_000_tipuesearch_def)

lemma data_files_cases:
  assumes "p \<in> set data_files"
  obtains "p = content_js" | "p = part_000_js"
  using assms by (auto simp add: data_files_def)

lemma asc_Nil: "asc [] = []"
  by (simp add: asc_def)

lemma asc_append: "asc (s @ t) = asc s @ asc t"
  by (simp add: asc_def)

text \<open>The four field names are pairwise different strings.\<close>

lemma field_names_differ:
  "asc ''title'' \<noteq> asc ''text''" "asc ''title'' \<noteq> asc ''tags''" "asc ''title'' \<noteq> asc ''url''"
  "asc ''text'' \<noteq> asc ''title''" "asc ''text'' \<noteq> asc ''tags''" "asc ''text'' \<noteq> asc ''url''"
  "asc ''tags'' \<noteq> asc ''title''" "asc ''tags'' \<noteq> asc ''text''" "asc ''tags'' \<noteq> asc ''url''"
  "asc ''url'' \<noteq> asc ''title''" "asc ''url'' \<noteq> asc ''text''" "asc ''url'' \<noteq> asc ''tags''"
  by (simp_all add: asc_def)

text \<open>What a literal with the four fields in the order of the files evaluates to.\<close>

lemma record_literal_fields:
  fixes t x g u :: jsstring
  defines "r \<equiv> JObject [(asc ''title'', JString t), (asc ''text'', JString x),
                         (asc ''tags'', JString g), (asc ''url'', JString u)]"
  shows "title_of r = JString t" and "text_of r = JString x"
    and "tags_of r = JString g" and "url_of r = JString u"
    and "own_keys r = page_fields" and "is_object r"
  by (simp_all add: r_def title_of_def text_of_def tags_of_def url_of_def page_fields_def
      field_names_differ)

lemma record_literal_is_page_record:
  "is_page_record (JObject [(asc ''title'', JString t), (asc ''text'', JString x),
                            (asc ''tags'', JString g), (asc ''url'', JString u)])"
  by (simp add: is_page_record_def page_fields_def field_names_differ)

text \<open>The records of each file, one by one.\<close>

lemma content_records:
  "list_all is_page_record (the (pages_of content_js))"
  by (simp add: pages_of_content_js content_page_defs record_literal_is_page_record)

lemma part_000_records:
  "list_all is_page_record (the (pages_of part_000_js))"
  by (simp add: pages_of_part_000_js part_000_page_defs record_literal_is_page_record)

lemma pages_of_defined:
  assumes "p \<in> set data_files"
  shows "pages_of p = Some (the (pages_of p))"
  using assms
  by (cases rule: data_files_cases) (simp_all add: pages_of_content_js pages_of_part_000_js)

section \<open>The properties of the specification\<close>

text \<open>
  Claim C1: every record of the pages sequence of each of the two files has exactly the
  four fields title, text, tags and url (here even in this order), each of them present
  (neither undefined nor null) and each a string.
\<close>

theorem records_have_four_string_fields:
  assumes "p \<in> set data_files"
  shows "\<exists>rs. pages_of p = Some rs \<and> (\<forall>r \<in> set rs. is_page_record r)"
proof -
  have "list_all is_page_record (the (pages_of p))"
    using assms by (cases rule: data_files_cases) (simp_all add: content_records part_000_records)
  then have "\<forall>r \<in> set (the (pages_of p)). is_page_record r"
    by (simp add: list_all_iff)
  with pages_of_defined [OF assms] show ?thesis
    by blast
qed

theorem records_have_four_string_fields_witness:
  "part_000_js \<in> set data_files \<and>
   (\<exists>rs. pages_of part_000_js = Some rs \<and> part_000_page_1 \<in> set rs \<and>
      is_page_record part_000_page_1 \<and>
      own_keys part_000_page_1 = [asc ''title'', asc ''text'', asc ''tags'', asc ''url''] \<and>
      is_string (get_prop part_000_page_1 (asc ''text'')))"
proof -
  have m: "part_000_js \<in> set data_files"
    by (simp add: data_files_def)
  from records_have_four_string_fields [OF m] obtain rs
    where rs: "pages_of part_000_js = Some rs" and all: "\<forall>r \<in> set rs. is_page_record r"
    by blast
  from rs have mem: "part_000_page_1 \<in> set rs"
    by (auto simp add: pages_of_part_000_js)
  with all have "is_page_record part_000_page_1"
    by blast
  then have "own_keys part_000_page_1 = [asc ''title'', asc ''text'', asc ''tags'', asc ''url'']"
    and "is_string (get_prop part_000_page_1 (asc ''text''))"
    by (simp_all add: is_page_record_def page_fields_def)
  with m rs mem \<open>is_page_record part_000_page_1\<close> show ?thesis
    by blast
qed

text \<open>
  Claim C2: the url of every record of each file is a relative path: it has no URI scheme,
  it does not start with a slash, and it ends with the suffix \<open>.html\<close>.
\<close>

theorem urls_are_relative_html_paths:
  assumes "p \<in> set data_files"
  shows "\<exists>rs. pages_of p = Some rs \<and>
    (\<forall>r \<in> set rs. \<exists>u. url_of r = JString u \<and> is_relative_html_url u)"
  using assms
proof (cases rule: data_files_cases)
  case 1
  show ?thesis
    unfolding 1 pages_of_content_js
    apply (simp add: content_page_defs record_literal_fields)
    apply (simp add: is_relative_html_url_def asc_def ends_with_def
        is_alpha_def is_digit_def is_scheme_char_def)
    done
next
  case 2
  show ?thesis
    unfolding 2 pages_of_part_000_js
    apply (simp add: part_000_page_defs record_literal_fields)
    apply (simp add: is_relative_html_url_def asc_def ends_with_def
        is_alpha_def is_digit_def is_scheme_char_def)
    done
qed

theorem urls_are_relative_html_paths_witness:
  "content_js \<in> set data_files \<and>
   (\<exists>rs u. pages_of content_js = Some rs \<and> content_page_9 \<in> set rs \<and>
      url_of content_page_9 = JString u \<and> u = asc ''Calendar API.html'' \<and>
      \<not> has_scheme u \<and> \<not> is_absolute_path u \<and> ends_with u (asc ''.html''))"
proof -
  have m: "content_js \<in> set data_files"
    by (simp add: data_files_def)
  from urls_are_relative_html_paths [OF m] obtain rs
    where rs: "pages_of content_js = Some rs"
      and all: "\<forall>r \<in> set rs. \<exists>u. url_of r = JString u \<and> is_relative_html_url u"
    by blast
  from rs have mem: "content_page_9 \<in> set rs"
    by (auto simp add: pages_of_content_js)
  with all obtain u where u: "url_of content_page_9 = JString u" and rel: "is_relative_html_url u"
    by blast
  from u have "u = asc ''Calendar API.html''"
    by (simp add: content_page_9_def record_literal_fields)
  with m rs mem u rel show ?thesis
    by (simp add: is_relative_html_url_def)
qed

text \<open>
  Nothing more is true of the urls as URI references: they are not limited to the
  characters that RFC 3986 allows in a path. One holds a space and one starts with a CJK
  ideograph.
\<close>

lemma urls_hold_other_characters:
  "\<exists>u. url_of content_page_9 = JString u \<and> 0x20 \<in> set u"
  "\<exists>u. url_of content_page_1 = JString u \<and> hd u = 0x4E09"
   apply (simp add: content_page_9_def record_literal_fields)
   apply (simp add: asc_def)
  apply (simp add: content_page_1_def record_literal_fields)
  done

text \<open>
  Claim C3: the tags field of every record of each file is the empty string.
\<close>

theorem tags_are_empty:
  assumes "p \<in> set data_files"
  shows "\<exists>rs. pages_of p = Some rs \<and> (\<forall>r \<in> set rs. tags_of r = JString [])"
  using assms
proof (cases rule: data_files_cases)
  case 1
  show ?thesis
    unfolding 1 pages_of_content_js
    by (simp add: content_page_defs record_literal_fields asc_Nil)
next
  case 2
  show ?thesis
    unfolding 2 pages_of_part_000_js
    by (simp add: part_000_page_defs record_literal_fields asc_Nil)
qed

theorem tags_are_empty_witness:
  "part_000_js \<in> set data_files \<and>
   (\<exists>rs. pages_of part_000_js = Some rs \<and> part_000_page_18 \<in> set rs \<and>
      get_prop part_000_page_18 (asc ''tags'') = JString [])"
proof -
  have m: "part_000_js \<in> set data_files"
    by (simp add: data_files_def)
  from tags_are_empty [OF m] obtain rs
    where rs: "pages_of part_000_js = Some rs" and all: "\<forall>r \<in> set rs. tags_of r = JString []"
    by blast
  from rs have mem: "part_000_page_18 \<in> set rs"
    by (auto simp add: pages_of_part_000_js)
  with all have "tags_of part_000_page_18 = JString []"
    by blast
  with m rs mem show ?thesis
    by (simp add: tags_of_def)
qed

text \<open>
  Claim C4: in each file the value assigned to \<open>tipuesearch\<close> (whatever the environment
  before) is an object with exactly one key, \<open>pages\<close>, and the value under that key is an
  array (an ordered sequence) of page records.
\<close>

theorem tipuesearch_is_object_with_pages:
  assumes "p \<in> set data_files"
  shows "\<exists>v rs. run p e (asc ''tipuesearch'') = Some v \<and> is_object v \<and>
    own_keys v = [asc ''pages''] \<and> get_prop v (asc ''pages'') = JArray rs \<and>
    list_all is_page_record rs"
  using assms
proof (cases rule: data_files_cases)
  case 1
  have "list_all is_page_record (the (pages_of content_js))"
    by (rule content_records)
  then show ?thesis
    unfolding 1 pages_of_content_js
    by (simp add: run_content_js content_tipuesearch_def)
next
  case 2
  have "list_all is_page_record (the (pages_of part_000_js))"
    by (rule part_000_records)
  then show ?thesis
    unfolding 2 pages_of_part_000_js
    by (simp add: run_part_000_js part_000_tipuesearch_def)
qed

theorem tipuesearch_is_object_with_pages_witness:
  "content_js \<in> set data_files \<and>
   (\<exists>v rs. run content_js Map.empty (asc ''tipuesearch'') = Some v \<and> v = content_tipuesearch \<and>
      is_object v \<and> own_keys v = [asc ''pages''] \<and> get_prop v (asc ''pages'') = JArray rs \<and>
      length rs = 12 \<and> list_all is_page_record rs)"
proof -
  have m: "content_js \<in> set data_files"
    by (simp add: data_files_def)
  from tipuesearch_is_object_with_pages [OF m, of Map.empty] obtain v rs
    where v: "run content_js Map.empty (asc ''tipuesearch'') = Some v"
      and shape: "is_object v" "own_keys v = [asc ''pages'']"
      and rs: "get_prop v (asc ''pages'') = JArray rs" and recs: "list_all is_page_record rs"
    by blast
  from v have eq: "v = content_tipuesearch"
    by (simp add: run_content_js)
  with rs have "length rs = 12"
    by (auto simp add: content_tipuesearch_def)
  with m v eq shape rs recs show ?thesis
    by blast
qed

text \<open>
  Claim C5: in each file the pages sequence is non-empty.
\<close>

theorem pages_nonempty:
  assumes "p \<in> set data_files"
  shows "\<exists>rs. pages_of p = Some rs \<and> rs \<noteq> []"
  using assms
  by (cases rule: data_files_cases) (simp_all add: pages_of_content_js pages_of_part_000_js)

theorem pages_nonempty_witness:
  "part_000_js \<in> set data_files \<and>
   (\<exists>rs. pages_of part_000_js = Some rs \<and> rs \<noteq> [] \<and> hd rs = part_000_page_0 \<and> length rs = 19)"
proof -
  have m: "part_000_js \<in> set data_files"
    by (simp add: data_files_def)
  from pages_nonempty [OF m] obtain rs
    where rs: "pages_of part_000_js = Some rs" and ne: "rs \<noteq> []"
    by blast
  from rs have "hd rs = part_000_page_0" and "length rs = 19"
    by (auto simp add: pages_of_part_000_js)
  with m rs ne show ?thesis
    by blast
qed

text \<open>
  Claim C6: titles and urls repeat across the two files: some title is the title of a
  record of both files, and some url is the url of a record of both files, so the titles
  (and the urls) of the two sequences taken together are not pairwise distinct.
\<close>

theorem titles_and_urls_repeat_across_files:
  "\<exists>rs1 rs2. pages_of content_js = Some rs1 \<and> pages_of part_000_js = Some rs2 \<and>
    (\<exists>t. JString t \<in> set (map title_of rs1) \<and> JString t \<in> set (map title_of rs2)) \<and>
    (\<exists>u. JString u \<in> set (map url_of rs1) \<and> JString u \<in> set (map url_of rs2)) \<and>
    \<not> distinct (map title_of (rs1 @ rs2)) \<and> \<not> distinct (map url_of (rs1 @ rs2))"
proof -
  let ?rs1 = "the (pages_of content_js)" and ?rs2 = "the (pages_of part_000_js)"
  have t1: "JString (asc ''About'') \<in> set (map title_of ?rs1)"
    by (simp add: pages_of_content_js content_page_0_def record_literal_fields)
  have t2: "JString (asc ''About'') \<in> set (map title_of ?rs2)"
    by (simp add: pages_of_part_000_js part_000_page_0_def record_literal_fields)
  have u1: "JString (asc ''About.html'') \<in> set (map url_of ?rs1)"
    by (simp add: pages_of_content_js content_page_0_def record_literal_fields)
  have u2: "JString (asc ''About.html'') \<in> set (map url_of ?rs2)"
    by (simp add: pages_of_part_000_js part_000_page_0_def record_literal_fields)
  from t1 t2 have "set (map title_of ?rs1) \<inter> set (map title_of ?rs2) \<noteq> {}"
    by blast
  then have dt: "\<not> distinct (map title_of (?rs1 @ ?rs2))"
    by simp
  from u1 u2 have "set (map url_of ?rs1) \<inter> set (map url_of ?rs2) \<noteq> {}"
    by blast
  then have du: "\<not> distinct (map url_of (?rs1 @ ?rs2))"
    by simp
  have "pages_of content_js = Some ?rs1" and "pages_of part_000_js = Some ?rs2"
    by (simp_all add: pages_of_content_js pages_of_part_000_js)
  with t1 t2 u1 u2 dt du show ?thesis
    by blast
qed

text \<open>
  Claim C8: in every record of each file the url is the title followed by \<open>.html\<close>.
\<close>

theorem url_is_title_dot_html:
  assumes "p \<in> set data_files"
  shows "\<exists>rs. pages_of p = Some rs \<and>
    (\<forall>r \<in> set rs. \<exists>t. title_of r = JString t \<and> url_of r = JString (t @ asc ''.html''))"
  using assms
proof (cases rule: data_files_cases)
  case 1
  show ?thesis
    unfolding 1 pages_of_content_js
    by (simp add: content_page_defs record_literal_fields asc_append [symmetric])
next
  case 2
  show ?thesis
    unfolding 2 pages_of_part_000_js
    by (simp add: part_000_page_defs record_literal_fields asc_append [symmetric])
qed

theorem url_is_title_dot_html_witness:
  "part_000_js \<in> set data_files \<and>
   (\<exists>rs. pages_of part_000_js = Some rs \<and> part_000_page_7 \<in> set rs \<and>
      title_of part_000_page_7 = JString (asc ''Topic 1'') \<and>
      url_of part_000_page_7 = JString (asc ''Topic 1'' @ asc ''.html''))"
proof -
  have m: "part_000_js \<in> set data_files"
    by (simp add: data_files_def)
  from url_is_title_dot_html [OF m] obtain rs
    where rs: "pages_of part_000_js = Some rs"
      and all: "\<forall>r \<in> set rs. \<exists>t. title_of r = JString t \<and> url_of r = JString (t @ asc ''.html'')"
    by blast
  from rs have mem: "part_000_page_7 \<in> set rs"
    by (auto simp add: pages_of_part_000_js)
  with all obtain t where t: "title_of part_000_page_7 = JString t"
    and u: "url_of part_000_page_7 = JString (t @ asc ''.html'')"
    by blast
  from t have "t = asc ''Topic 1''"
    by (simp add: part_000_page_7_def record_literal_fields)
  with m rs mem t u show ?thesis
    by blast
qed

text \<open>
  Claim C9: inside each single file the titles of the records are pairwise distinct and so
  are the urls; titles and urls are duplicated only between the two files.
\<close>

theorem titles_and_urls_distinct_within_file:
  "(\<forall>p \<in> set data_files. \<exists>rs. pages_of p = Some rs \<and>
      distinct (map title_of rs) \<and> distinct (map url_of rs)) \<and>
   (\<exists>rs1 rs2. pages_of content_js = Some rs1 \<and> pages_of part_000_js = Some rs2 \<and>
      \<not> distinct (map title_of rs1 @ map title_of rs2) \<and>
      \<not> distinct (map url_of rs1 @ map url_of rs2))"
proof -
  have c: "distinct (map title_of (the (pages_of content_js))) \<and>
      distinct (map url_of (the (pages_of content_js)))"
    unfolding pages_of_content_js
    apply (simp add: content_page_defs record_literal_fields)
    apply (simp add: asc_def)
    done
  have d: "distinct (map title_of (the (pages_of part_000_js))) \<and>
      distinct (map url_of (the (pages_of part_000_js)))"
    unfolding pages_of_part_000_js
    apply (simp add: part_000_page_defs record_literal_fields)
    apply (simp add: asc_def)
    done
  have e: "\<not> distinct (map title_of (the (pages_of content_js)) @ map title_of (the (pages_of part_000_js)))"
    unfolding pages_of_content_js pages_of_part_000_js
    by (simp add: content_page_0_def part_000_page_0_def record_literal_fields)
  have f: "\<not> distinct (map url_of (the (pages_of content_js)) @ map url_of (the (pages_of part_000_js)))"
    unfolding pages_of_content_js pages_of_part_000_js
    by (simp add: content_page_0_def part_000_page_0_def record_literal_fields)
  have s: "pages_of content_js = Some (the (pages_of content_js))"
    "pages_of part_000_js = Some (the (pages_of part_000_js))"
    by (simp_all add: pages_of_content_js pages_of_part_000_js)
  have "\<exists>rs. pages_of p = Some rs \<and> distinct (map title_of rs) \<and> distinct (map url_of rs)"
    if "p \<in> set data_files" for p
    using that
  proof (cases rule: data_files_cases)
    case 1
    from c s(1) show ?thesis
      unfolding 1 by blast
  next
    case 2
    from d s(2) show ?thesis
      unfolding 2 by blast
  qed
  then have "\<forall>p \<in> set data_files. \<exists>rs. pages_of p = Some rs \<and>
      distinct (map title_of rs) \<and> distinct (map url_of rs)"
    by blast
  moreover from e f s have "\<exists>rs1 rs2. pages_of content_js = Some rs1 \<and>
      pages_of part_000_js = Some rs2 \<and>
      \<not> distinct (map title_of rs1 @ map title_of rs2) \<and>
      \<not> distinct (map url_of rs1 @ map url_of rs2)"
    by blast
  ultimately show ?thesis
    by blast
qed

theorem titles_and_urls_distinct_within_file_witness:
  "content_js \<in> set data_files \<and>
   (\<exists>rs. pages_of content_js = Some rs \<and> length rs = 12 \<and>
      distinct (map title_of rs) \<and> distinct (map url_of rs) \<and>
      title_of (rs ! 0) \<noteq> title_of (rs ! 1))"
proof -
  have m: "content_js \<in> set data_files"
    by (simp add: data_files_def)
  from titles_and_urls_distinct_within_file m obtain rs
    where rs: "pages_of content_js = Some rs"
      and dt: "distinct (map title_of rs)" and du: "distinct (map url_of rs)"
    by blast
  from rs have len: "length rs = 12"
    by (auto simp add: pages_of_content_js)
  with dt have "title_of (rs ! 0) \<noteq> title_of (rs ! 1)"
    by (simp add: distinct_conv_nth)
  with m rs len dt du show ?thesis
    by blast
qed

text \<open>
  Claim C10: a text field may be the empty string although all four fields are present:
  the record titled \<open>Google\<close> of \<^verbatim>\<open>content/tipuesearch_content.js\<close> is a page
  record whose text is the empty string while its title and its url are non-empty.
\<close>

theorem google_record_has_empty_text:
  "\<exists>rs r t u. pages_of content_js = Some rs \<and> r \<in> set rs \<and> is_page_record r \<and>
    title_of r = JString t \<and> t = asc ''Google'' \<and> t \<noteq> [] \<and>
    url_of r = JString u \<and> u \<noteq> [] \<and>
    text_of r = JString [] \<and> tags_of r = JString []"
proof -
  have "content_page_6 \<in> set (the (pages_of content_js))"
    by (simp add: pages_of_content_js)
  moreover have "is_page_record content_page_6"
    by (simp add: content_page_6_def record_literal_is_page_record)
  moreover have "title_of content_page_6 = JString (asc ''Google'')"
    and "url_of content_page_6 = JString (asc ''Google.html'')"
    and "text_of content_page_6 = JString []" and "tags_of content_page_6 = JString []"
    by (simp_all add: content_page_6_def record_literal_fields content_text_6_def asc_Nil)
  moreover have "asc ''Google'' \<noteq> []" and "asc ''Google.html'' \<noteq> []"
    by (simp_all add: asc_def)
  moreover have "pages_of content_js = Some (the (pages_of content_js))"
    by (simp add: pages_of_content_js)
  ultimately show ?thesis
    by blast
qed

end
